theory Spec2Isabelle
  imports Main
begin

unbundle bit_operations_syntax

section \<open>The Elev8 flight controller main thread (Firmware-C/elev8-main.cpp)\<close>

text \<open>
  A shallow embedding of the main thread of the flight controller. The globals of
  the C file form one record, every function of the file is a function on that record,
  and the drivers the file talks to (sensors, IMU, PID objects, serial ports, beeper,
  servo outputs, preference storage) sit at the border: what they return in a tick is
  a field of the tick's input record, and every call made to them is appended to an
  event log.

  Integers are mathematical integers. Division by \<open>/\<close> truncates towards zero
  (\<open>cdiv\<close>), \<open>>>\<close> on a signed value is an arithmetic shift (\<open>div 2 ^ n\<close>,
  rounding down), and a store into a \<open>short\<close> variable wraps to 16 bits
  (\<open>sshort\<close>). Every value handed over by a driver lies in the range of its C type.
  Where \<open>int\<close> arithmetic on such values can leave the 32-bit range (the gyro and
  accelerometer filters, the throttle computation and the mixer, which multiply values
  of the IMU and of the PID objects) the result wraps to 32 bits (\<open>cint\<close>), applied where
  the value is divided, shifted, compared or stored; the sums and products inside keep
  their exact value, which is the same modulo \<open>2 ^ 32\<close>. Arithmetic on the 16-bit
  radio channels stays in range, and the loop counter is taken not to reach \<open>2 ^ 31\<close>
  passes. Time (the system counter, \<open>waitcnt\<close>, \<open>loopTimer\<close>) is left out, and so
  is \<open>Initialize\<close>, which only starts the drivers and sets the globals a run begins
  with.
\<close>

subsection \<open>C arithmetic\<close>

text \<open>C's \<open>/\<close> on \<open>int\<close>: the quotient of the magnitudes, negative when the signs differ.\<close>

definition cdiv :: "int \<Rightarrow> int \<Rightarrow> int" where
  "cdiv a b = (if (a < 0) = (b < 0) then \<bar>a\<bar> div \<bar>b\<bar> else - (\<bar>a\<bar> div \<bar>b\<bar>))"

text \<open>A store into a \<open>short\<close>: the value modulo \<open>2 ^ 16\<close>, read as two's complement.\<close>

definition sshort :: "int \<Rightarrow> int" where
  "sshort x = (x + 32768) mod 65536 - 32768"

text \<open>An \<open>int\<close> (or \<open>long\<close>) result: the value modulo \<open>2 ^ 32\<close>, read as two's complement.\<close>

definition cint :: "int \<Rightarrow> int" where
  "cint x = (x + 2147483648) mod 4294967296 - 2147483648"

text \<open>\<open>static int clamp( int v, int min, int max )\<close>\<close>

definition clamp :: "int \<Rightarrow> int \<Rightarrow> int \<Rightarrow> int" where
  "clamp v mn mx =
     (let v1 = (if v < mn then mn else v);
          v2 = (if v1 > mx then mx else v1)
      in v2)"

text \<open>\<open>static int abs(int v)\<close>, \<open>max\<close> and \<open>min\<close> of the file.\<close>

definition abs_c :: "int \<Rightarrow> int" where
  "abs_c v = (if v < 0 then - v else v)"

definition max_c :: "int \<Rightarrow> int \<Rightarrow> int" where
  "max_c a b = (if a > b then a else b)"

definition min_c :: "int \<Rightarrow> int \<Rightarrow> int" where
  "min_c a b = (if a < b then a else b)"

subsection \<open>Data\<close>

text \<open>The RADIO frame: eight scaled channels under their names.\<close>

record radio =
  Thro :: int
  Aile :: int
  Elev :: int
  Rudd :: int
  Gear :: int
  Aux1 :: int
  Aux2 :: int
  Aux3 :: int

text \<open>The SENS frame copied from the sensors driver at the start of a tick.\<close>

record sens_frame =
  Temperature :: int
  GyroX :: int
  GyroY :: int
  GyroZ :: int
  AccelX :: int
  AccelY :: int
  AccelZ :: int
  MagX :: int
  MagY :: int
  MagZ :: int
  Alt :: int
  AltTemp :: int

text \<open>
  Modelled from the spec: the PREFS structure, declared in prefs.h, which is not part of
  the sources at hand. The fields are those the spec lists and the main file uses; the
  per-channel and per-axis tables are lists.
\<close>

record prefs =
  MinThrottle :: int
  MinThrottleArmed :: int
  MaxThrottle :: int
  CenterThrottle :: int
  ChannelIndex :: "int list"
  ChannelCenter :: "int list"
  ChannelScale :: "int list"
  DriftScale :: "int list"
  AccelOffset :: "int list"
  MagScaleOfs :: "int list"
  RollCorrect :: "int list"
  PitchCorrect :: "int list"
  AutoLevelRollPitch :: int
  AutoLevelYawRate :: int
  ManualRollPitchRate :: int
  ManualYawRate :: int
  AccelCorrectionFilter :: int
  ThrustCorrectionScale :: int
  VoltageOffset :: int
  LowVoltageAlarmThreshold :: int
  ArmDelay :: int
  DisarmDelay :: int
  UseSBUS :: int
  UseBattMon :: int
  DisableMotors :: int
  LowVoltageAlarm :: int
  Checksum :: int

text \<open>
  Modelled from the spec: the flight modes, whose numeric values are declared in
  elev8-main.h (not at hand). \<open>FlightMode & 3\<close> indexes \<open>LEDColorTable\<close>, whose
  comments give the order Assisted, Automatic, Manual, CompCalib.
\<close>

datatype flight_mode =
  FlightMode_Assisted | FlightMode_Automatic | FlightMode_Manual | FlightMode_CalibrateCompass

fun flight_mode_index :: "flight_mode \<Rightarrow> nat" where
  "flight_mode_index FlightMode_Assisted = 0"
| "flight_mode_index FlightMode_Automatic = 1"
| "flight_mode_index FlightMode_Manual = 2"
| "flight_mode_index FlightMode_CalibrateCompass = 3"

datatype pid_id = RollPID | PitchPID | YawPID | AltPID | AscentPID

text \<open>
  Calls into the drivers, in the order they are made. \<open>Ev_Servo32_Set k v\<close> is
  \<open>Servo32_Set( MotorPin[k], v )\<close>, with \<open>MotorPin = {FL, FR, BR, BL}\<close>.
\<close>

datatype event =
    Ev_Beep
  | Ev_Beep2
  | Ev_Beep3
  | Ev_BeepTune
  | Ev_BeepHz int int
  | Ev_BeepOn int
  | Ev_BeepOff
  | Ev_Servo32_Set nat int
  | Ev_QuatIMU_SetInitialAltitudeGuess int
  | Ev_QuatIMU_Update
  | Ev_QuatIMU_UpdateControls radio bool
  | Ev_QuatIMU_ResetDesiredOrientation
  | Ev_QuatIMU_ResetDesiredYaw
  | Ev_QuatIMU_SetGyroZero int int int
  | Ev_PID_Calculate pid_id int int int
  | Ev_PID_ResetIntegralError pid_id
  | Ev_PID_SetPGain pid_id int
  | Ev_PID_SetIGain pid_id int
  | Ev_Sensors_TempZeroDriftValues
  | Ev_Sensors_ResetDriftValues
  | Ev_Sensors_TempZeroAccelOffsetValues
  | Ev_Sensors_ResetAccelOffsetValues
  | Ev_Sensors_SetDriftValues "int list"
  | Ev_Sensors_SetAccelOffsetValues "int list"
  | Ev_Sensors_SetMagnetometerScaleOffsets "int list"
  | Ev_QuatIMU_SetRollCorrection "int list"
  | Ev_QuatIMU_SetPitchCorrection "int list"
  | Ev_QuatIMU_SetAutoLevelRates int int
  | Ev_QuatIMU_SetManualRates int int
  | Ev_Prefs_Save prefs
  | Ev_Prefs_Load
  | Ev_Prefs_SetDefaults
  | Ev_Battery_DischargePin
  | Ev_Battery_ChargePin
  | Ev_S4_Put nat int
  | Ev_SendPacket nat int "int list"
  | Ev_SendPrefs nat prefs

text \<open>
  Constants of headers that are not at hand (elev8-main.h, constants.h, pins.h and the
  LED colour definitions) and the pure checksum function of the preferences module are
  parameters of the model.
\<close>

record fc_consts =
  MODE_None :: int
  MODE_SensorTest :: int
  MODE_MotorTest :: int
  LED_Red :: int
  LED_Green :: int
  LED_Blue :: int
  LED_Yellow :: int
  LED_Cyan :: int
  LED_White :: int
  LED_Violet :: int
  LED_Half :: int
  Const_OneG :: int
  PINS_V3 :: bool
  PINS_V2 :: bool
  FORCE_SBUS :: bool
  Prefs_CalculateChecksum :: "prefs \<Rightarrow> int"

text \<open>The globals of the file.\<close>

record fc_state =
  UsbPulse :: int
  XBeePulse :: int
  Radio :: radio
  Sens :: sens_frame
  GyroZX :: int
  GyroZY :: int
  GyroZZ :: int
  AccelZSmooth :: int
  counter :: int
  Mode :: int
  NudgeMotor :: int
  AltiEst :: int
  AscentEst :: int
  DesiredAltitude :: int
  DesiredAscentRate :: int
  RollDifference :: int
  PitchDifference :: int
  YawDifference :: int
  GyroRoll :: int
  GyroPitch :: int
  GyroYaw :: int
  GyroRPFilter :: int
  GyroYawFilter :: int
  Motor :: "nat \<Rightarrow> int"
  LEDValue :: int
  FlightEnableStep :: int
  CompassConfigStep :: int
  FlightEnabled :: int
  FlightMode :: flight_mode
  IsHolding :: int
  BatteryMonitorDelay :: int
  LEDModeColor :: int
  BatteryVolts :: int
  Prefs :: prefs
  events :: "event list"

text \<open>
  What the drivers hand to the main thread during one pass of the main loop.
  \<open>in_Sensors_In p a\<close> is the value of \<open>Sensors_In(1+a)\<close> in the \<open>p\<close>-th pass over
  the three gyro axes made by \<open>FindGyroZero\<close>; \<open>in_phase\<close> is the indeterminate
  initial value of the local \<open>phase\<close> of \<open>DoDebugModeOutput\<close>; \<open>in_TempPrefs\<close>
  is the record formed by the \<open>sizeof(Prefs)\<close> bytes read after command 0x19.
\<close>

record tick_in =
  in_sens :: sens_frame
  in_Radio :: radio
  in_RollOut :: int
  in_PitchOut :: int
  in_YawOut :: int
  in_AltPID :: int
  in_AscentPID :: int
  in_ThrustFactor :: int
  in_PitchDifference :: int
  in_RollDifference :: int
  in_YawDifference :: int
  in_AltitudeEstimate :: int
  in_VerticalVelocityEstimate :: int
  in_BatteryVoltage :: int
  in_S4_Check0 :: int
  in_S4_Check1 :: int
  in_S4_Get_Timed :: int
  in_S4_Get0 :: int
  in_TempPrefs :: prefs
  in_Prefs_Load :: prefs
  in_Prefs_Load_ok :: int
  in_Prefs_Defaults :: prefs
  in_Sensors_In :: "nat \<Rightarrow> nat \<Rightarrow> int"
  in_phase :: int

definition emit :: "event \<Rightarrow> fc_state \<Rightarrow> fc_state" where
  "emit e s = s\<lparr>events := events s @ [e]\<rparr>"

text \<open>\<open>All_LED\<close>: every entry of \<open>LEDValue\<close> receives the colour.\<close>

definition All_LED :: "int \<Rightarrow> fc_state \<Rightarrow> fc_state" where
  "All_LED Color s = s\<lparr>LEDValue := Color\<rparr>"

subsection \<open>FindGyroZero\<close>

definition MinTries :: nat where "MinTries = 2"
definition MaxTries :: nat where "MaxTries = 64"

text \<open>
  One pass of the \<open>do\<close> body up to the computation of \<open>maxVar\<close>: the starting
  reading (pass \<open>p\<close>), the 64 readings (passes \<open>p + 1 .. p + 64\<close>) and the averages.
  The three axes are the three entries of each list.
\<close>

definition gz_start :: "(nat \<Rightarrow> nat \<Rightarrow> int) \<Rightarrow> nat \<Rightarrow> int list \<times> int list \<times> int list" where
  "gz_start rd p = (map (rd p) [0..<3], map (rd p) [0..<3], map (\<lambda>a. 0) [0..<3])"

definition gz_sample ::
  "(nat \<Rightarrow> nat \<Rightarrow> int) \<Rightarrow> nat \<Rightarrow> int list \<times> int list \<times> int list \<Rightarrow> int list \<times> int list \<times> int list" where
  "gz_sample rd p acc =
     (case acc of (vmin, vmax, avg) \<Rightarrow>
        (map (\<lambda>a. min_c (vmin ! a) (rd p a)) [0..<3],
         map (\<lambda>a. max_c (vmax ! a) (rd p a)) [0..<3],
         map (\<lambda>a. avg ! a + rd p a) [0..<3]))"

definition gz_collect :: "(nat \<Rightarrow> nat \<Rightarrow> int) \<Rightarrow> nat \<Rightarrow> int list \<times> int list \<times> int list" where
  "gz_collect rd p = fold (\<lambda>i acc. gz_sample rd (p + 1 + i) acc) [0..<64] (gz_start rd p)"

definition gz_window :: "(nat \<Rightarrow> nat \<Rightarrow> int) \<Rightarrow> nat \<Rightarrow> int list \<times> int" where
  "gz_window rd p =
     (case gz_collect rd p of (vmin, vmax, avg) \<Rightarrow>
        (let avg' = map (\<lambda>a. cdiv (avg ! a) 64) [0..<3];
             maxVar = fold (\<lambda>a m. max_c m (abs_c (cdiv (vmax ! a + vmin ! a) 2 - avg' ! a))) [0..<3] 0
         in (avg', maxVar)))"

text \<open>
  The \<open>do ... while\<close> loop. \<open>TryCounter\<close> is its value at the start of the body; the window of pass
  \<open>TryCounter\<close> starts at sensor pass \<open>65 * TryCounter\<close>. The result is
  \<open>(best, bestvar, TryCounter, beeps)\<close> at the exit of the loop.
\<close>

function FindGyroZero_loop ::
  "(nat \<Rightarrow> nat \<Rightarrow> int) \<Rightarrow> nat \<Rightarrow> int list \<Rightarrow> int \<Rightarrow> event list \<Rightarrow> int list \<times> int \<times> nat \<times> event list" where
  "FindGyroZero_loop rd TryCounter best bestvar ev =
     (let w = gz_window rd (65 * TryCounter);
          best' = (if bestvar = -1 \<or> snd w < bestvar then fst w else best);
          bestvar' = (if bestvar = -1 \<or> snd w < bestvar then snd w else bestvar);
          ev' = (if (int TryCounter) AND 3 = 3 then ev @ [Ev_BeepHz 4000 80] else ev);
          TryCounter' = TryCounter + 1
      in if TryCounter' < MaxTries \<and> (bestvar' > 2 \<or> TryCounter' < MinTries)
         then FindGyroZero_loop rd TryCounter' best' bestvar' ev'
         else (best', bestvar', TryCounter', ev'))"
  by pat_completeness auto
termination
  by (relation "measure (\<lambda>(rd, TryCounter, best, bestvar, ev). MaxTries - TryCounter)") auto

declare FindGyroZero_loop.simps [simp del]






text \<open>
  \<open>best\<close> is not initialised in C; it is written in the first pass, where
  \<open>bestvar = -1\<close>.
\<close>

definition FindGyroZero :: "tick_in \<Rightarrow> fc_state \<Rightarrow> fc_state" where
  "FindGyroZero i s =
     (case FindGyroZero_loop (in_Sensors_In i) 0 [0, 0, 0] (-1) [] of
        (best, bestvar, tries, ev) \<Rightarrow>
          s\<lparr>GyroZX := best ! 0, GyroZY := best ! 1, GyroZZ := best ! 2,
            events := events s @ ev @ [Ev_QuatIMU_SetGyroZero (best ! 0) (best ! 1) (best ! 2)]\<rparr>)"

subsection \<open>LED colour\<close>

definition LEDBrightShift :: nat where
  "LEDBrightShift = 0"

definition LEDSingleMask :: int where
  "LEDSingleMask = 0xFF - (push_bit LEDBrightShift 1 - 1)"

definition LEDBrightMask :: int where
  "LEDBrightMask = LEDSingleMask OR push_bit 8 LEDSingleMask OR push_bit 16 LEDSingleMask"

definition LEDColorTable :: "fc_consts \<Rightarrow> int list" where
  "LEDColorTable K = [LED_Cyan K, LED_White K, LED_Yellow K, LED_Violet K]"

definition LEDArmDisarm :: "fc_consts \<Rightarrow> int list" where
  "LEDArmDisarm K = [LED_Green K, LED_Red K]"

text \<open>The local \<open>LowBatt\<close> of \<open>UpdateFlightLEDColor\<close>, set only on V3 hardware.\<close>

definition LowBatt :: "fc_consts \<Rightarrow> fc_state \<Rightarrow> int" where
  "LowBatt K s =
     (if PINS_V3 K \<and> UseBattMon (Prefs s) \<noteq> 0
         \<and> BatteryVolts s < LowVoltageAlarmThreshold (Prefs s) \<and> BatteryVolts s > 200
      then 1 else 0)"

definition UpdateFlightLEDColor :: "fc_consts \<Rightarrow> fc_state \<Rightarrow> fc_state" where
  "UpdateFlightLEDColor K s =
     (if LowBatt K s \<noteq> 0 then
        (let index = drop_bit 3 (counter s) AND 7 in
         if index < 4 then
           s\<lparr>LEDModeColor :=
               drop_bit LEDBrightShift
                 (LEDColorTable K ! (flight_mode_index (FlightMode s) AND 3) AND LEDBrightMask)\<rparr>
         else
           s\<lparr>LEDModeColor :=
               drop_bit LEDBrightShift
                 ((LED_Red K OR (LED_Yellow K AND LED_Half K)) AND LEDBrightMask)\<rparr>)
      else
        (let index = drop_bit 3 (counter s) AND 15 in
         if index < 3 \<or> IsHolding s \<noteq> 0 then
           s\<lparr>LEDModeColor :=
               drop_bit LEDBrightShift
                 (LEDColorTable K ! (flight_mode_index (FlightMode s) AND 3) AND LEDBrightMask)\<rparr>
         else
           s\<lparr>LEDModeColor :=
               drop_bit LEDBrightShift
                 (LEDArmDisarm K ! nat (FlightEnabled s AND 1) AND LEDBrightMask)\<rparr>))"

text \<open>
  The colour in the words of the specification: a function of the flight mode, the arm
  flag, the hold flag, the low-battery flag and the loop counter.
\<close>

definition FlightLEDColor :: "fc_consts \<Rightarrow> flight_mode \<Rightarrow> int \<Rightarrow> int \<Rightarrow> int \<Rightarrow> int \<Rightarrow> int" where
  "FlightLEDColor K fm en hold lowbatt cnt =
     (if lowbatt \<noteq> 0 then
        (if drop_bit 3 cnt AND 7 < 4 then LEDColorTable K ! flight_mode_index fm AND 0xFFFFFF
         else (LED_Red K OR (LED_Yellow K AND LED_Half K)) AND 0xFFFFFF)
      else
        (if drop_bit 3 cnt AND 15 < 3 \<or> hold \<noteq> 0
         then LEDColorTable K ! flight_mode_index fm AND 0xFFFFFF
         else LEDArmDisarm K ! nat (en AND 1) AND 0xFFFFFF))"

subsection \<open>Arming and disarming\<close>

definition ArmFlightMode :: "fc_consts \<Rightarrow> tick_in \<Rightarrow> fc_state \<Rightarrow> fc_state" where
  "ArmFlightMode K i s =
     (let s1 = s\<lparr>FlightEnabled := 1, FlightEnableStep := 0, CompassConfigStep := 0\<rparr>;
          s2 = emit Ev_Beep2 s1;
          s3 = All_LED (LED_Red K AND LED_Half K) s2;
          s4 = FindGyroZero i s3;
          s5 = All_LED (LED_Blue K AND LED_Half K) s4;
          s6 = emit Ev_BeepTune s5
      in s6\<lparr>DesiredAltitude := AltiEst s6\<rparr>)"

definition set_motor_min :: "nat \<Rightarrow> fc_state \<Rightarrow> fc_state" where
  "set_motor_min k s =
     emit (Ev_Servo32_Set k (MinThrottle (Prefs s)))
          (s\<lparr>Motor := (Motor s)(k := MinThrottle (Prefs s))\<rparr>)"

definition DisarmFlightMode :: "fc_consts \<Rightarrow> fc_state \<Rightarrow> fc_state" where
  "DisarmFlightMode K s =
     (let s1 = fold set_motor_min [0..<4] s;
          s2 = s1\<lparr>FlightEnabled := 0, FlightEnableStep := 0, CompassConfigStep := 0\<rparr>;
          s3 = emit Ev_Beep3 s2
      in All_LED (LED_Green K AND LED_Half K) s3)"

text \<open>Both compass calibration functions are placeholders with empty bodies.\<close>

definition StartCompassCalibrate :: "fc_state \<Rightarrow> fc_state" where
  "StartCompassCalibrate s = s"

definition DoCompassCalibrate :: "fc_state \<Rightarrow> fc_state" where
  "DoCompassCalibrate s = s"

subsection \<open>UpdateFlightLoop\<close>

definition AltiThrottleDeadband :: int where
  "AltiThrottleDeadband = 100"

definition AccelAssistZFactor :: int where
  "AccelAssistZFactor = 32"

text \<open>
  Motor slots: \<open>Motor[0..3]\<close> go to the pins FL, FR, BR, BL (the dispatch at the end of
  \<open>UpdateFlightLoop\<close> and \<open>MotorPin\<close> in \<open>Initialize\<close>).
\<close>

definition OUT_FL :: nat where "OUT_FL = 0"
definition OUT_FR :: nat where "OUT_FR = 1"
definition OUT_BR :: nat where "OUT_BR = 2"
definition OUT_BL :: nat where "OUT_BL = 3"

text \<open>The four assignments of the X configuration, in source order.\<close>

definition XMix :: "int \<Rightarrow> int \<Rightarrow> int \<Rightarrow> int \<Rightarrow> int \<Rightarrow> (nat \<Rightarrow> int) \<Rightarrow> (nat \<Rightarrow> int)" where
  "XMix ThroOut PitchOut RollOut YawOut ThroMix m =
     (let m1 = m(OUT_FL := cint (ThroOut + drop_bit 7 (cint ((PitchOut + RollOut - YawOut) * ThroMix))));
          m2 = m1(OUT_FR := cint (ThroOut + drop_bit 7 (cint ((PitchOut - RollOut + YawOut) * ThroMix))));
          m3 = m2(OUT_BL := cint (ThroOut + drop_bit 7 (cint ((- PitchOut + RollOut + YawOut) * ThroMix))));
          m4 = m3(OUT_BR := cint (ThroOut + drop_bit 7 (cint ((- PitchOut - RollOut - YawOut) * ThroMix))))
      in m4)"

definition clamp_motors :: "prefs \<Rightarrow> (nat \<Rightarrow> int) \<Rightarrow> (nat \<Rightarrow> int)" where
  "clamp_motors P m =
     (let m1 = m(0 := clamp (m 0) (MinThrottleArmed P) (MaxThrottle P));
          m2 = m1(1 := clamp (m1 1) (MinThrottleArmed P) (MaxThrottle P));
          m3 = m2(2 := clamp (m2 2) (MinThrottleArmed P) (MaxThrottle P));
          m4 = m3(3 := clamp (m3 3) (MinThrottleArmed P) (MaxThrottle P))
      in m4)"

text \<open>
  The armed path of \<open>UpdateFlightLoop\<close> after the disarm test, block by block in
  source order. Locals that live across blocks (\<open>DoIntegrate\<close>, \<open>ThroMix\<close>,
  \<open>ThroOut\<close>, \<open>AdjustedThrottle\<close>) are passed as arguments.
\<close>

text \<open>\<open>gr\<close>, \<open>gp\<close>, \<open>gy\<close> and the three gyro filters.\<close>

definition UpdateFlightLoop_filter :: "fc_state \<Rightarrow> fc_state" where
  "UpdateFlightLoop_filter s =
     (let gr = GyroY (Sens s) - GyroZY s;
          gp = - (GyroX (Sens s) - GyroZX s);
          gy = - (GyroZ (Sens s) - GyroZZ s)
      in s\<lparr>GyroRoll := cint (GyroRoll s + drop_bit 8 (cint ((gr - GyroRoll s) * GyroRPFilter s))),
            GyroPitch := cint (GyroPitch s + drop_bit 8 (cint ((gp - GyroPitch s) * GyroRPFilter s))),
            GyroYaw := cint (GyroYaw s + drop_bit 8 (cint ((gy - GyroYaw s) * GyroYawFilter s)))\<rparr>)"

text \<open>The test \<open>Radio.Thro < -800\<close>: its effect on the IMU and the value of \<open>DoIntegrate\<close>.\<close>

definition UpdateFlightLoop_gate :: "fc_state \<Rightarrow> fc_state" where
  "UpdateFlightLoop_gate s =
     (if Thro (Radio s) < -800 then
        (if FlightMode s = FlightMode_Manual
         then emit Ev_QuatIMU_ResetDesiredOrientation s
         else emit Ev_QuatIMU_ResetDesiredYaw s)
      else s)"

definition DoIntegrate :: "fc_state \<Rightarrow> int" where
  "DoIntegrate s = (if Thro (Radio s) < -800 then 0 else 1)"

text \<open>
  The three attitude PID calls; their results are \<open>in_RollOut\<close>, \<open>in_PitchOut\<close>
  and \<open>in_YawOut\<close>.
\<close>

definition UpdateFlightLoop_pids :: "int \<Rightarrow> fc_state \<Rightarrow> fc_state" where
  "UpdateFlightLoop_pids d s =
     emit (Ev_PID_Calculate YawPID (YawDifference s) (GyroYaw s) d)
       (emit (Ev_PID_Calculate PitchPID (PitchDifference s) (GyroPitch s) d)
         (emit (Ev_PID_Calculate RollPID (RollDifference s) (GyroRoll s) d) s))"

definition ThroMix :: "fc_state \<Rightarrow> int" where
  "ThroMix s = clamp (drop_bit 2 (Thro (Radio s) + 1024)) 0 64"

definition ThroOut_manual :: "fc_state \<Rightarrow> int" where
  "ThroOut_manual s = push_bit 2 (Thro (Radio s)) + 12000"

text \<open>
  The altitude cascade of Automatic mode. \<open>AdjustedThrottle\<close> starts at 0 and is
  assigned only outside the deadband.
\<close>

definition AdjustedThrottle :: "fc_state \<Rightarrow> int" where
  "AdjustedThrottle s =
     (if abs_c (Thro (Radio s)) > AltiThrottleDeadband then
        (if Thro (Radio s) > 0 then Thro (Radio s) - AltiThrottleDeadband
         else Thro (Radio s) + AltiThrottleDeadband)
      else 0)"

definition UpdateFlightLoop_hold :: "tick_in \<Rightarrow> int \<Rightarrow> fc_state \<Rightarrow> fc_state" where
  "UpdateFlightLoop_hold i d s =
     (if abs_c (Thro (Radio s)) > AltiThrottleDeadband then
        s\<lparr>IsHolding := 0,
          DesiredAscentRate := cdiv (AdjustedThrottle s * 6000) (1024 - AltiThrottleDeadband)\<rparr>
      else
        (let sa = (if IsHolding s = 0
                   then emit (Ev_PID_ResetIntegralError AltPID)
                          (s\<lparr>IsHolding := 1, DesiredAltitude := AltiEst s\<rparr>)
                   else s);
             sb = emit (Ev_PID_Calculate AltPID (DesiredAltitude sa) (AltiEst sa) d) sa
         in sb\<lparr>DesiredAscentRate := in_AltPID i\<rparr>))"

definition UpdateFlightLoop_ascent :: "int \<Rightarrow> fc_state \<Rightarrow> fc_state" where
  "UpdateFlightLoop_ascent d s =
     (let T1 = 1024 + Aux2 (Radio s);
          T2 = 1024 + Aux3 (Radio s)
      in emit (Ev_PID_Calculate AscentPID (DesiredAscentRate s) (AscentEst s) d)
           (emit (Ev_PID_SetIGain AscentPID (T2 * 250))
             (emit (Ev_PID_SetPGain AscentPID T1) s)))"

text \<open>The state and \<open>ThroOut\<close> after the block \<open>FlightMode == FlightMode_Automatic\<close>.\<close>

definition UpdateFlightLoop_altitude :: "tick_in \<Rightarrow> int \<Rightarrow> fc_state \<Rightarrow> fc_state" where
  "UpdateFlightLoop_altitude i d s = UpdateFlightLoop_ascent d (UpdateFlightLoop_hold i d s)"

definition ThroOut_altitude :: "tick_in \<Rightarrow> fc_state \<Rightarrow> int" where
  "ThroOut_altitude i s = cint (CenterThrottle (Prefs s) + in_AscentPID i + AdjustedThrottle s)"

text \<open>The accelerometer assist and the tilt compensation, applied to \<open>ThroOut\<close>.\<close>

definition ThroOut_accel :: "fc_consts \<Rightarrow> int \<Rightarrow> fc_state \<Rightarrow> int \<Rightarrow> int" where
  "ThroOut_accel K tm s t =
     (if AccelAssistZFactor > 0 then
        (if abs_c (Aile (Radio s)) < 300 \<and> abs_c (Elev (Radio s)) < 300 \<and> tm > 32
         then cint (t - cdiv (cint ((AccelZSmooth s - Const_OneG K) * AccelAssistZFactor)) 64)
         else t)
      else t)"

definition ThroOut_thrust :: "tick_in \<Rightarrow> fc_state \<Rightarrow> int \<Rightarrow> int" where
  "ThroOut_thrust i s t =
     (if ThrustCorrectionScale (Prefs s) > 0 then
        (let ThrustMul =
               clamp (256 + cdiv (cint ((in_ThrustFactor i - 256) * ThrustCorrectionScale (Prefs s))) 256)
                 256 384
         in cint (MinThrottle (Prefs s) + drop_bit 8 (cint ((t - MinThrottle (Prefs s)) * ThrustMul))))
      else t)"

text \<open>
  The block guarded by \<open>FlightMode != FlightMode_Manual\<close>: the state after it, and
  \<open>ThroOut\<close> after it (from the state \<open>s\<close> before the block).
\<close>

definition UpdateFlightLoop_assist :: "tick_in \<Rightarrow> int \<Rightarrow> fc_state \<Rightarrow> fc_state" where
  "UpdateFlightLoop_assist i d s =
     (if FlightMode s \<noteq> FlightMode_Manual then
        (if FlightMode s = FlightMode_Automatic then UpdateFlightLoop_altitude i d s else s)
      else s)"

definition ThroOut :: "fc_consts \<Rightarrow> tick_in \<Rightarrow> fc_state \<Rightarrow> int" where
  "ThroOut K i s =
     (if FlightMode s \<noteq> FlightMode_Manual then
        ThroOut_thrust i s
          (ThroOut_accel K (ThroMix s) s
            (if FlightMode s = FlightMode_Automatic then ThroOut_altitude i s else ThroOut_manual s))
      else ThroOut_manual s)"

text \<open>Mixer and clamp, then the dispatch to the servo driver.\<close>

definition UpdateFlightLoop_motors :: "tick_in \<Rightarrow> int \<Rightarrow> int \<Rightarrow> fc_state \<Rightarrow> fc_state" where
  "UpdateFlightLoop_motors i t tm s =
     s\<lparr>Motor := clamp_motors (Prefs s)
                  (XMix t (in_PitchOut i) (in_RollOut i) (in_YawOut i) tm (Motor s))\<rparr>"

definition UpdateFlightLoop_dispatch :: "fc_state \<Rightarrow> fc_state" where
  "UpdateFlightLoop_dispatch s =
     (if DisableMotors (Prefs s) = 0 then
        emit (Ev_Servo32_Set 3 (Motor s 3))
          (emit (Ev_Servo32_Set 2 (Motor s 2))
            (emit (Ev_Servo32_Set 1 (Motor s 1))
              (emit (Ev_Servo32_Set 0 (Motor s 0)) s)))
      else s)"

definition UpdateFlightLoop_control :: "fc_consts \<Rightarrow> tick_in \<Rightarrow> fc_state \<Rightarrow> fc_state" where
  "UpdateFlightLoop_control K i s =
     (let s1 = UpdateFlightLoop_filter s;
          s2 = UpdateFlightLoop_pids (DoIntegrate s1) (UpdateFlightLoop_gate s1);
          s3 = UpdateFlightLoop_assist i (DoIntegrate s1) s2
      in UpdateFlightLoop_dispatch (UpdateFlightLoop_motors i (ThroOut K i s2) (ThroMix s2) s3))"

text \<open>The battery alarm at the end of \<open>UpdateFlightLoop\<close> (V3 hardware only).\<close>

definition BatteryAlarm :: "fc_consts \<Rightarrow> fc_state \<Rightarrow> fc_state" where
  "BatteryAlarm K s =
     (if PINS_V3 K \<and> UseBattMon (Prefs s) \<noteq> 0 \<and> LowVoltageAlarm (Prefs s) \<noteq> 0 then
        (if BatteryVolts s < LowVoltageAlarmThreshold (Prefs s) \<and> BatteryVolts s > 200
            \<and> counter s AND 63 = 0
         then emit (Ev_BeepOn 5000) s
         else if counter s AND 63 > 32 then emit Ev_BeepOff s
         else s)
      else s)"

definition UpdateFlightLoop :: "fc_consts \<Rightarrow> tick_in \<Rightarrow> fc_state \<Rightarrow> fc_state" where
  "UpdateFlightLoop K i s0 =
     (let s = UpdateFlightLEDColor K s0 in
      if FlightEnabled s = 0 then
        BatteryAlarm K
          (if Thro (Radio s) < -750 \<and> Elev (Radio s) < -750 then
             (if Rudd (Radio s) > 750 \<and> Aile (Radio s) < -750 then
                (let s1 = s\<lparr>FlightEnableStep := sshort (FlightEnableStep s + 1),
                            CompassConfigStep := 0,
                            LEDModeColor := LED_Yellow K AND LED_Half K\<rparr>
                 in if FlightEnableStep s1 \<ge> ArmDelay (Prefs s1) then ArmFlightMode K i s1 else s1)
              else if Rudd (Radio s) > 750 \<and> Aile (Radio s) > 750 then
                (let s1 = s\<lparr>CompassConfigStep := sshort (CompassConfigStep s + 1),
                            FlightEnableStep := 0,
                            LEDModeColor := (LED_Blue K OR LED_Red K) AND LED_Half K\<rparr>
                 in if CompassConfigStep s1 = 250 then StartCompassCalibrate s1 else s1)
              else s\<lparr>CompassConfigStep := 0, FlightEnableStep := 0\<rparr>)
           else s\<lparr>CompassConfigStep := 0, FlightEnableStep := 0\<rparr>)
      else
        (if Rudd (Radio s) < -750 \<and> Aile (Radio s) > 750 \<and> Thro (Radio s) < -750 \<and> Elev (Radio s) < -750 then
           (let s1 = s\<lparr>FlightEnableStep := sshort (FlightEnableStep s + 1),
                       LEDModeColor := LED_Yellow K AND LED_Half K\<rparr>
            in if FlightEnableStep s1 \<ge> DisarmDelay (Prefs s1) then DisarmFlightMode K s1
               else BatteryAlarm K (UpdateFlightLoop_control K i s1))
         else BatteryAlarm K (UpdateFlightLoop_control K i (s\<lparr>FlightEnableStep := 0\<rparr>))))"

subsection \<open>CheckDebugInput\<close>

definition ApplyPrefs :: "fc_consts \<Rightarrow> fc_state \<Rightarrow> fc_state" where
  "ApplyPrefs K s =
     (let s1 = emit (Ev_Sensors_SetDriftValues (DriftScale (Prefs s))) s;
          s2 = emit (Ev_Sensors_SetAccelOffsetValues (AccelOffset (Prefs s1))) s1;
          s3 = emit (Ev_Sensors_SetMagnetometerScaleOffsets (MagScaleOfs (Prefs s2))) s2;
          s4 = emit (Ev_QuatIMU_SetRollCorrection (RollCorrect (Prefs s3))) s3;
          s5 = emit (Ev_QuatIMU_SetPitchCorrection (PitchCorrect (Prefs s4))) s4;
          s6 = emit (Ev_QuatIMU_SetAutoLevelRates (AutoLevelRollPitch (Prefs s5)) (AutoLevelYawRate (Prefs s5))) s5;
          s7 = emit (Ev_QuatIMU_SetManualRates (ManualRollPitchRate (Prefs s6)) (ManualYawRate (Prefs s6))) s6;
          s8 = (if FORCE_SBUS K then s7\<lparr>Prefs := (Prefs s7)\<lparr>UseSBUS := 1\<rparr>\<rparr> else s7);
          s9 = (if PINS_V2 K then s8\<lparr>Prefs := (Prefs s8)\<lparr>UseBattMon := 0\<rparr>\<rparr> else s8)
      in s9)"

text \<open>Command 0x13: the loop over the eight channels.\<close>

definition reset_channel :: "nat \<Rightarrow> prefs \<Rightarrow> prefs" where
  "reset_channel k P = P\<lparr>ChannelScale := (ChannelScale P)[k := 1024], ChannelCenter := (ChannelCenter P)[k := 0]\<rparr>"

text \<open>The commands 0x10 .. 0x17, taken in \<open>MODE_SensorTest\<close>.\<close>

definition CheckDebugInput_sensor :: "int \<Rightarrow> fc_state \<Rightarrow> fc_state" where
  "CheckDebugInput_sensor c s =
     (if c = 0x10 then emit Ev_Sensors_TempZeroDriftValues s
      else if c = 0x11 then emit Ev_Sensors_ResetDriftValues s
      else if c = 0x13 then emit Ev_Beep2 (s\<lparr>Prefs := fold reset_channel [0..<8] (Prefs s)\<rparr>)
      else if c = 0x14 then emit Ev_Sensors_TempZeroAccelOffsetValues s
      else if c = 0x15 then emit Ev_Sensors_ResetAccelOffsetValues s
      else s)"

text \<open>
  The commands 0x18 .. 0x1F. After command 0x19 the received record is
  \<open>in_TempPrefs\<close>; \<open>Prefs_Load\<close> leaves \<open>in_Prefs_Load\<close> in memory and returns
  \<open>in_Prefs_Load_ok\<close>; \<open>Prefs_SetDefaults\<close> followed by \<open>Prefs_Save\<close> leaves
  \<open>in_Prefs_Defaults\<close> in memory.
\<close>

definition CheckDebugInput_prefs :: "fc_consts \<Rightarrow> tick_in \<Rightarrow> nat \<Rightarrow> int \<Rightarrow> fc_state \<Rightarrow> fc_state" where
  "CheckDebugInput_prefs K i port c s =
     (if c = 0x18 then
        (let s1 = s\<lparr>Prefs := (Prefs s)\<lparr>Checksum := Prefs_CalculateChecksum K (Prefs s)\<rparr>\<rparr>
         in emit (Ev_SendPrefs port (Prefs s1)) s1)
      else if c = 0x19 then
        (let TempPrefs = in_TempPrefs i in
         if Prefs_CalculateChecksum K TempPrefs = Checksum TempPrefs then
           (let s1 = s\<lparr>Prefs := TempPrefs\<rparr>;
                s2 = emit (Ev_Prefs_Save (Prefs s1)) s1;
                s3 = emit Ev_Prefs_Load (s2\<lparr>Prefs := in_Prefs_Load i\<rparr>)
            in if in_Prefs_Load_ok i \<noteq> 0
               then ApplyPrefs K (emit Ev_Beep2 (emit Ev_BeepOff s3))
               else emit Ev_Beep s3)
         else emit Ev_Beep s)
      else if c = 0x1a then
        (if in_S4_Get_Timed i = 0x1a then
           (let s1 = emit Ev_Prefs_SetDefaults (s\<lparr>Prefs := in_Prefs_Defaults i\<rparr>);
                s2 = emit (Ev_Prefs_Save (Prefs s1)) s1
            in emit Ev_Beep3 s2)
         else s)
      else s)"

definition CheckDebugInput :: "fc_consts \<Rightarrow> tick_in \<Rightarrow> fc_state \<Rightarrow> fc_state" where
  "CheckDebugInput K i s =
     (if in_S4_Check0 i < 0 \<and> in_S4_Check1 i < 0 then s
      else
        (let port = (if in_S4_Check0 i < 0 then 1 else 0 :: nat);
             c = (if in_S4_Check0 i < 0 then in_S4_Check1 i else in_S4_Check0 i)
         in if c \<le> MODE_MotorTest K then
              (let s1 = s\<lparr>Mode := c\<rparr>;
                   s2 = (if port = 0 then s1\<lparr>UsbPulse := 500, XBeePulse := 0\<rparr> else s1);
                   s3 = (if port = 1 then s2\<lparr>UsbPulse := 0, XBeePulse := 500\<rparr> else s2)
               in s3)
            else if port = 0 \<and> c AND 0xF8 = 0x08 then s\<lparr>NudgeMotor := c AND 7\<rparr>
            else
              (let s1 = (if c AND 0xF8 = 0x10 then
                           (if Mode s = MODE_SensorTest K then CheckDebugInput_sensor c s else s)
                         else s);
                   s2 = (if c AND 0xF8 = 0x18 then CheckDebugInput_prefs K i port c s1 else s1)
               in if c = 0xff then emit (Ev_S4_Put port 0xE8) s2 else s2)))"

subsection \<open>DoDebugModeOutput\<close>

text \<open>
  The telemetry packets of \<open>MODE_SensorTest\<close>, one per phase, each logged with its
  port, its packet id and the values it carries from the globals (the 16-bit copies in
  \<open>TxData\<close> as \<open>sshort\<close>); a packet filled by the IMU is logged with no values.
\<close>

definition SensorTest_packet :: "nat \<Rightarrow> int \<Rightarrow> fc_state \<Rightarrow> fc_state" where
  "SensorTest_packet port phase s =
     (if phase = 0 then
        emit (Ev_SendPacket port 1
               [Thro (Radio s), Aile (Radio s), Elev (Radio s), Rudd (Radio s),
                Gear (Radio s), Aux1 (Radio s), Aux2 (Radio s), Aux3 (Radio s), BatteryVolts s]) s
      else if phase = 1 then emit (Ev_SendPacket port 7 []) s
      else if phase = 2 then
        emit (Ev_SendPacket port 2
               (map sshort
                 [Temperature (Sens s), GyroX (Sens s), GyroY (Sens s), GyroZ (Sens s),
                  AccelX (Sens s), AccelY (Sens s), AccelZ (Sens s),
                  MagX (Sens s), MagY (Sens s), MagZ (Sens s)])) s
      else if phase = 4 then emit (Ev_SendPacket port 3 []) s
      else if phase = 5 then
        emit (Ev_SendPacket port 5 (map sshort [Motor s 0, Motor s 1, Motor s 2, Motor s 3])) s
      else if phase = 6 then
        emit (Ev_SendPacket port 4
               [PitchDifference s, RollDifference s, YawDifference s,
                Alt (Sens s), AltTemp (Sens s), AltiEst s]) s
      else if phase = 7 then emit (Ev_SendPacket port 6 []) s
      else s)"

definition set_motor :: "int \<Rightarrow> nat \<Rightarrow> fc_state \<Rightarrow> fc_state" where
  "set_motor v k s = emit (Ev_Servo32_Set k v) s"

text \<open>The motor test code at the end of \<open>DoDebugModeOutput\<close>.\<close>

definition NudgeMotor_test :: "tick_in \<Rightarrow> fc_state \<Rightarrow> fc_state" where
  "NudgeMotor_test i s =
     (if NudgeMotor s > -1 then
        (let s1 =
           (if NudgeMotor s < 4 then emit (Ev_Servo32_Set (nat (NudgeMotor s)) 9500) s
            else if NudgeMotor s = 4 then emit (Ev_BeepHz 3500 50) (emit (Ev_BeepHz 4500 50) s)
            else if NudgeMotor s = 5 then
              (let a = fold (\<lambda>k. All_LED (push_bit 16 (255 - int k) + push_bit 8 (int k))) [0..<256] s;
                   b = fold (\<lambda>k. All_LED (int k + push_bit 8 (255 - int k))) [0..<256] a
               in fold (\<lambda>k. All_LED ((255 - int k) + push_bit 16 (int k))) [0..<256] b)
            else if NudgeMotor s = 6 then
              (let b = fold (\<lambda>k. emit (Ev_BeepHz 4500 100)) [0..<4] s in
               if in_S4_Get0 i = 0xFF then
                 fold (set_motor (MinThrottle (Prefs b))) [0..<4]
                   (fold (set_motor (MaxThrottle (Prefs b))) [0..<4] b)
               else b)
            else if NudgeMotor s = 7 then fold (set_motor (MinThrottle (Prefs s))) [0..<4] s
            else s)
         in s1\<lparr>NudgeMotor := -1\<rparr>)
      else s)"

text \<open>Everything after the pulse timers: \<open>port\<close> and \<open>phase\<close> are the locals.\<close>

definition DoDebugModeOutput_send :: "fc_consts \<Rightarrow> tick_in \<Rightarrow> nat \<Rightarrow> int \<Rightarrow> fc_state \<Rightarrow> fc_state" where
  "DoDebugModeOutput_send K i port phase s =
     (if Mode s = MODE_None K then s
      else
        (let s1 = (if Mode s = MODE_SensorTest K then SensorTest_packet port phase s else s)
         in NudgeMotor_test i s1))"

definition DoDebugModeOutput :: "fc_consts \<Rightarrow> tick_in \<Rightarrow> fc_state \<Rightarrow> fc_state" where
  "DoDebugModeOutput K i s =
     (if UsbPulse s > 0 then
        (let s1 = s\<lparr>UsbPulse := sshort (UsbPulse s - 1)\<rparr> in
         if UsbPulse s1 = 0 then s1\<lparr>Mode := MODE_None K\<rparr>
         else DoDebugModeOutput_send K i 0 (counter s1 AND 7) s1)
      else if XBeePulse s > 0 then
        (let s1 = s\<lparr>UsbPulse := sshort (UsbPulse s - 1)\<rparr> in
         if UsbPulse s1 = 0 then s1\<lparr>Mode := MODE_None K\<rparr>
         else DoDebugModeOutput_send K i 1
                ((drop_bit 1 (counter s1) AND 7) OR push_bit 16 (counter s1 AND 1)) s1)
      else DoDebugModeOutput_send K i 0 (in_phase i) s)"

subsection \<open>The main loop\<close>


text \<open>The flight mode switch: the \<open>else\<close> block of the loop up to \<open>UpdateFlightLoop\<close>.\<close>

definition NewFlightMode :: "radio \<Rightarrow> flight_mode" where
  "NewFlightMode r =
     (if Gear r > 512 then FlightMode_Assisted
      else if Gear r < -512 then FlightMode_Manual
      else FlightMode_Automatic)"

definition main_flight_mode :: "fc_state \<Rightarrow> fc_state" where
  "main_flight_mode s =
     (let new = NewFlightMode (Radio s) in
      if new \<noteq> FlightMode s then
        (let s1 = (if new = FlightMode_Manual then emit Ev_QuatIMU_ResetDesiredOrientation s
                   else emit Ev_QuatIMU_ResetDesiredYaw s);
             s2 = (if new = FlightMode_Automatic then s1\<lparr>DesiredAltitude := AltiEst s1\<rparr> else s1);
             s3 = s2\<lparr>IsHolding := 0\<rparr>
         in s3\<lparr>FlightMode := new\<rparr>)
      else s)"

definition main_battery :: "fc_consts \<Rightarrow> tick_in \<Rightarrow> fc_state \<Rightarrow> fc_state" where
  "main_battery K i s =
     (if UseBattMon (Prefs s) \<noteq> 0 then
        (if BatteryMonitorDelay s > 0 then
           s\<lparr>BatteryMonitorDelay := sshort (BatteryMonitorDelay s - 1), LEDModeColor := LED_Blue K\<rparr>
         else if counter s AND 15 = 0 then emit Ev_Battery_DischargePin s
         else if counter s AND 15 = 2 then emit Ev_Battery_ChargePin s
         else if counter s AND 15 = 15 then
           s\<lparr>BatteryVolts := sshort (in_BatteryVoltage i + VoltageOffset (Prefs s))\<rparr>
         else s)
      else s)"

text \<open>
  One pass of \<open>while(1)\<close>, in three blocks around the flight code. The radio frame
  of the pass is \<open>in_Radio\<close>: the channels after the scaling by the channel
  preferences.
\<close>

text \<open>The sensor copy, the IMU update, the accelerometer filter and the radio frame.\<close>

definition main_intake :: "tick_in \<Rightarrow> fc_state \<Rightarrow> fc_state" where
  "main_intake i s =
     (let s1 = emit Ev_QuatIMU_Update (s\<lparr>Sens := in_sens i\<rparr>);
          s2 = s1\<lparr>AccelZSmooth := cint (AccelZSmooth s1
                 + cdiv (cint ((AccelZ (Sens s1) - AccelZSmooth s1) * AccelCorrectionFilter (Prefs s1))) 256)\<rparr>
      in s2\<lparr>Radio := in_Radio i\<rparr>)"

text \<open>The battery monitor and \<open>All_LED( LEDModeColor )\<close>.\<close>

definition main_led :: "fc_consts \<Rightarrow> tick_in \<Rightarrow> fc_state \<Rightarrow> fc_state" where
  "main_led K i s = (let s5 = main_battery K i s in All_LED (LEDModeColor s5) s5)"

text \<open>The control quaternion update and the estimates read back from the IMU.\<close>

definition main_estimates :: "tick_in \<Rightarrow> fc_state \<Rightarrow> fc_state" where
  "main_estimates i s =
     (let s7 = emit (Ev_QuatIMU_UpdateControls (Radio s) (FlightMode s = FlightMode_Manual)) s
      in s7\<lparr>PitchDifference := in_PitchDifference i,
            RollDifference := in_RollDifference i,
            YawDifference := - in_YawDifference i,
            AltiEst := in_AltitudeEstimate i,
            AscentEst := in_VerticalVelocityEstimate i\<rparr>)"

definition main_tick :: "fc_consts \<Rightarrow> tick_in \<Rightarrow> fc_state \<Rightarrow> fc_state" where
  "main_tick K i s =
     (let s3 = main_intake i s;
          s4 = (if FlightMode s3 = FlightMode_CalibrateCompass then DoCompassCalibrate s3
                else UpdateFlightLoop K i (main_flight_mode s3));
          s8 = main_estimates i (main_led K i s4);
          s10 = DoDebugModeOutput K i (CheckDebugInput K i s8)
      in s10\<lparr>counter := counter s10 + 1\<rparr>)"

text \<open>A run of the loop over the inputs of successive passes.\<close>

fun run :: "fc_consts \<Rightarrow> fc_state \<Rightarrow> tick_in list \<Rightarrow> fc_state" where
  "run K s [] = s"
| "run K s (i # is) = run K (main_tick K i s) is"

text \<open>The stick gestures in the words of the specification.\<close>

definition arm_gesture :: "radio \<Rightarrow> bool" where
  "arm_gesture r \<longleftrightarrow> Thro r < -750 \<and> Elev r < -750 \<and> Rudd r > 750 \<and> Aile r < -750"

definition disarm_gesture :: "radio \<Rightarrow> bool" where
  "disarm_gesture r \<longleftrightarrow> Thro r < -750 \<and> Elev r < -750 \<and> Rudd r < -750 \<and> Aile r > 750"

definition compass_gesture :: "radio \<Rightarrow> bool" where
  "compass_gesture r \<longleftrightarrow> Thro r < -750 \<and> Elev r < -750 \<and> Rudd r > 750 \<and> Aile r > 750"

text \<open>
  The byte taken from the serial ports in a pass, with its port: USB (port 0) is asked
  first, the radio modem (port 1) only when USB has nothing. In the words of the
  specification.
\<close>

definition received :: "tick_in \<Rightarrow> (nat \<times> int) option" where
  "received i =
     (if in_S4_Check0 i \<ge> 0 then Some (0, in_S4_Check0 i)
      else if in_S4_Check1 i \<ge> 0 then Some (1, in_S4_Check1 i)
      else None)"

text \<open>
  The five values the LED colour is computed from, and the conditions under which the
  flight loop or the battery monitor replaces the computed colour in \<open>LEDModeColor\<close>:
  a held stick gesture and the start-up delay of the battery monitor. In the words of
  the specification.
\<close>

definition led_tuple :: "fc_consts \<Rightarrow> fc_state \<Rightarrow> flight_mode \<times> int \<times> int \<times> int \<times> int" where
  "led_tuple K s = (FlightMode s, FlightEnabled s, IsHolding s, LowBatt K s, counter s)"

definition led_override :: "tick_in \<Rightarrow> fc_state \<Rightarrow> bool" where
  "led_override i s \<longleftrightarrow>
     (UseBattMon (Prefs s) \<noteq> 0 \<and> BatteryMonitorDelay s > 0)
     \<or> (FlightEnabled s = 0 \<and> (arm_gesture (in_Radio i) \<or> compass_gesture (in_Radio i)))
     \<or> (FlightEnabled s \<noteq> 0 \<and> disarm_gesture (in_Radio i))"

text \<open>
  The LED test (nudge command 5, the byte 0x0D on USB) is pending at the start of a
  pass or commanded in it. \<open>DoDebugModeOutput\<close> runs the test at the end of the pass,
  after the main loop has written the LEDs. In the words of the specification.
\<close>

definition led_test :: "tick_in \<Rightarrow> fc_state \<Rightarrow> bool" where
  "led_test i s \<longleftrightarrow>
     NudgeMotor s = 5
     \<or> (0 \<le> in_S4_Check0 i \<and> in_S4_Check0 i AND 0xF8 = 0x08 \<and> in_S4_Check0 i AND 7 = 5)"

subsection \<open>A concrete configuration\<close>

text \<open>
  Concrete constants, preferences, state and inputs on which the model is evaluated:
  display modes 0 .. 3, 24-bit colours, a quadcopter at rest with centred sticks and
  nothing on the serial ports.
\<close>

definition sample_consts :: fc_consts where
  "sample_consts =
     \<lparr>MODE_None = 0, MODE_SensorTest = 2, MODE_MotorTest = 3,
      LED_Red = 0x00FF00, LED_Green = 0xFF0000, LED_Blue = 0x0000FF, LED_Yellow = 0xFFFF00,
      LED_Cyan = 0xFF00FF, LED_White = 0xFFFFFF, LED_Violet = 0x00FFFF, LED_Half = 0x7F7F7F,
      Const_OneG = 4096, PINS_V3 = True, PINS_V2 = False, FORCE_SBUS = False,
      Prefs_CalculateChecksum = (\<lambda>P. MinThrottle P + MaxThrottle P + ArmDelay P + DisarmDelay P)\<rparr>"

definition sample_prefs :: prefs where
  "sample_prefs =
     \<lparr>MinThrottle = 8000, MinThrottleArmed = 8500, MaxThrottle = 16000, CenterThrottle = 12000,
      ChannelIndex = [0, 1, 2, 3, 4, 5, 6, 7],
      ChannelCenter = [0, 0, 0, 0, 0, 0, 0, 0],
      ChannelScale = [1024, 1024, 1024, 1024, 1024, 1024, 1024, 1024],
      DriftScale = [0, 0, 0], AccelOffset = [0, 0, 0],
      MagScaleOfs = [0, 0, 0, 0, 0, 0, 0, 0, 0],
      RollCorrect = [0, 0], PitchCorrect = [0, 0],
      AutoLevelRollPitch = 0, AutoLevelYawRate = 0, ManualRollPitchRate = 0, ManualYawRate = 0,
      AccelCorrectionFilter = 16, ThrustCorrectionScale = 256, VoltageOffset = 0,
      LowVoltageAlarmThreshold = 700, ArmDelay = 2, DisarmDelay = 2,
      UseSBUS = 0, UseBattMon = 0, DisableMotors = 0, LowVoltageAlarm = 0, Checksum = 24004\<rparr>"

definition sample_radio :: radio where
  "sample_radio = \<lparr>Thro = 0, Aile = 0, Elev = 0, Rudd = 0, Gear = 1000, Aux1 = 0, Aux2 = 0, Aux3 = 0\<rparr>"

definition sample_sens :: sens_frame where
  "sample_sens =
     \<lparr>Temperature = 0, GyroX = 0, GyroY = 0, GyroZ = 0, AccelX = 0, AccelY = 0, AccelZ = 4096,
      MagX = 0, MagY = 0, MagZ = 0, Alt = 0, AltTemp = 0\<rparr>"

definition sample_state :: fc_state where
  "sample_state =
     \<lparr>UsbPulse = 0, XBeePulse = 0, Radio = sample_radio, Sens = sample_sens,
      GyroZX = 0, GyroZY = 0, GyroZZ = 0, AccelZSmooth = 4096, counter = 0, Mode = 0,
      NudgeMotor = -1, AltiEst = 0, AscentEst = 0, DesiredAltitude = 0, DesiredAscentRate = 0,
      RollDifference = 0, PitchDifference = 0, YawDifference = 0,
      GyroRoll = 0, GyroPitch = 0, GyroYaw = 0, GyroRPFilter = 192, GyroYawFilter = 192,
      Motor = (\<lambda>k. 8000), LEDValue = 0, FlightEnableStep = 0, CompassConfigStep = 0,
      FlightEnabled = 0, FlightMode = FlightMode_Assisted, IsHolding = 0,
      BatteryMonitorDelay = 0, LEDModeColor = 0, BatteryVolts = 0, Prefs = sample_prefs,
      events = []\<rparr>"

definition sample_in :: tick_in where
  "sample_in =
     \<lparr>in_sens = sample_sens, in_Radio = sample_radio,
      in_RollOut = 0, in_PitchOut = 0, in_YawOut = 0, in_AltPID = 0, in_AscentPID = 0,
      in_ThrustFactor = 256, in_PitchDifference = 0, in_RollDifference = 0, in_YawDifference = 0,
      in_AltitudeEstimate = 0, in_VerticalVelocityEstimate = 0, in_BatteryVoltage = 0,
      in_S4_Check0 = -1, in_S4_Check1 = -1, in_S4_Get_Timed = -1, in_S4_Get0 = -1,
      in_TempPrefs = sample_prefs, in_Prefs_Load = sample_prefs, in_Prefs_Load_ok = 1,
      in_Prefs_Defaults = sample_prefs, in_Sensors_In = (\<lambda>p a. 0), in_phase = 0\<rparr>"


text \<open>The sticks in the arming and in the disarming position.\<close>

definition arm_radio :: radio where
  "arm_radio = sample_radio\<lparr>Thro := -1000, Elev := -1000, Rudd := 1000, Aile := -1000\<rparr>"


section \<open>Frame lemmas\<close>

text \<open>What each function leaves unchanged, field by field.\<close>

lemma emit_frame [simp]:
  "UsbPulse (emit e s) = UsbPulse s"
  "XBeePulse (emit e s) = XBeePulse s"
  "Radio (emit e s) = Radio s"
  "Sens (emit e s) = Sens s"
  "GyroZX (emit e s) = GyroZX s"
  "GyroZY (emit e s) = GyroZY s"
  "GyroZZ (emit e s) = GyroZZ s"
  "AccelZSmooth (emit e s) = AccelZSmooth s"
  "counter (emit e s) = counter s"
  "Mode (emit e s) = Mode s"
  "NudgeMotor (emit e s) = NudgeMotor s"
  "AltiEst (emit e s) = AltiEst s"
  "AscentEst (emit e s) = AscentEst s"
  "DesiredAltitude (emit e s) = DesiredAltitude s"
  "DesiredAscentRate (emit e s) = DesiredAscentRate s"
  "RollDifference (emit e s) = RollDifference s"
  "PitchDifference (emit e s) = PitchDifference s"
  "YawDifference (emit e s) = YawDifference s"
  "GyroRoll (emit e s) = GyroRoll s"
  "GyroPitch (emit e s) = GyroPitch s"
  "GyroYaw (emit e s) = GyroYaw s"
  "GyroRPFilter (emit e s) = GyroRPFilter s"
  "GyroYawFilter (emit e s) = GyroYawFilter s"
  "Motor (emit e s) = Motor s"
  "LEDValue (emit e s) = LEDValue s"
  "FlightEnableStep (emit e s) = FlightEnableStep s"
  "CompassConfigStep (emit e s) = CompassConfigStep s"
  "FlightEnabled (emit e s) = FlightEnabled s"
  "FlightMode (emit e s) = FlightMode s"
  "IsHolding (emit e s) = IsHolding s"
  "BatteryMonitorDelay (emit e s) = BatteryMonitorDelay s"
  "LEDModeColor (emit e s) = LEDModeColor s"
  "BatteryVolts (emit e s) = BatteryVolts s"
  "Prefs (emit e s) = Prefs s"
  by (simp_all add: emit_def)

lemma All_LED_frame [simp]:
  "UsbPulse (All_LED c s) = UsbPulse s"
  "XBeePulse (All_LED c s) = XBeePulse s"
  "Radio (All_LED c s) = Radio s"
  "Sens (All_LED c s) = Sens s"
  "GyroZX (All_LED c s) = GyroZX s"
  "GyroZY (All_LED c s) = GyroZY s"
  "GyroZZ (All_LED c s) = GyroZZ s"
  "AccelZSmooth (All_LED c s) = AccelZSmooth s"
  "counter (All_LED c s) = counter s"
  "Mode (All_LED c s) = Mode s"
  "NudgeMotor (All_LED c s) = NudgeMotor s"
  "AltiEst (All_LED c s) = AltiEst s"
  "AscentEst (All_LED c s) = AscentEst s"
  "DesiredAltitude (All_LED c s) = DesiredAltitude s"
  "DesiredAscentRate (All_LED c s) = DesiredAscentRate s"
  "RollDifference (All_LED c s) = RollDifference s"
  "PitchDifference (All_LED c s) = PitchDifference s"
  "YawDifference (All_LED c s) = YawDifference s"
  "GyroRoll (All_LED c s) = GyroRoll s"
  "GyroPitch (All_LED c s) = GyroPitch s"
  "GyroYaw (All_LED c s) = GyroYaw s"
  "GyroRPFilter (All_LED c s) = GyroRPFilter s"
  "GyroYawFilter (All_LED c s) = GyroYawFilter s"
  "Motor (All_LED c s) = Motor s"
  "FlightEnableStep (All_LED c s) = FlightEnableStep s"
  "CompassConfigStep (All_LED c s) = CompassConfigStep s"
  "FlightEnabled (All_LED c s) = FlightEnabled s"
  "FlightMode (All_LED c s) = FlightMode s"
  "IsHolding (All_LED c s) = IsHolding s"
  "BatteryMonitorDelay (All_LED c s) = BatteryMonitorDelay s"
  "LEDModeColor (All_LED c s) = LEDModeColor s"
  "BatteryVolts (All_LED c s) = BatteryVolts s"
  "Prefs (All_LED c s) = Prefs s"
  "events (All_LED c s) = events s"
  by (simp_all add: All_LED_def)

lemma fold_frame [simp]:
  "(\<And>x s. UsbPulse (g x s) = UsbPulse s) \<Longrightarrow> UsbPulse (fold g xs s) = UsbPulse s"
  "(\<And>x s. XBeePulse (g x s) = XBeePulse s) \<Longrightarrow> XBeePulse (fold g xs s) = XBeePulse s"
  "(\<And>x s. Radio (g x s) = Radio s) \<Longrightarrow> Radio (fold g xs s) = Radio s"
  "(\<And>x s. Sens (g x s) = Sens s) \<Longrightarrow> Sens (fold g xs s) = Sens s"
  "(\<And>x s. GyroZX (g x s) = GyroZX s) \<Longrightarrow> GyroZX (fold g xs s) = GyroZX s"
  "(\<And>x s. GyroZY (g x s) = GyroZY s) \<Longrightarrow> GyroZY (fold g xs s) = GyroZY s"
  "(\<And>x s. GyroZZ (g x s) = GyroZZ s) \<Longrightarrow> GyroZZ (fold g xs s) = GyroZZ s"
  "(\<And>x s. AccelZSmooth (g x s) = AccelZSmooth s) \<Longrightarrow> AccelZSmooth (fold g xs s) = AccelZSmooth s"
  "(\<And>x s. counter (g x s) = counter s) \<Longrightarrow> counter (fold g xs s) = counter s"
  "(\<And>x s. Mode (g x s) = Mode s) \<Longrightarrow> Mode (fold g xs s) = Mode s"
  "(\<And>x s. NudgeMotor (g x s) = NudgeMotor s) \<Longrightarrow> NudgeMotor (fold g xs s) = NudgeMotor s"
  "(\<And>x s. AltiEst (g x s) = AltiEst s) \<Longrightarrow> AltiEst (fold g xs s) = AltiEst s"
  "(\<And>x s. AscentEst (g x s) = AscentEst s) \<Longrightarrow> AscentEst (fold g xs s) = AscentEst s"
  "(\<And>x s. DesiredAltitude (g x s) = DesiredAltitude s) \<Longrightarrow> DesiredAltitude (fold g xs s) = DesiredAltitude s"
  "(\<And>x s. DesiredAscentRate (g x s) = DesiredAscentRate s) \<Longrightarrow> DesiredAscentRate (fold g xs s) = DesiredAscentRate s"
  "(\<And>x s. RollDifference (g x s) = RollDifference s) \<Longrightarrow> RollDifference (fold g xs s) = RollDifference s"
  "(\<And>x s. PitchDifference (g x s) = PitchDifference s) \<Longrightarrow> PitchDifference (fold g xs s) = PitchDifference s"
  "(\<And>x s. YawDifference (g x s) = YawDifference s) \<Longrightarrow> YawDifference (fold g xs s) = YawDifference s"
  "(\<And>x s. GyroRoll (g x s) = GyroRoll s) \<Longrightarrow> GyroRoll (fold g xs s) = GyroRoll s"
  "(\<And>x s. GyroPitch (g x s) = GyroPitch s) \<Longrightarrow> GyroPitch (fold g xs s) = GyroPitch s"
  "(\<And>x s. GyroYaw (g x s) = GyroYaw s) \<Longrightarrow> GyroYaw (fold g xs s) = GyroYaw s"
  "(\<And>x s. GyroRPFilter (g x s) = GyroRPFilter s) \<Longrightarrow> GyroRPFilter (fold g xs s) = GyroRPFilter s"
  "(\<And>x s. GyroYawFilter (g x s) = GyroYawFilter s) \<Longrightarrow> GyroYawFilter (fold g xs s) = GyroYawFilter s"
  "(\<And>x s. Motor (g x s) = Motor s) \<Longrightarrow> Motor (fold g xs s) = Motor s"
  "(\<And>x s. LEDValue (g x s) = LEDValue s) \<Longrightarrow> LEDValue (fold g xs s) = LEDValue s"
  "(\<And>x s. FlightEnableStep (g x s) = FlightEnableStep s) \<Longrightarrow> FlightEnableStep (fold g xs s) = FlightEnableStep s"
  "(\<And>x s. CompassConfigStep (g x s) = CompassConfigStep s) \<Longrightarrow> CompassConfigStep (fold g xs s) = CompassConfigStep s"
  "(\<And>x s. FlightEnabled (g x s) = FlightEnabled s) \<Longrightarrow> FlightEnabled (fold g xs s) = FlightEnabled s"
  "(\<And>x s. FlightMode (g x s) = FlightMode s) \<Longrightarrow> FlightMode (fold g xs s) = FlightMode s"
  "(\<And>x s. IsHolding (g x s) = IsHolding s) \<Longrightarrow> IsHolding (fold g xs s) = IsHolding s"
  "(\<And>x s. BatteryMonitorDelay (g x s) = BatteryMonitorDelay s) \<Longrightarrow> BatteryMonitorDelay (fold g xs s) = BatteryMonitorDelay s"
  "(\<And>x s. LEDModeColor (g x s) = LEDModeColor s) \<Longrightarrow> LEDModeColor (fold g xs s) = LEDModeColor s"
  "(\<And>x s. BatteryVolts (g x s) = BatteryVolts s) \<Longrightarrow> BatteryVolts (fold g xs s) = BatteryVolts s"
  "(\<And>x s. Prefs (g x s) = Prefs s) \<Longrightarrow> Prefs (fold g xs s) = Prefs s"
  "(\<And>x s. events (g x s) = events s) \<Longrightarrow> events (fold g xs s) = events s"
  by (induction xs arbitrary: s) simp_all

lemma FindGyroZero_frame [simp]:
  "UsbPulse (FindGyroZero i s) = UsbPulse s"
  "XBeePulse (FindGyroZero i s) = XBeePulse s"
  "Radio (FindGyroZero i s) = Radio s"
  "Sens (FindGyroZero i s) = Sens s"
  "AccelZSmooth (FindGyroZero i s) = AccelZSmooth s"
  "counter (FindGyroZero i s) = counter s"
  "Mode (FindGyroZero i s) = Mode s"
  "NudgeMotor (FindGyroZero i s) = NudgeMotor s"
  "AltiEst (FindGyroZero i s) = AltiEst s"
  "AscentEst (FindGyroZero i s) = AscentEst s"
  "DesiredAltitude (FindGyroZero i s) = DesiredAltitude s"
  "DesiredAscentRate (FindGyroZero i s) = DesiredAscentRate s"
  "RollDifference (FindGyroZero i s) = RollDifference s"
  "PitchDifference (FindGyroZero i s) = PitchDifference s"
  "YawDifference (FindGyroZero i s) = YawDifference s"
  "GyroRoll (FindGyroZero i s) = GyroRoll s"
  "GyroPitch (FindGyroZero i s) = GyroPitch s"
  "GyroYaw (FindGyroZero i s) = GyroYaw s"
  "GyroRPFilter (FindGyroZero i s) = GyroRPFilter s"
  "GyroYawFilter (FindGyroZero i s) = GyroYawFilter s"
  "Motor (FindGyroZero i s) = Motor s"
  "LEDValue (FindGyroZero i s) = LEDValue s"
  "FlightEnableStep (FindGyroZero i s) = FlightEnableStep s"
  "CompassConfigStep (FindGyroZero i s) = CompassConfigStep s"
  "FlightEnabled (FindGyroZero i s) = FlightEnabled s"
  "FlightMode (FindGyroZero i s) = FlightMode s"
  "IsHolding (FindGyroZero i s) = IsHolding s"
  "BatteryMonitorDelay (FindGyroZero i s) = BatteryMonitorDelay s"
  "LEDModeColor (FindGyroZero i s) = LEDModeColor s"
  "BatteryVolts (FindGyroZero i s) = BatteryVolts s"
  "Prefs (FindGyroZero i s) = Prefs s"
  by (simp_all add: FindGyroZero_def split_beta)

lemma UpdateFlightLEDColor_frame [simp]:
  "UsbPulse (UpdateFlightLEDColor K s) = UsbPulse s"
  "XBeePulse (UpdateFlightLEDColor K s) = XBeePulse s"
  "Radio (UpdateFlightLEDColor K s) = Radio s"
  "Sens (UpdateFlightLEDColor K s) = Sens s"
  "GyroZX (UpdateFlightLEDColor K s) = GyroZX s"
  "GyroZY (UpdateFlightLEDColor K s) = GyroZY s"
  "GyroZZ (UpdateFlightLEDColor K s) = GyroZZ s"
  "AccelZSmooth (UpdateFlightLEDColor K s) = AccelZSmooth s"
  "counter (UpdateFlightLEDColor K s) = counter s"
  "Mode (UpdateFlightLEDColor K s) = Mode s"
  "NudgeMotor (UpdateFlightLEDColor K s) = NudgeMotor s"
  "AltiEst (UpdateFlightLEDColor K s) = AltiEst s"
  "AscentEst (UpdateFlightLEDColor K s) = AscentEst s"
  "DesiredAltitude (UpdateFlightLEDColor K s) = DesiredAltitude s"
  "DesiredAscentRate (UpdateFlightLEDColor K s) = DesiredAscentRate s"
  "RollDifference (UpdateFlightLEDColor K s) = RollDifference s"
  "PitchDifference (UpdateFlightLEDColor K s) = PitchDifference s"
  "YawDifference (UpdateFlightLEDColor K s) = YawDifference s"
  "GyroRoll (UpdateFlightLEDColor K s) = GyroRoll s"
  "GyroPitch (UpdateFlightLEDColor K s) = GyroPitch s"
  "GyroYaw (UpdateFlightLEDColor K s) = GyroYaw s"
  "GyroRPFilter (UpdateFlightLEDColor K s) = GyroRPFilter s"
  "GyroYawFilter (UpdateFlightLEDColor K s) = GyroYawFilter s"
  "Motor (UpdateFlightLEDColor K s) = Motor s"
  "LEDValue (UpdateFlightLEDColor K s) = LEDValue s"
  "FlightEnableStep (UpdateFlightLEDColor K s) = FlightEnableStep s"
  "CompassConfigStep (UpdateFlightLEDColor K s) = CompassConfigStep s"
  "FlightEnabled (UpdateFlightLEDColor K s) = FlightEnabled s"
  "FlightMode (UpdateFlightLEDColor K s) = FlightMode s"
  "IsHolding (UpdateFlightLEDColor K s) = IsHolding s"
  "BatteryMonitorDelay (UpdateFlightLEDColor K s) = BatteryMonitorDelay s"
  "BatteryVolts (UpdateFlightLEDColor K s) = BatteryVolts s"
  "Prefs (UpdateFlightLEDColor K s) = Prefs s"
  "events (UpdateFlightLEDColor K s) = events s"
  by (simp_all add: UpdateFlightLEDColor_def Let_def)

lemma ArmFlightMode_frame [simp]:
  "UsbPulse (ArmFlightMode K i s) = UsbPulse s"
  "XBeePulse (ArmFlightMode K i s) = XBeePulse s"
  "Radio (ArmFlightMode K i s) = Radio s"
  "Sens (ArmFlightMode K i s) = Sens s"
  "AccelZSmooth (ArmFlightMode K i s) = AccelZSmooth s"
  "counter (ArmFlightMode K i s) = counter s"
  "Mode (ArmFlightMode K i s) = Mode s"
  "NudgeMotor (ArmFlightMode K i s) = NudgeMotor s"
  "AltiEst (ArmFlightMode K i s) = AltiEst s"
  "AscentEst (ArmFlightMode K i s) = AscentEst s"
  "DesiredAscentRate (ArmFlightMode K i s) = DesiredAscentRate s"
  "RollDifference (ArmFlightMode K i s) = RollDifference s"
  "PitchDifference (ArmFlightMode K i s) = PitchDifference s"
  "YawDifference (ArmFlightMode K i s) = YawDifference s"
  "GyroRoll (ArmFlightMode K i s) = GyroRoll s"
  "GyroPitch (ArmFlightMode K i s) = GyroPitch s"
  "GyroYaw (ArmFlightMode K i s) = GyroYaw s"
  "GyroRPFilter (ArmFlightMode K i s) = GyroRPFilter s"
  "GyroYawFilter (ArmFlightMode K i s) = GyroYawFilter s"
  "Motor (ArmFlightMode K i s) = Motor s"
  "FlightMode (ArmFlightMode K i s) = FlightMode s"
  "IsHolding (ArmFlightMode K i s) = IsHolding s"
  "BatteryMonitorDelay (ArmFlightMode K i s) = BatteryMonitorDelay s"
  "LEDModeColor (ArmFlightMode K i s) = LEDModeColor s"
  "BatteryVolts (ArmFlightMode K i s) = BatteryVolts s"
  "Prefs (ArmFlightMode K i s) = Prefs s"
  by (simp_all add: ArmFlightMode_def Let_def)

lemma set_motor_min_frame [simp]:
  "UsbPulse (set_motor_min k s) = UsbPulse s"
  "XBeePulse (set_motor_min k s) = XBeePulse s"
  "Radio (set_motor_min k s) = Radio s"
  "Sens (set_motor_min k s) = Sens s"
  "GyroZX (set_motor_min k s) = GyroZX s"
  "GyroZY (set_motor_min k s) = GyroZY s"
  "GyroZZ (set_motor_min k s) = GyroZZ s"
  "AccelZSmooth (set_motor_min k s) = AccelZSmooth s"
  "counter (set_motor_min k s) = counter s"
  "Mode (set_motor_min k s) = Mode s"
  "NudgeMotor (set_motor_min k s) = NudgeMotor s"
  "AltiEst (set_motor_min k s) = AltiEst s"
  "AscentEst (set_motor_min k s) = AscentEst s"
  "DesiredAltitude (set_motor_min k s) = DesiredAltitude s"
  "DesiredAscentRate (set_motor_min k s) = DesiredAscentRate s"
  "RollDifference (set_motor_min k s) = RollDifference s"
  "PitchDifference (set_motor_min k s) = PitchDifference s"
  "YawDifference (set_motor_min k s) = YawDifference s"
  "GyroRoll (set_motor_min k s) = GyroRoll s"
  "GyroPitch (set_motor_min k s) = GyroPitch s"
  "GyroYaw (set_motor_min k s) = GyroYaw s"
  "GyroRPFilter (set_motor_min k s) = GyroRPFilter s"
  "GyroYawFilter (set_motor_min k s) = GyroYawFilter s"
  "LEDValue (set_motor_min k s) = LEDValue s"
  "FlightEnableStep (set_motor_min k s) = FlightEnableStep s"
  "CompassConfigStep (set_motor_min k s) = CompassConfigStep s"
  "FlightEnabled (set_motor_min k s) = FlightEnabled s"
  "FlightMode (set_motor_min k s) = FlightMode s"
  "IsHolding (set_motor_min k s) = IsHolding s"
  "BatteryMonitorDelay (set_motor_min k s) = BatteryMonitorDelay s"
  "LEDModeColor (set_motor_min k s) = LEDModeColor s"
  "BatteryVolts (set_motor_min k s) = BatteryVolts s"
  "Prefs (set_motor_min k s) = Prefs s"
  by (simp_all add: set_motor_min_def)

lemma DisarmFlightMode_frame [simp]:
  "UsbPulse (DisarmFlightMode K s) = UsbPulse s"
  "XBeePulse (DisarmFlightMode K s) = XBeePulse s"
  "Radio (DisarmFlightMode K s) = Radio s"
  "Sens (DisarmFlightMode K s) = Sens s"
  "GyroZX (DisarmFlightMode K s) = GyroZX s"
  "GyroZY (DisarmFlightMode K s) = GyroZY s"
  "GyroZZ (DisarmFlightMode K s) = GyroZZ s"
  "AccelZSmooth (DisarmFlightMode K s) = AccelZSmooth s"
  "counter (DisarmFlightMode K s) = counter s"
  "Mode (DisarmFlightMode K s) = Mode s"
  "NudgeMotor (DisarmFlightMode K s) = NudgeMotor s"
  "AltiEst (DisarmFlightMode K s) = AltiEst s"
  "AscentEst (DisarmFlightMode K s) = AscentEst s"
  "DesiredAltitude (DisarmFlightMode K s) = DesiredAltitude s"
  "DesiredAscentRate (DisarmFlightMode K s) = DesiredAscentRate s"
  "RollDifference (DisarmFlightMode K s) = RollDifference s"
  "PitchDifference (DisarmFlightMode K s) = PitchDifference s"
  "YawDifference (DisarmFlightMode K s) = YawDifference s"
  "GyroRoll (DisarmFlightMode K s) = GyroRoll s"
  "GyroPitch (DisarmFlightMode K s) = GyroPitch s"
  "GyroYaw (DisarmFlightMode K s) = GyroYaw s"
  "GyroRPFilter (DisarmFlightMode K s) = GyroRPFilter s"
  "GyroYawFilter (DisarmFlightMode K s) = GyroYawFilter s"
  "FlightMode (DisarmFlightMode K s) = FlightMode s"
  "IsHolding (DisarmFlightMode K s) = IsHolding s"
  "BatteryMonitorDelay (DisarmFlightMode K s) = BatteryMonitorDelay s"
  "LEDModeColor (DisarmFlightMode K s) = LEDModeColor s"
  "BatteryVolts (DisarmFlightMode K s) = BatteryVolts s"
  "Prefs (DisarmFlightMode K s) = Prefs s"
  by (simp_all add: DisarmFlightMode_def Let_def)

lemma UpdateFlightLoop_filter_frame [simp]:
  "UsbPulse (UpdateFlightLoop_filter s) = UsbPulse s"
  "XBeePulse (UpdateFlightLoop_filter s) = XBeePulse s"
  "Radio (UpdateFlightLoop_filter s) = Radio s"
  "Sens (UpdateFlightLoop_filter s) = Sens s"
  "GyroZX (UpdateFlightLoop_filter s) = GyroZX s"
  "GyroZY (UpdateFlightLoop_filter s) = GyroZY s"
  "GyroZZ (UpdateFlightLoop_filter s) = GyroZZ s"
  "AccelZSmooth (UpdateFlightLoop_filter s) = AccelZSmooth s"
  "counter (UpdateFlightLoop_filter s) = counter s"
  "Mode (UpdateFlightLoop_filter s) = Mode s"
  "NudgeMotor (UpdateFlightLoop_filter s) = NudgeMotor s"
  "AltiEst (UpdateFlightLoop_filter s) = AltiEst s"
  "AscentEst (UpdateFlightLoop_filter s) = AscentEst s"
  "DesiredAltitude (UpdateFlightLoop_filter s) = DesiredAltitude s"
  "DesiredAscentRate (UpdateFlightLoop_filter s) = DesiredAscentRate s"
  "RollDifference (UpdateFlightLoop_filter s) = RollDifference s"
  "PitchDifference (UpdateFlightLoop_filter s) = PitchDifference s"
  "YawDifference (UpdateFlightLoop_filter s) = YawDifference s"
  "GyroRPFilter (UpdateFlightLoop_filter s) = GyroRPFilter s"
  "GyroYawFilter (UpdateFlightLoop_filter s) = GyroYawFilter s"
  "Motor (UpdateFlightLoop_filter s) = Motor s"
  "LEDValue (UpdateFlightLoop_filter s) = LEDValue s"
  "FlightEnableStep (UpdateFlightLoop_filter s) = FlightEnableStep s"
  "CompassConfigStep (UpdateFlightLoop_filter s) = CompassConfigStep s"
  "FlightEnabled (UpdateFlightLoop_filter s) = FlightEnabled s"
  "FlightMode (UpdateFlightLoop_filter s) = FlightMode s"
  "IsHolding (UpdateFlightLoop_filter s) = IsHolding s"
  "BatteryMonitorDelay (UpdateFlightLoop_filter s) = BatteryMonitorDelay s"
  "LEDModeColor (UpdateFlightLoop_filter s) = LEDModeColor s"
  "BatteryVolts (UpdateFlightLoop_filter s) = BatteryVolts s"
  "Prefs (UpdateFlightLoop_filter s) = Prefs s"
  "events (UpdateFlightLoop_filter s) = events s"
  by (simp_all add: UpdateFlightLoop_filter_def Let_def)

lemma UpdateFlightLoop_gate_frame [simp]:
  "UsbPulse (UpdateFlightLoop_gate s) = UsbPulse s"
  "XBeePulse (UpdateFlightLoop_gate s) = XBeePulse s"
  "Radio (UpdateFlightLoop_gate s) = Radio s"
  "Sens (UpdateFlightLoop_gate s) = Sens s"
  "GyroZX (UpdateFlightLoop_gate s) = GyroZX s"
  "GyroZY (UpdateFlightLoop_gate s) = GyroZY s"
  "GyroZZ (UpdateFlightLoop_gate s) = GyroZZ s"
  "AccelZSmooth (UpdateFlightLoop_gate s) = AccelZSmooth s"
  "counter (UpdateFlightLoop_gate s) = counter s"
  "Mode (UpdateFlightLoop_gate s) = Mode s"
  "NudgeMotor (UpdateFlightLoop_gate s) = NudgeMotor s"
  "AltiEst (UpdateFlightLoop_gate s) = AltiEst s"
  "AscentEst (UpdateFlightLoop_gate s) = AscentEst s"
  "DesiredAltitude (UpdateFlightLoop_gate s) = DesiredAltitude s"
  "DesiredAscentRate (UpdateFlightLoop_gate s) = DesiredAscentRate s"
  "RollDifference (UpdateFlightLoop_gate s) = RollDifference s"
  "PitchDifference (UpdateFlightLoop_gate s) = PitchDifference s"
  "YawDifference (UpdateFlightLoop_gate s) = YawDifference s"
  "GyroRoll (UpdateFlightLoop_gate s) = GyroRoll s"
  "GyroPitch (UpdateFlightLoop_gate s) = GyroPitch s"
  "GyroYaw (UpdateFlightLoop_gate s) = GyroYaw s"
  "GyroRPFilter (UpdateFlightLoop_gate s) = GyroRPFilter s"
  "GyroYawFilter (UpdateFlightLoop_gate s) = GyroYawFilter s"
  "Motor (UpdateFlightLoop_gate s) = Motor s"
  "LEDValue (UpdateFlightLoop_gate s) = LEDValue s"
  "FlightEnableStep (UpdateFlightLoop_gate s) = FlightEnableStep s"
  "CompassConfigStep (UpdateFlightLoop_gate s) = CompassConfigStep s"
  "FlightEnabled (UpdateFlightLoop_gate s) = FlightEnabled s"
  "FlightMode (UpdateFlightLoop_gate s) = FlightMode s"
  "IsHolding (UpdateFlightLoop_gate s) = IsHolding s"
  "BatteryMonitorDelay (UpdateFlightLoop_gate s) = BatteryMonitorDelay s"
  "LEDModeColor (UpdateFlightLoop_gate s) = LEDModeColor s"
  "BatteryVolts (UpdateFlightLoop_gate s) = BatteryVolts s"
  "Prefs (UpdateFlightLoop_gate s) = Prefs s"
  by (simp_all add: UpdateFlightLoop_gate_def)

lemma UpdateFlightLoop_pids_frame [simp]:
  "UsbPulse (UpdateFlightLoop_pids d s) = UsbPulse s"
  "XBeePulse (UpdateFlightLoop_pids d s) = XBeePulse s"
  "Radio (UpdateFlightLoop_pids d s) = Radio s"
  "Sens (UpdateFlightLoop_pids d s) = Sens s"
  "GyroZX (UpdateFlightLoop_pids d s) = GyroZX s"
  "GyroZY (UpdateFlightLoop_pids d s) = GyroZY s"
  "GyroZZ (UpdateFlightLoop_pids d s) = GyroZZ s"
  "AccelZSmooth (UpdateFlightLoop_pids d s) = AccelZSmooth s"
  "counter (UpdateFlightLoop_pids d s) = counter s"
  "Mode (UpdateFlightLoop_pids d s) = Mode s"
  "NudgeMotor (UpdateFlightLoop_pids d s) = NudgeMotor s"
  "AltiEst (UpdateFlightLoop_pids d s) = AltiEst s"
  "AscentEst (UpdateFlightLoop_pids d s) = AscentEst s"
  "DesiredAltitude (UpdateFlightLoop_pids d s) = DesiredAltitude s"
  "DesiredAscentRate (UpdateFlightLoop_pids d s) = DesiredAscentRate s"
  "RollDifference (UpdateFlightLoop_pids d s) = RollDifference s"
  "PitchDifference (UpdateFlightLoop_pids d s) = PitchDifference s"
  "YawDifference (UpdateFlightLoop_pids d s) = YawDifference s"
  "GyroRoll (UpdateFlightLoop_pids d s) = GyroRoll s"
  "GyroPitch (UpdateFlightLoop_pids d s) = GyroPitch s"
  "GyroYaw (UpdateFlightLoop_pids d s) = GyroYaw s"
  "GyroRPFilter (UpdateFlightLoop_pids d s) = GyroRPFilter s"
  "GyroYawFilter (UpdateFlightLoop_pids d s) = GyroYawFilter s"
  "Motor (UpdateFlightLoop_pids d s) = Motor s"
  "LEDValue (UpdateFlightLoop_pids d s) = LEDValue s"
  "FlightEnableStep (UpdateFlightLoop_pids d s) = FlightEnableStep s"
  "CompassConfigStep (UpdateFlightLoop_pids d s) = CompassConfigStep s"
  "FlightEnabled (UpdateFlightLoop_pids d s) = FlightEnabled s"
  "FlightMode (UpdateFlightLoop_pids d s) = FlightMode s"
  "IsHolding (UpdateFlightLoop_pids d s) = IsHolding s"
  "BatteryMonitorDelay (UpdateFlightLoop_pids d s) = BatteryMonitorDelay s"
  "LEDModeColor (UpdateFlightLoop_pids d s) = LEDModeColor s"
  "BatteryVolts (UpdateFlightLoop_pids d s) = BatteryVolts s"
  "Prefs (UpdateFlightLoop_pids d s) = Prefs s"
  by (simp_all add: UpdateFlightLoop_pids_def)

lemma UpdateFlightLoop_hold_frame [simp]:
  "UsbPulse (UpdateFlightLoop_hold i d s) = UsbPulse s"
  "XBeePulse (UpdateFlightLoop_hold i d s) = XBeePulse s"
  "Radio (UpdateFlightLoop_hold i d s) = Radio s"
  "Sens (UpdateFlightLoop_hold i d s) = Sens s"
  "GyroZX (UpdateFlightLoop_hold i d s) = GyroZX s"
  "GyroZY (UpdateFlightLoop_hold i d s) = GyroZY s"
  "GyroZZ (UpdateFlightLoop_hold i d s) = GyroZZ s"
  "AccelZSmooth (UpdateFlightLoop_hold i d s) = AccelZSmooth s"
  "counter (UpdateFlightLoop_hold i d s) = counter s"
  "Mode (UpdateFlightLoop_hold i d s) = Mode s"
  "NudgeMotor (UpdateFlightLoop_hold i d s) = NudgeMotor s"
  "AltiEst (UpdateFlightLoop_hold i d s) = AltiEst s"
  "AscentEst (UpdateFlightLoop_hold i d s) = AscentEst s"
  "RollDifference (UpdateFlightLoop_hold i d s) = RollDifference s"
  "PitchDifference (UpdateFlightLoop_hold i d s) = PitchDifference s"
  "YawDifference (UpdateFlightLoop_hold i d s) = YawDifference s"
  "GyroRoll (UpdateFlightLoop_hold i d s) = GyroRoll s"
  "GyroPitch (UpdateFlightLoop_hold i d s) = GyroPitch s"
  "GyroYaw (UpdateFlightLoop_hold i d s) = GyroYaw s"
  "GyroRPFilter (UpdateFlightLoop_hold i d s) = GyroRPFilter s"
  "GyroYawFilter (UpdateFlightLoop_hold i d s) = GyroYawFilter s"
  "Motor (UpdateFlightLoop_hold i d s) = Motor s"
  "LEDValue (UpdateFlightLoop_hold i d s) = LEDValue s"
  "FlightEnableStep (UpdateFlightLoop_hold i d s) = FlightEnableStep s"
  "CompassConfigStep (UpdateFlightLoop_hold i d s) = CompassConfigStep s"
  "FlightEnabled (UpdateFlightLoop_hold i d s) = FlightEnabled s"
  "FlightMode (UpdateFlightLoop_hold i d s) = FlightMode s"
  "BatteryMonitorDelay (UpdateFlightLoop_hold i d s) = BatteryMonitorDelay s"
  "LEDModeColor (UpdateFlightLoop_hold i d s) = LEDModeColor s"
  "BatteryVolts (UpdateFlightLoop_hold i d s) = BatteryVolts s"
  "Prefs (UpdateFlightLoop_hold i d s) = Prefs s"
  by (simp_all add: UpdateFlightLoop_hold_def Let_def)

lemma UpdateFlightLoop_ascent_frame [simp]:
  "UsbPulse (UpdateFlightLoop_ascent d s) = UsbPulse s"
  "XBeePulse (UpdateFlightLoop_ascent d s) = XBeePulse s"
  "Radio (UpdateFlightLoop_ascent d s) = Radio s"
  "Sens (UpdateFlightLoop_ascent d s) = Sens s"
  "GyroZX (UpdateFlightLoop_ascent d s) = GyroZX s"
  "GyroZY (UpdateFlightLoop_ascent d s) = GyroZY s"
  "GyroZZ (UpdateFlightLoop_ascent d s) = GyroZZ s"
  "AccelZSmooth (UpdateFlightLoop_ascent d s) = AccelZSmooth s"
  "counter (UpdateFlightLoop_ascent d s) = counter s"
  "Mode (UpdateFlightLoop_ascent d s) = Mode s"
  "NudgeMotor (UpdateFlightLoop_ascent d s) = NudgeMotor s"
  "AltiEst (UpdateFlightLoop_ascent d s) = AltiEst s"
  "AscentEst (UpdateFlightLoop_ascent d s) = AscentEst s"
  "DesiredAltitude (UpdateFlightLoop_ascent d s) = DesiredAltitude s"
  "DesiredAscentRate (UpdateFlightLoop_ascent d s) = DesiredAscentRate s"
  "RollDifference (UpdateFlightLoop_ascent d s) = RollDifference s"
  "PitchDifference (UpdateFlightLoop_ascent d s) = PitchDifference s"
  "YawDifference (UpdateFlightLoop_ascent d s) = YawDifference s"
  "GyroRoll (UpdateFlightLoop_ascent d s) = GyroRoll s"
  "GyroPitch (UpdateFlightLoop_ascent d s) = GyroPitch s"
  "GyroYaw (UpdateFlightLoop_ascent d s) = GyroYaw s"
  "GyroRPFilter (UpdateFlightLoop_ascent d s) = GyroRPFilter s"
  "GyroYawFilter (UpdateFlightLoop_ascent d s) = GyroYawFilter s"
  "Motor (UpdateFlightLoop_ascent d s) = Motor s"
  "LEDValue (UpdateFlightLoop_ascent d s) = LEDValue s"
  "FlightEnableStep (UpdateFlightLoop_ascent d s) = FlightEnableStep s"
  "CompassConfigStep (UpdateFlightLoop_ascent d s) = CompassConfigStep s"
  "FlightEnabled (UpdateFlightLoop_ascent d s) = FlightEnabled s"
  "FlightMode (UpdateFlightLoop_ascent d s) = FlightMode s"
  "IsHolding (UpdateFlightLoop_ascent d s) = IsHolding s"
  "BatteryMonitorDelay (UpdateFlightLoop_ascent d s) = BatteryMonitorDelay s"
  "LEDModeColor (UpdateFlightLoop_ascent d s) = LEDModeColor s"
  "BatteryVolts (UpdateFlightLoop_ascent d s) = BatteryVolts s"
  "Prefs (UpdateFlightLoop_ascent d s) = Prefs s"
  by (simp_all add: UpdateFlightLoop_ascent_def Let_def)

lemma UpdateFlightLoop_altitude_frame [simp]:
  "UsbPulse (UpdateFlightLoop_altitude i d s) = UsbPulse s"
  "XBeePulse (UpdateFlightLoop_altitude i d s) = XBeePulse s"
  "Radio (UpdateFlightLoop_altitude i d s) = Radio s"
  "Sens (UpdateFlightLoop_altitude i d s) = Sens s"
  "GyroZX (UpdateFlightLoop_altitude i d s) = GyroZX s"
  "GyroZY (UpdateFlightLoop_altitude i d s) = GyroZY s"
  "GyroZZ (UpdateFlightLoop_altitude i d s) = GyroZZ s"
  "AccelZSmooth (UpdateFlightLoop_altitude i d s) = AccelZSmooth s"
  "counter (UpdateFlightLoop_altitude i d s) = counter s"
  "Mode (UpdateFlightLoop_altitude i d s) = Mode s"
  "NudgeMotor (UpdateFlightLoop_altitude i d s) = NudgeMotor s"
  "AltiEst (UpdateFlightLoop_altitude i d s) = AltiEst s"
  "AscentEst (UpdateFlightLoop_altitude i d s) = AscentEst s"
  "RollDifference (UpdateFlightLoop_altitude i d s) = RollDifference s"
  "PitchDifference (UpdateFlightLoop_altitude i d s) = PitchDifference s"
  "YawDifference (UpdateFlightLoop_altitude i d s) = YawDifference s"
  "GyroRoll (UpdateFlightLoop_altitude i d s) = GyroRoll s"
  "GyroPitch (UpdateFlightLoop_altitude i d s) = GyroPitch s"
  "GyroYaw (UpdateFlightLoop_altitude i d s) = GyroYaw s"
  "GyroRPFilter (UpdateFlightLoop_altitude i d s) = GyroRPFilter s"
  "GyroYawFilter (UpdateFlightLoop_altitude i d s) = GyroYawFilter s"
  "Motor (UpdateFlightLoop_altitude i d s) = Motor s"
  "LEDValue (UpdateFlightLoop_altitude i d s) = LEDValue s"
  "FlightEnableStep (UpdateFlightLoop_altitude i d s) = FlightEnableStep s"
  "CompassConfigStep (UpdateFlightLoop_altitude i d s) = CompassConfigStep s"
  "FlightEnabled (UpdateFlightLoop_altitude i d s) = FlightEnabled s"
  "FlightMode (UpdateFlightLoop_altitude i d s) = FlightMode s"
  "BatteryMonitorDelay (UpdateFlightLoop_altitude i d s) = BatteryMonitorDelay s"
  "LEDModeColor (UpdateFlightLoop_altitude i d s) = LEDModeColor s"
  "BatteryVolts (UpdateFlightLoop_altitude i d s) = BatteryVolts s"
  "Prefs (UpdateFlightLoop_altitude i d s) = Prefs s"
  by (simp_all add: UpdateFlightLoop_altitude_def)

lemma UpdateFlightLoop_assist_frame [simp]:
  "UsbPulse (UpdateFlightLoop_assist i d s) = UsbPulse s"
  "XBeePulse (UpdateFlightLoop_assist i d s) = XBeePulse s"
  "Radio (UpdateFlightLoop_assist i d s) = Radio s"
  "Sens (UpdateFlightLoop_assist i d s) = Sens s"
  "GyroZX (UpdateFlightLoop_assist i d s) = GyroZX s"
  "GyroZY (UpdateFlightLoop_assist i d s) = GyroZY s"
  "GyroZZ (UpdateFlightLoop_assist i d s) = GyroZZ s"
  "AccelZSmooth (UpdateFlightLoop_assist i d s) = AccelZSmooth s"
  "counter (UpdateFlightLoop_assist i d s) = counter s"
  "Mode (UpdateFlightLoop_assist i d s) = Mode s"
  "NudgeMotor (UpdateFlightLoop_assist i d s) = NudgeMotor s"
  "AltiEst (UpdateFlightLoop_assist i d s) = AltiEst s"
  "AscentEst (UpdateFlightLoop_assist i d s) = AscentEst s"
  "RollDifference (UpdateFlightLoop_assist i d s) = RollDifference s"
  "PitchDifference (UpdateFlightLoop_assist i d s) = PitchDifference s"
  "YawDifference (UpdateFlightLoop_assist i d s) = YawDifference s"
  "GyroRoll (UpdateFlightLoop_assist i d s) = GyroRoll s"
  "GyroPitch (UpdateFlightLoop_assist i d s) = GyroPitch s"
  "GyroYaw (UpdateFlightLoop_assist i d s) = GyroYaw s"
  "GyroRPFilter (UpdateFlightLoop_assist i d s) = GyroRPFilter s"
  "GyroYawFilter (UpdateFlightLoop_assist i d s) = GyroYawFilter s"
  "Motor (UpdateFlightLoop_assist i d s) = Motor s"
  "LEDValue (UpdateFlightLoop_assist i d s) = LEDValue s"
  "FlightEnableStep (UpdateFlightLoop_assist i d s) = FlightEnableStep s"
  "CompassConfigStep (UpdateFlightLoop_assist i d s) = CompassConfigStep s"
  "FlightEnabled (UpdateFlightLoop_assist i d s) = FlightEnabled s"
  "FlightMode (UpdateFlightLoop_assist i d s) = FlightMode s"
  "BatteryMonitorDelay (UpdateFlightLoop_assist i d s) = BatteryMonitorDelay s"
  "LEDModeColor (UpdateFlightLoop_assist i d s) = LEDModeColor s"
  "BatteryVolts (UpdateFlightLoop_assist i d s) = BatteryVolts s"
  "Prefs (UpdateFlightLoop_assist i d s) = Prefs s"
  by (simp_all add: UpdateFlightLoop_assist_def)

lemma UpdateFlightLoop_motors_frame [simp]:
  "UsbPulse (UpdateFlightLoop_motors i t tm s) = UsbPulse s"
  "XBeePulse (UpdateFlightLoop_motors i t tm s) = XBeePulse s"
  "Radio (UpdateFlightLoop_motors i t tm s) = Radio s"
  "Sens (UpdateFlightLoop_motors i t tm s) = Sens s"
  "GyroZX (UpdateFlightLoop_motors i t tm s) = GyroZX s"
  "GyroZY (UpdateFlightLoop_motors i t tm s) = GyroZY s"
  "GyroZZ (UpdateFlightLoop_motors i t tm s) = GyroZZ s"
  "AccelZSmooth (UpdateFlightLoop_motors i t tm s) = AccelZSmooth s"
  "counter (UpdateFlightLoop_motors i t tm s) = counter s"
  "Mode (UpdateFlightLoop_motors i t tm s) = Mode s"
  "NudgeMotor (UpdateFlightLoop_motors i t tm s) = NudgeMotor s"
  "AltiEst (UpdateFlightLoop_motors i t tm s) = AltiEst s"
  "AscentEst (UpdateFlightLoop_motors i t tm s) = AscentEst s"
  "DesiredAltitude (UpdateFlightLoop_motors i t tm s) = DesiredAltitude s"
  "DesiredAscentRate (UpdateFlightLoop_motors i t tm s) = DesiredAscentRate s"
  "RollDifference (UpdateFlightLoop_motors i t tm s) = RollDifference s"
  "PitchDifference (UpdateFlightLoop_motors i t tm s) = PitchDifference s"
  "YawDifference (UpdateFlightLoop_motors i t tm s) = YawDifference s"
  "GyroRoll (UpdateFlightLoop_motors i t tm s) = GyroRoll s"
  "GyroPitch (UpdateFlightLoop_motors i t tm s) = GyroPitch s"
  "GyroYaw (UpdateFlightLoop_motors i t tm s) = GyroYaw s"
  "GyroRPFilter (UpdateFlightLoop_motors i t tm s) = GyroRPFilter s"
  "GyroYawFilter (UpdateFlightLoop_motors i t tm s) = GyroYawFilter s"
  "LEDValue (UpdateFlightLoop_motors i t tm s) = LEDValue s"
  "FlightEnableStep (UpdateFlightLoop_motors i t tm s) = FlightEnableStep s"
  "CompassConfigStep (UpdateFlightLoop_motors i t tm s) = CompassConfigStep s"
  "FlightEnabled (UpdateFlightLoop_motors i t tm s) = FlightEnabled s"
  "FlightMode (UpdateFlightLoop_motors i t tm s) = FlightMode s"
  "IsHolding (UpdateFlightLoop_motors i t tm s) = IsHolding s"
  "BatteryMonitorDelay (UpdateFlightLoop_motors i t tm s) = BatteryMonitorDelay s"
  "LEDModeColor (UpdateFlightLoop_motors i t tm s) = LEDModeColor s"
  "BatteryVolts (UpdateFlightLoop_motors i t tm s) = BatteryVolts s"
  "Prefs (UpdateFlightLoop_motors i t tm s) = Prefs s"
  "events (UpdateFlightLoop_motors i t tm s) = events s"
  by (simp_all add: UpdateFlightLoop_motors_def)

lemma UpdateFlightLoop_dispatch_frame [simp]:
  "UsbPulse (UpdateFlightLoop_dispatch s) = UsbPulse s"
  "XBeePulse (UpdateFlightLoop_dispatch s) = XBeePulse s"
  "Radio (UpdateFlightLoop_dispatch s) = Radio s"
  "Sens (UpdateFlightLoop_dispatch s) = Sens s"
  "GyroZX (UpdateFlightLoop_dispatch s) = GyroZX s"
  "GyroZY (UpdateFlightLoop_dispatch s) = GyroZY s"
  "GyroZZ (UpdateFlightLoop_dispatch s) = GyroZZ s"
  "AccelZSmooth (UpdateFlightLoop_dispatch s) = AccelZSmooth s"
  "counter (UpdateFlightLoop_dispatch s) = counter s"
  "Mode (UpdateFlightLoop_dispatch s) = Mode s"
  "NudgeMotor (UpdateFlightLoop_dispatch s) = NudgeMotor s"
  "AltiEst (UpdateFlightLoop_dispatch s) = AltiEst s"
  "AscentEst (UpdateFlightLoop_dispatch s) = AscentEst s"
  "DesiredAltitude (UpdateFlightLoop_dispatch s) = DesiredAltitude s"
  "DesiredAscentRate (UpdateFlightLoop_dispatch s) = DesiredAscentRate s"
  "RollDifference (UpdateFlightLoop_dispatch s) = RollDifference s"
  "PitchDifference (UpdateFlightLoop_dispatch s) = PitchDifference s"
  "YawDifference (UpdateFlightLoop_dispatch s) = YawDifference s"
  "GyroRoll (UpdateFlightLoop_dispatch s) = GyroRoll s"
  "GyroPitch (UpdateFlightLoop_dispatch s) = GyroPitch s"
  "GyroYaw (UpdateFlightLoop_dispatch s) = GyroYaw s"
  "GyroRPFilter (UpdateFlightLoop_dispatch s) = GyroRPFilter s"
  "GyroYawFilter (UpdateFlightLoop_dispatch s) = GyroYawFilter s"
  "Motor (UpdateFlightLoop_dispatch s) = Motor s"
  "LEDValue (UpdateFlightLoop_dispatch s) = LEDValue s"
  "FlightEnableStep (UpdateFlightLoop_dispatch s) = FlightEnableStep s"
  "CompassConfigStep (UpdateFlightLoop_dispatch s) = CompassConfigStep s"
  "FlightEnabled (UpdateFlightLoop_dispatch s) = FlightEnabled s"
  "FlightMode (UpdateFlightLoop_dispatch s) = FlightMode s"
  "IsHolding (UpdateFlightLoop_dispatch s) = IsHolding s"
  "BatteryMonitorDelay (UpdateFlightLoop_dispatch s) = BatteryMonitorDelay s"
  "LEDModeColor (UpdateFlightLoop_dispatch s) = LEDModeColor s"
  "BatteryVolts (UpdateFlightLoop_dispatch s) = BatteryVolts s"
  "Prefs (UpdateFlightLoop_dispatch s) = Prefs s"
  by (simp_all add: UpdateFlightLoop_dispatch_def)

lemma UpdateFlightLoop_control_frame [simp]:
  "UsbPulse (UpdateFlightLoop_control K i s) = UsbPulse s"
  "XBeePulse (UpdateFlightLoop_control K i s) = XBeePulse s"
  "Radio (UpdateFlightLoop_control K i s) = Radio s"
  "Sens (UpdateFlightLoop_control K i s) = Sens s"
  "GyroZX (UpdateFlightLoop_control K i s) = GyroZX s"
  "GyroZY (UpdateFlightLoop_control K i s) = GyroZY s"
  "GyroZZ (UpdateFlightLoop_control K i s) = GyroZZ s"
  "AccelZSmooth (UpdateFlightLoop_control K i s) = AccelZSmooth s"
  "counter (UpdateFlightLoop_control K i s) = counter s"
  "Mode (UpdateFlightLoop_control K i s) = Mode s"
  "NudgeMotor (UpdateFlightLoop_control K i s) = NudgeMotor s"
  "AltiEst (UpdateFlightLoop_control K i s) = AltiEst s"
  "AscentEst (UpdateFlightLoop_control K i s) = AscentEst s"
  "RollDifference (UpdateFlightLoop_control K i s) = RollDifference s"
  "PitchDifference (UpdateFlightLoop_control K i s) = PitchDifference s"
  "YawDifference (UpdateFlightLoop_control K i s) = YawDifference s"
  "GyroRPFilter (UpdateFlightLoop_control K i s) = GyroRPFilter s"
  "GyroYawFilter (UpdateFlightLoop_control K i s) = GyroYawFilter s"
  "LEDValue (UpdateFlightLoop_control K i s) = LEDValue s"
  "FlightEnableStep (UpdateFlightLoop_control K i s) = FlightEnableStep s"
  "CompassConfigStep (UpdateFlightLoop_control K i s) = CompassConfigStep s"
  "FlightEnabled (UpdateFlightLoop_control K i s) = FlightEnabled s"
  "FlightMode (UpdateFlightLoop_control K i s) = FlightMode s"
  "BatteryMonitorDelay (UpdateFlightLoop_control K i s) = BatteryMonitorDelay s"
  "LEDModeColor (UpdateFlightLoop_control K i s) = LEDModeColor s"
  "BatteryVolts (UpdateFlightLoop_control K i s) = BatteryVolts s"
  "Prefs (UpdateFlightLoop_control K i s) = Prefs s"
  by (simp_all add: UpdateFlightLoop_control_def Let_def)

lemma BatteryAlarm_frame [simp]:
  "UsbPulse (BatteryAlarm K s) = UsbPulse s"
  "XBeePulse (BatteryAlarm K s) = XBeePulse s"
  "Radio (BatteryAlarm K s) = Radio s"
  "Sens (BatteryAlarm K s) = Sens s"
  "GyroZX (BatteryAlarm K s) = GyroZX s"
  "GyroZY (BatteryAlarm K s) = GyroZY s"
  "GyroZZ (BatteryAlarm K s) = GyroZZ s"
  "AccelZSmooth (BatteryAlarm K s) = AccelZSmooth s"
  "counter (BatteryAlarm K s) = counter s"
  "Mode (BatteryAlarm K s) = Mode s"
  "NudgeMotor (BatteryAlarm K s) = NudgeMotor s"
  "AltiEst (BatteryAlarm K s) = AltiEst s"
  "AscentEst (BatteryAlarm K s) = AscentEst s"
  "DesiredAltitude (BatteryAlarm K s) = DesiredAltitude s"
  "DesiredAscentRate (BatteryAlarm K s) = DesiredAscentRate s"
  "RollDifference (BatteryAlarm K s) = RollDifference s"
  "PitchDifference (BatteryAlarm K s) = PitchDifference s"
  "YawDifference (BatteryAlarm K s) = YawDifference s"
  "GyroRoll (BatteryAlarm K s) = GyroRoll s"
  "GyroPitch (BatteryAlarm K s) = GyroPitch s"
  "GyroYaw (BatteryAlarm K s) = GyroYaw s"
  "GyroRPFilter (BatteryAlarm K s) = GyroRPFilter s"
  "GyroYawFilter (BatteryAlarm K s) = GyroYawFilter s"
  "Motor (BatteryAlarm K s) = Motor s"
  "LEDValue (BatteryAlarm K s) = LEDValue s"
  "FlightEnableStep (BatteryAlarm K s) = FlightEnableStep s"
  "CompassConfigStep (BatteryAlarm K s) = CompassConfigStep s"
  "FlightEnabled (BatteryAlarm K s) = FlightEnabled s"
  "FlightMode (BatteryAlarm K s) = FlightMode s"
  "IsHolding (BatteryAlarm K s) = IsHolding s"
  "BatteryMonitorDelay (BatteryAlarm K s) = BatteryMonitorDelay s"
  "LEDModeColor (BatteryAlarm K s) = LEDModeColor s"
  "BatteryVolts (BatteryAlarm K s) = BatteryVolts s"
  "Prefs (BatteryAlarm K s) = Prefs s"
  by (simp_all add: BatteryAlarm_def)

lemma UpdateFlightLoop_frame [simp]:
  "UsbPulse (UpdateFlightLoop K i s) = UsbPulse s"
  "XBeePulse (UpdateFlightLoop K i s) = XBeePulse s"
  "Radio (UpdateFlightLoop K i s) = Radio s"
  "Sens (UpdateFlightLoop K i s) = Sens s"
  "AccelZSmooth (UpdateFlightLoop K i s) = AccelZSmooth s"
  "counter (UpdateFlightLoop K i s) = counter s"
  "Mode (UpdateFlightLoop K i s) = Mode s"
  "NudgeMotor (UpdateFlightLoop K i s) = NudgeMotor s"
  "AltiEst (UpdateFlightLoop K i s) = AltiEst s"
  "AscentEst (UpdateFlightLoop K i s) = AscentEst s"
  "RollDifference (UpdateFlightLoop K i s) = RollDifference s"
  "PitchDifference (UpdateFlightLoop K i s) = PitchDifference s"
  "YawDifference (UpdateFlightLoop K i s) = YawDifference s"
  "GyroRPFilter (UpdateFlightLoop K i s) = GyroRPFilter s"
  "GyroYawFilter (UpdateFlightLoop K i s) = GyroYawFilter s"
  "FlightMode (UpdateFlightLoop K i s) = FlightMode s"
  "BatteryMonitorDelay (UpdateFlightLoop K i s) = BatteryMonitorDelay s"
  "BatteryVolts (UpdateFlightLoop K i s) = BatteryVolts s"
  "Prefs (UpdateFlightLoop K i s) = Prefs s"
  by (simp_all add: UpdateFlightLoop_def Let_def StartCompassCalibrate_def)

lemma ApplyPrefs_frame [simp]:
  "UsbPulse (ApplyPrefs K s) = UsbPulse s"
  "XBeePulse (ApplyPrefs K s) = XBeePulse s"
  "Radio (ApplyPrefs K s) = Radio s"
  "Sens (ApplyPrefs K s) = Sens s"
  "GyroZX (ApplyPrefs K s) = GyroZX s"
  "GyroZY (ApplyPrefs K s) = GyroZY s"
  "GyroZZ (ApplyPrefs K s) = GyroZZ s"
  "AccelZSmooth (ApplyPrefs K s) = AccelZSmooth s"
  "counter (ApplyPrefs K s) = counter s"
  "Mode (ApplyPrefs K s) = Mode s"
  "NudgeMotor (ApplyPrefs K s) = NudgeMotor s"
  "AltiEst (ApplyPrefs K s) = AltiEst s"
  "AscentEst (ApplyPrefs K s) = AscentEst s"
  "DesiredAltitude (ApplyPrefs K s) = DesiredAltitude s"
  "DesiredAscentRate (ApplyPrefs K s) = DesiredAscentRate s"
  "RollDifference (ApplyPrefs K s) = RollDifference s"
  "PitchDifference (ApplyPrefs K s) = PitchDifference s"
  "YawDifference (ApplyPrefs K s) = YawDifference s"
  "GyroRoll (ApplyPrefs K s) = GyroRoll s"
  "GyroPitch (ApplyPrefs K s) = GyroPitch s"
  "GyroYaw (ApplyPrefs K s) = GyroYaw s"
  "GyroRPFilter (ApplyPrefs K s) = GyroRPFilter s"
  "GyroYawFilter (ApplyPrefs K s) = GyroYawFilter s"
  "Motor (ApplyPrefs K s) = Motor s"
  "LEDValue (ApplyPrefs K s) = LEDValue s"
  "FlightEnableStep (ApplyPrefs K s) = FlightEnableStep s"
  "CompassConfigStep (ApplyPrefs K s) = CompassConfigStep s"
  "FlightEnabled (ApplyPrefs K s) = FlightEnabled s"
  "FlightMode (ApplyPrefs K s) = FlightMode s"
  "IsHolding (ApplyPrefs K s) = IsHolding s"
  "BatteryMonitorDelay (ApplyPrefs K s) = BatteryMonitorDelay s"
  "LEDModeColor (ApplyPrefs K s) = LEDModeColor s"
  "BatteryVolts (ApplyPrefs K s) = BatteryVolts s"
  by (simp_all add: ApplyPrefs_def Let_def)

lemma CheckDebugInput_sensor_frame [simp]:
  "UsbPulse (CheckDebugInput_sensor c s) = UsbPulse s"
  "XBeePulse (CheckDebugInput_sensor c s) = XBeePulse s"
  "Radio (CheckDebugInput_sensor c s) = Radio s"
  "Sens (CheckDebugInput_sensor c s) = Sens s"
  "GyroZX (CheckDebugInput_sensor c s) = GyroZX s"
  "GyroZY (CheckDebugInput_sensor c s) = GyroZY s"
  "GyroZZ (CheckDebugInput_sensor c s) = GyroZZ s"
  "AccelZSmooth (CheckDebugInput_sensor c s) = AccelZSmooth s"
  "counter (CheckDebugInput_sensor c s) = counter s"
  "Mode (CheckDebugInput_sensor c s) = Mode s"
  "NudgeMotor (CheckDebugInput_sensor c s) = NudgeMotor s"
  "AltiEst (CheckDebugInput_sensor c s) = AltiEst s"
  "AscentEst (CheckDebugInput_sensor c s) = AscentEst s"
  "DesiredAltitude (CheckDebugInput_sensor c s) = DesiredAltitude s"
  "DesiredAscentRate (CheckDebugInput_sensor c s) = DesiredAscentRate s"
  "RollDifference (CheckDebugInput_sensor c s) = RollDifference s"
  "PitchDifference (CheckDebugInput_sensor c s) = PitchDifference s"
  "YawDifference (CheckDebugInput_sensor c s) = YawDifference s"
  "GyroRoll (CheckDebugInput_sensor c s) = GyroRoll s"
  "GyroPitch (CheckDebugInput_sensor c s) = GyroPitch s"
  "GyroYaw (CheckDebugInput_sensor c s) = GyroYaw s"
  "GyroRPFilter (CheckDebugInput_sensor c s) = GyroRPFilter s"
  "GyroYawFilter (CheckDebugInput_sensor c s) = GyroYawFilter s"
  "Motor (CheckDebugInput_sensor c s) = Motor s"
  "LEDValue (CheckDebugInput_sensor c s) = LEDValue s"
  "FlightEnableStep (CheckDebugInput_sensor c s) = FlightEnableStep s"
  "CompassConfigStep (CheckDebugInput_sensor c s) = CompassConfigStep s"
  "FlightEnabled (CheckDebugInput_sensor c s) = FlightEnabled s"
  "FlightMode (CheckDebugInput_sensor c s) = FlightMode s"
  "IsHolding (CheckDebugInput_sensor c s) = IsHolding s"
  "BatteryMonitorDelay (CheckDebugInput_sensor c s) = BatteryMonitorDelay s"
  "LEDModeColor (CheckDebugInput_sensor c s) = LEDModeColor s"
  "BatteryVolts (CheckDebugInput_sensor c s) = BatteryVolts s"
  by (simp_all add: CheckDebugInput_sensor_def)

lemma CheckDebugInput_prefs_frame [simp]:
  "UsbPulse (CheckDebugInput_prefs K i port c s) = UsbPulse s"
  "XBeePulse (CheckDebugInput_prefs K i port c s) = XBeePulse s"
  "Radio (CheckDebugInput_prefs K i port c s) = Radio s"
  "Sens (CheckDebugInput_prefs K i port c s) = Sens s"
  "GyroZX (CheckDebugInput_prefs K i port c s) = GyroZX s"
  "GyroZY (CheckDebugInput_prefs K i port c s) = GyroZY s"
  "GyroZZ (CheckDebugInput_prefs K i port c s) = GyroZZ s"
  "AccelZSmooth (CheckDebugInput_prefs K i port c s) = AccelZSmooth s"
  "counter (CheckDebugInput_prefs K i port c s) = counter s"
  "Mode (CheckDebugInput_prefs K i port c s) = Mode s"
  "NudgeMotor (CheckDebugInput_prefs K i port c s) = NudgeMotor s"
  "AltiEst (CheckDebugInput_prefs K i port c s) = AltiEst s"
  "AscentEst (CheckDebugInput_prefs K i port c s) = AscentEst s"
  "DesiredAltitude (CheckDebugInput_prefs K i port c s) = DesiredAltitude s"
  "DesiredAscentRate (CheckDebugInput_prefs K i port c s) = DesiredAscentRate s"
  "RollDifference (CheckDebugInput_prefs K i port c s) = RollDifference s"
  "PitchDifference (CheckDebugInput_prefs K i port c s) = PitchDifference s"
  "YawDifference (CheckDebugInput_prefs K i port c s) = YawDifference s"
  "GyroRoll (CheckDebugInput_prefs K i port c s) = GyroRoll s"
  "GyroPitch (CheckDebugInput_prefs K i port c s) = GyroPitch s"
  "GyroYaw (CheckDebugInput_prefs K i port c s) = GyroYaw s"
  "GyroRPFilter (CheckDebugInput_prefs K i port c s) = GyroRPFilter s"
  "GyroYawFilter (CheckDebugInput_prefs K i port c s) = GyroYawFilter s"
  "Motor (CheckDebugInput_prefs K i port c s) = Motor s"
  "LEDValue (CheckDebugInput_prefs K i port c s) = LEDValue s"
  "FlightEnableStep (CheckDebugInput_prefs K i port c s) = FlightEnableStep s"
  "CompassConfigStep (CheckDebugInput_prefs K i port c s) = CompassConfigStep s"
  "FlightEnabled (CheckDebugInput_prefs K i port c s) = FlightEnabled s"
  "FlightMode (CheckDebugInput_prefs K i port c s) = FlightMode s"
  "IsHolding (CheckDebugInput_prefs K i port c s) = IsHolding s"
  "BatteryMonitorDelay (CheckDebugInput_prefs K i port c s) = BatteryMonitorDelay s"
  "LEDModeColor (CheckDebugInput_prefs K i port c s) = LEDModeColor s"
  "BatteryVolts (CheckDebugInput_prefs K i port c s) = BatteryVolts s"
  by (simp_all add: CheckDebugInput_prefs_def Let_def)

lemma CheckDebugInput_frame [simp]:
  "Radio (CheckDebugInput K i s) = Radio s"
  "Sens (CheckDebugInput K i s) = Sens s"
  "GyroZX (CheckDebugInput K i s) = GyroZX s"
  "GyroZY (CheckDebugInput K i s) = GyroZY s"
  "GyroZZ (CheckDebugInput K i s) = GyroZZ s"
  "AccelZSmooth (CheckDebugInput K i s) = AccelZSmooth s"
  "counter (CheckDebugInput K i s) = counter s"
  "AltiEst (CheckDebugInput K i s) = AltiEst s"
  "AscentEst (CheckDebugInput K i s) = AscentEst s"
  "DesiredAltitude (CheckDebugInput K i s) = DesiredAltitude s"
  "DesiredAscentRate (CheckDebugInput K i s) = DesiredAscentRate s"
  "RollDifference (CheckDebugInput K i s) = RollDifference s"
  "PitchDifference (CheckDebugInput K i s) = PitchDifference s"
  "YawDifference (CheckDebugInput K i s) = YawDifference s"
  "GyroRoll (CheckDebugInput K i s) = GyroRoll s"
  "GyroPitch (CheckDebugInput K i s) = GyroPitch s"
  "GyroYaw (CheckDebugInput K i s) = GyroYaw s"
  "GyroRPFilter (CheckDebugInput K i s) = GyroRPFilter s"
  "GyroYawFilter (CheckDebugInput K i s) = GyroYawFilter s"
  "Motor (CheckDebugInput K i s) = Motor s"
  "LEDValue (CheckDebugInput K i s) = LEDValue s"
  "FlightEnableStep (CheckDebugInput K i s) = FlightEnableStep s"
  "CompassConfigStep (CheckDebugInput K i s) = CompassConfigStep s"
  "FlightEnabled (CheckDebugInput K i s) = FlightEnabled s"
  "FlightMode (CheckDebugInput K i s) = FlightMode s"
  "IsHolding (CheckDebugInput K i s) = IsHolding s"
  "BatteryMonitorDelay (CheckDebugInput K i s) = BatteryMonitorDelay s"
  "LEDModeColor (CheckDebugInput K i s) = LEDModeColor s"
  "BatteryVolts (CheckDebugInput K i s) = BatteryVolts s"
  by (simp_all add: CheckDebugInput_def Let_def)

lemma SensorTest_packet_frame [simp]:
  "UsbPulse (SensorTest_packet port phase s) = UsbPulse s"
  "XBeePulse (SensorTest_packet port phase s) = XBeePulse s"
  "Radio (SensorTest_packet port phase s) = Radio s"
  "Sens (SensorTest_packet port phase s) = Sens s"
  "GyroZX (SensorTest_packet port phase s) = GyroZX s"
  "GyroZY (SensorTest_packet port phase s) = GyroZY s"
  "GyroZZ (SensorTest_packet port phase s) = GyroZZ s"
  "AccelZSmooth (SensorTest_packet port phase s) = AccelZSmooth s"
  "counter (SensorTest_packet port phase s) = counter s"
  "Mode (SensorTest_packet port phase s) = Mode s"
  "NudgeMotor (SensorTest_packet port phase s) = NudgeMotor s"
  "AltiEst (SensorTest_packet port phase s) = AltiEst s"
  "AscentEst (SensorTest_packet port phase s) = AscentEst s"
  "DesiredAltitude (SensorTest_packet port phase s) = DesiredAltitude s"
  "DesiredAscentRate (SensorTest_packet port phase s) = DesiredAscentRate s"
  "RollDifference (SensorTest_packet port phase s) = RollDifference s"
  "PitchDifference (SensorTest_packet port phase s) = PitchDifference s"
  "YawDifference (SensorTest_packet port phase s) = YawDifference s"
  "GyroRoll (SensorTest_packet port phase s) = GyroRoll s"
  "GyroPitch (SensorTest_packet port phase s) = GyroPitch s"
  "GyroYaw (SensorTest_packet port phase s) = GyroYaw s"
  "GyroRPFilter (SensorTest_packet port phase s) = GyroRPFilter s"
  "GyroYawFilter (SensorTest_packet port phase s) = GyroYawFilter s"
  "Motor (SensorTest_packet port phase s) = Motor s"
  "LEDValue (SensorTest_packet port phase s) = LEDValue s"
  "FlightEnableStep (SensorTest_packet port phase s) = FlightEnableStep s"
  "CompassConfigStep (SensorTest_packet port phase s) = CompassConfigStep s"
  "FlightEnabled (SensorTest_packet port phase s) = FlightEnabled s"
  "FlightMode (SensorTest_packet port phase s) = FlightMode s"
  "IsHolding (SensorTest_packet port phase s) = IsHolding s"
  "BatteryMonitorDelay (SensorTest_packet port phase s) = BatteryMonitorDelay s"
  "LEDModeColor (SensorTest_packet port phase s) = LEDModeColor s"
  "BatteryVolts (SensorTest_packet port phase s) = BatteryVolts s"
  "Prefs (SensorTest_packet port phase s) = Prefs s"
  by (simp_all add: SensorTest_packet_def)

lemma set_motor_frame [simp]:
  "UsbPulse (set_motor v k s) = UsbPulse s"
  "XBeePulse (set_motor v k s) = XBeePulse s"
  "Radio (set_motor v k s) = Radio s"
  "Sens (set_motor v k s) = Sens s"
  "GyroZX (set_motor v k s) = GyroZX s"
  "GyroZY (set_motor v k s) = GyroZY s"
  "GyroZZ (set_motor v k s) = GyroZZ s"
  "AccelZSmooth (set_motor v k s) = AccelZSmooth s"
  "counter (set_motor v k s) = counter s"
  "Mode (set_motor v k s) = Mode s"
  "NudgeMotor (set_motor v k s) = NudgeMotor s"
  "AltiEst (set_motor v k s) = AltiEst s"
  "AscentEst (set_motor v k s) = AscentEst s"
  "DesiredAltitude (set_motor v k s) = DesiredAltitude s"
  "DesiredAscentRate (set_motor v k s) = DesiredAscentRate s"
  "RollDifference (set_motor v k s) = RollDifference s"
  "PitchDifference (set_motor v k s) = PitchDifference s"
  "YawDifference (set_motor v k s) = YawDifference s"
  "GyroRoll (set_motor v k s) = GyroRoll s"
  "GyroPitch (set_motor v k s) = GyroPitch s"
  "GyroYaw (set_motor v k s) = GyroYaw s"
  "GyroRPFilter (set_motor v k s) = GyroRPFilter s"
  "GyroYawFilter (set_motor v k s) = GyroYawFilter s"
  "Motor (set_motor v k s) = Motor s"
  "LEDValue (set_motor v k s) = LEDValue s"
  "FlightEnableStep (set_motor v k s) = FlightEnableStep s"
  "CompassConfigStep (set_motor v k s) = CompassConfigStep s"
  "FlightEnabled (set_motor v k s) = FlightEnabled s"
  "FlightMode (set_motor v k s) = FlightMode s"
  "IsHolding (set_motor v k s) = IsHolding s"
  "BatteryMonitorDelay (set_motor v k s) = BatteryMonitorDelay s"
  "LEDModeColor (set_motor v k s) = LEDModeColor s"
  "BatteryVolts (set_motor v k s) = BatteryVolts s"
  "Prefs (set_motor v k s) = Prefs s"
  by (simp_all add: set_motor_def)

lemma NudgeMotor_test_frame [simp]:
  "UsbPulse (NudgeMotor_test i s) = UsbPulse s"
  "XBeePulse (NudgeMotor_test i s) = XBeePulse s"
  "Radio (NudgeMotor_test i s) = Radio s"
  "Sens (NudgeMotor_test i s) = Sens s"
  "GyroZX (NudgeMotor_test i s) = GyroZX s"
  "GyroZY (NudgeMotor_test i s) = GyroZY s"
  "GyroZZ (NudgeMotor_test i s) = GyroZZ s"
  "AccelZSmooth (NudgeMotor_test i s) = AccelZSmooth s"
  "counter (NudgeMotor_test i s) = counter s"
  "Mode (NudgeMotor_test i s) = Mode s"
  "AltiEst (NudgeMotor_test i s) = AltiEst s"
  "AscentEst (NudgeMotor_test i s) = AscentEst s"
  "DesiredAltitude (NudgeMotor_test i s) = DesiredAltitude s"
  "DesiredAscentRate (NudgeMotor_test i s) = DesiredAscentRate s"
  "RollDifference (NudgeMotor_test i s) = RollDifference s"
  "PitchDifference (NudgeMotor_test i s) = PitchDifference s"
  "YawDifference (NudgeMotor_test i s) = YawDifference s"
  "GyroRoll (NudgeMotor_test i s) = GyroRoll s"
  "GyroPitch (NudgeMotor_test i s) = GyroPitch s"
  "GyroYaw (NudgeMotor_test i s) = GyroYaw s"
  "GyroRPFilter (NudgeMotor_test i s) = GyroRPFilter s"
  "GyroYawFilter (NudgeMotor_test i s) = GyroYawFilter s"
  "Motor (NudgeMotor_test i s) = Motor s"
  "FlightEnableStep (NudgeMotor_test i s) = FlightEnableStep s"
  "CompassConfigStep (NudgeMotor_test i s) = CompassConfigStep s"
  "FlightEnabled (NudgeMotor_test i s) = FlightEnabled s"
  "FlightMode (NudgeMotor_test i s) = FlightMode s"
  "IsHolding (NudgeMotor_test i s) = IsHolding s"
  "BatteryMonitorDelay (NudgeMotor_test i s) = BatteryMonitorDelay s"
  "LEDModeColor (NudgeMotor_test i s) = LEDModeColor s"
  "BatteryVolts (NudgeMotor_test i s) = BatteryVolts s"
  "Prefs (NudgeMotor_test i s) = Prefs s"
  by (simp_all add: NudgeMotor_test_def Let_def)

lemma DoDebugModeOutput_send_frame [simp]:
  "UsbPulse (DoDebugModeOutput_send K i port phase s) = UsbPulse s"
  "XBeePulse (DoDebugModeOutput_send K i port phase s) = XBeePulse s"
  "Radio (DoDebugModeOutput_send K i port phase s) = Radio s"
  "Sens (DoDebugModeOutput_send K i port phase s) = Sens s"
  "GyroZX (DoDebugModeOutput_send K i port phase s) = GyroZX s"
  "GyroZY (DoDebugModeOutput_send K i port phase s) = GyroZY s"
  "GyroZZ (DoDebugModeOutput_send K i port phase s) = GyroZZ s"
  "AccelZSmooth (DoDebugModeOutput_send K i port phase s) = AccelZSmooth s"
  "counter (DoDebugModeOutput_send K i port phase s) = counter s"
  "Mode (DoDebugModeOutput_send K i port phase s) = Mode s"
  "AltiEst (DoDebugModeOutput_send K i port phase s) = AltiEst s"
  "AscentEst (DoDebugModeOutput_send K i port phase s) = AscentEst s"
  "DesiredAltitude (DoDebugModeOutput_send K i port phase s) = DesiredAltitude s"
  "DesiredAscentRate (DoDebugModeOutput_send K i port phase s) = DesiredAscentRate s"
  "RollDifference (DoDebugModeOutput_send K i port phase s) = RollDifference s"
  "PitchDifference (DoDebugModeOutput_send K i port phase s) = PitchDifference s"
  "YawDifference (DoDebugModeOutput_send K i port phase s) = YawDifference s"
  "GyroRoll (DoDebugModeOutput_send K i port phase s) = GyroRoll s"
  "GyroPitch (DoDebugModeOutput_send K i port phase s) = GyroPitch s"
  "GyroYaw (DoDebugModeOutput_send K i port phase s) = GyroYaw s"
  "GyroRPFilter (DoDebugModeOutput_send K i port phase s) = GyroRPFilter s"
  "GyroYawFilter (DoDebugModeOutput_send K i port phase s) = GyroYawFilter s"
  "Motor (DoDebugModeOutput_send K i port phase s) = Motor s"
  "FlightEnableStep (DoDebugModeOutput_send K i port phase s) = FlightEnableStep s"
  "CompassConfigStep (DoDebugModeOutput_send K i port phase s) = CompassConfigStep s"
  "FlightEnabled (DoDebugModeOutput_send K i port phase s) = FlightEnabled s"
  "FlightMode (DoDebugModeOutput_send K i port phase s) = FlightMode s"
  "IsHolding (DoDebugModeOutput_send K i port phase s) = IsHolding s"
  "BatteryMonitorDelay (DoDebugModeOutput_send K i port phase s) = BatteryMonitorDelay s"
  "LEDModeColor (DoDebugModeOutput_send K i port phase s) = LEDModeColor s"
  "BatteryVolts (DoDebugModeOutput_send K i port phase s) = BatteryVolts s"
  "Prefs (DoDebugModeOutput_send K i port phase s) = Prefs s"
  by (simp_all add: DoDebugModeOutput_send_def Let_def)

lemma DoDebugModeOutput_frame [simp]:
  "XBeePulse (DoDebugModeOutput K i s) = XBeePulse s"
  "Radio (DoDebugModeOutput K i s) = Radio s"
  "Sens (DoDebugModeOutput K i s) = Sens s"
  "GyroZX (DoDebugModeOutput K i s) = GyroZX s"
  "GyroZY (DoDebugModeOutput K i s) = GyroZY s"
  "GyroZZ (DoDebugModeOutput K i s) = GyroZZ s"
  "AccelZSmooth (DoDebugModeOutput K i s) = AccelZSmooth s"
  "counter (DoDebugModeOutput K i s) = counter s"
  "AltiEst (DoDebugModeOutput K i s) = AltiEst s"
  "AscentEst (DoDebugModeOutput K i s) = AscentEst s"
  "DesiredAltitude (DoDebugModeOutput K i s) = DesiredAltitude s"
  "DesiredAscentRate (DoDebugModeOutput K i s) = DesiredAscentRate s"
  "RollDifference (DoDebugModeOutput K i s) = RollDifference s"
  "PitchDifference (DoDebugModeOutput K i s) = PitchDifference s"
  "YawDifference (DoDebugModeOutput K i s) = YawDifference s"
  "GyroRoll (DoDebugModeOutput K i s) = GyroRoll s"
  "GyroPitch (DoDebugModeOutput K i s) = GyroPitch s"
  "GyroYaw (DoDebugModeOutput K i s) = GyroYaw s"
  "GyroRPFilter (DoDebugModeOutput K i s) = GyroRPFilter s"
  "GyroYawFilter (DoDebugModeOutput K i s) = GyroYawFilter s"
  "Motor (DoDebugModeOutput K i s) = Motor s"
  "FlightEnableStep (DoDebugModeOutput K i s) = FlightEnableStep s"
  "CompassConfigStep (DoDebugModeOutput K i s) = CompassConfigStep s"
  "FlightEnabled (DoDebugModeOutput K i s) = FlightEnabled s"
  "FlightMode (DoDebugModeOutput K i s) = FlightMode s"
  "IsHolding (DoDebugModeOutput K i s) = IsHolding s"
  "BatteryMonitorDelay (DoDebugModeOutput K i s) = BatteryMonitorDelay s"
  "LEDModeColor (DoDebugModeOutput K i s) = LEDModeColor s"
  "BatteryVolts (DoDebugModeOutput K i s) = BatteryVolts s"
  "Prefs (DoDebugModeOutput K i s) = Prefs s"
  by (simp_all add: DoDebugModeOutput_def Let_def)

lemma main_flight_mode_frame [simp]:
  "UsbPulse (main_flight_mode s) = UsbPulse s"
  "XBeePulse (main_flight_mode s) = XBeePulse s"
  "Radio (main_flight_mode s) = Radio s"
  "Sens (main_flight_mode s) = Sens s"
  "GyroZX (main_flight_mode s) = GyroZX s"
  "GyroZY (main_flight_mode s) = GyroZY s"
  "GyroZZ (main_flight_mode s) = GyroZZ s"
  "AccelZSmooth (main_flight_mode s) = AccelZSmooth s"
  "counter (main_flight_mode s) = counter s"
  "Mode (main_flight_mode s) = Mode s"
  "NudgeMotor (main_flight_mode s) = NudgeMotor s"
  "AltiEst (main_flight_mode s) = AltiEst s"
  "AscentEst (main_flight_mode s) = AscentEst s"
  "DesiredAscentRate (main_flight_mode s) = DesiredAscentRate s"
  "RollDifference (main_flight_mode s) = RollDifference s"
  "PitchDifference (main_flight_mode s) = PitchDifference s"
  "YawDifference (main_flight_mode s) = YawDifference s"
  "GyroRoll (main_flight_mode s) = GyroRoll s"
  "GyroPitch (main_flight_mode s) = GyroPitch s"
  "GyroYaw (main_flight_mode s) = GyroYaw s"
  "GyroRPFilter (main_flight_mode s) = GyroRPFilter s"
  "GyroYawFilter (main_flight_mode s) = GyroYawFilter s"
  "Motor (main_flight_mode s) = Motor s"
  "LEDValue (main_flight_mode s) = LEDValue s"
  "FlightEnableStep (main_flight_mode s) = FlightEnableStep s"
  "CompassConfigStep (main_flight_mode s) = CompassConfigStep s"
  "FlightEnabled (main_flight_mode s) = FlightEnabled s"
  "BatteryMonitorDelay (main_flight_mode s) = BatteryMonitorDelay s"
  "LEDModeColor (main_flight_mode s) = LEDModeColor s"
  "BatteryVolts (main_flight_mode s) = BatteryVolts s"
  "Prefs (main_flight_mode s) = Prefs s"
  by (simp_all add: main_flight_mode_def Let_def)

lemma main_battery_frame [simp]:
  "UsbPulse (main_battery K i s) = UsbPulse s"
  "XBeePulse (main_battery K i s) = XBeePulse s"
  "Radio (main_battery K i s) = Radio s"
  "Sens (main_battery K i s) = Sens s"
  "GyroZX (main_battery K i s) = GyroZX s"
  "GyroZY (main_battery K i s) = GyroZY s"
  "GyroZZ (main_battery K i s) = GyroZZ s"
  "AccelZSmooth (main_battery K i s) = AccelZSmooth s"
  "counter (main_battery K i s) = counter s"
  "Mode (main_battery K i s) = Mode s"
  "NudgeMotor (main_battery K i s) = NudgeMotor s"
  "AltiEst (main_battery K i s) = AltiEst s"
  "AscentEst (main_battery K i s) = AscentEst s"
  "DesiredAltitude (main_battery K i s) = DesiredAltitude s"
  "DesiredAscentRate (main_battery K i s) = DesiredAscentRate s"
  "RollDifference (main_battery K i s) = RollDifference s"
  "PitchDifference (main_battery K i s) = PitchDifference s"
  "YawDifference (main_battery K i s) = YawDifference s"
  "GyroRoll (main_battery K i s) = GyroRoll s"
  "GyroPitch (main_battery K i s) = GyroPitch s"
  "GyroYaw (main_battery K i s) = GyroYaw s"
  "GyroRPFilter (main_battery K i s) = GyroRPFilter s"
  "GyroYawFilter (main_battery K i s) = GyroYawFilter s"
  "Motor (main_battery K i s) = Motor s"
  "LEDValue (main_battery K i s) = LEDValue s"
  "FlightEnableStep (main_battery K i s) = FlightEnableStep s"
  "CompassConfigStep (main_battery K i s) = CompassConfigStep s"
  "FlightEnabled (main_battery K i s) = FlightEnabled s"
  "FlightMode (main_battery K i s) = FlightMode s"
  "IsHolding (main_battery K i s) = IsHolding s"
  "Prefs (main_battery K i s) = Prefs s"
  by (simp_all add: main_battery_def)

lemma main_intake_frame [simp]:
  "UsbPulse (main_intake i s) = UsbPulse s"
  "XBeePulse (main_intake i s) = XBeePulse s"
  "GyroZX (main_intake i s) = GyroZX s"
  "GyroZY (main_intake i s) = GyroZY s"
  "GyroZZ (main_intake i s) = GyroZZ s"
  "counter (main_intake i s) = counter s"
  "Mode (main_intake i s) = Mode s"
  "NudgeMotor (main_intake i s) = NudgeMotor s"
  "AltiEst (main_intake i s) = AltiEst s"
  "AscentEst (main_intake i s) = AscentEst s"
  "DesiredAltitude (main_intake i s) = DesiredAltitude s"
  "DesiredAscentRate (main_intake i s) = DesiredAscentRate s"
  "RollDifference (main_intake i s) = RollDifference s"
  "PitchDifference (main_intake i s) = PitchDifference s"
  "YawDifference (main_intake i s) = YawDifference s"
  "GyroRoll (main_intake i s) = GyroRoll s"
  "GyroPitch (main_intake i s) = GyroPitch s"
  "GyroYaw (main_intake i s) = GyroYaw s"
  "GyroRPFilter (main_intake i s) = GyroRPFilter s"
  "GyroYawFilter (main_intake i s) = GyroYawFilter s"
  "Motor (main_intake i s) = Motor s"
  "LEDValue (main_intake i s) = LEDValue s"
  "FlightEnableStep (main_intake i s) = FlightEnableStep s"
  "CompassConfigStep (main_intake i s) = CompassConfigStep s"
  "FlightEnabled (main_intake i s) = FlightEnabled s"
  "FlightMode (main_intake i s) = FlightMode s"
  "IsHolding (main_intake i s) = IsHolding s"
  "BatteryMonitorDelay (main_intake i s) = BatteryMonitorDelay s"
  "LEDModeColor (main_intake i s) = LEDModeColor s"
  "BatteryVolts (main_intake i s) = BatteryVolts s"
  "Prefs (main_intake i s) = Prefs s"
  by (simp_all add: main_intake_def Let_def)

lemma main_led_frame [simp]:
  "UsbPulse (main_led K i s) = UsbPulse s"
  "XBeePulse (main_led K i s) = XBeePulse s"
  "Radio (main_led K i s) = Radio s"
  "Sens (main_led K i s) = Sens s"
  "GyroZX (main_led K i s) = GyroZX s"
  "GyroZY (main_led K i s) = GyroZY s"
  "GyroZZ (main_led K i s) = GyroZZ s"
  "AccelZSmooth (main_led K i s) = AccelZSmooth s"
  "counter (main_led K i s) = counter s"
  "Mode (main_led K i s) = Mode s"
  "NudgeMotor (main_led K i s) = NudgeMotor s"
  "AltiEst (main_led K i s) = AltiEst s"
  "AscentEst (main_led K i s) = AscentEst s"
  "DesiredAltitude (main_led K i s) = DesiredAltitude s"
  "DesiredAscentRate (main_led K i s) = DesiredAscentRate s"
  "RollDifference (main_led K i s) = RollDifference s"
  "PitchDifference (main_led K i s) = PitchDifference s"
  "YawDifference (main_led K i s) = YawDifference s"
  "GyroRoll (main_led K i s) = GyroRoll s"
  "GyroPitch (main_led K i s) = GyroPitch s"
  "GyroYaw (main_led K i s) = GyroYaw s"
  "GyroRPFilter (main_led K i s) = GyroRPFilter s"
  "GyroYawFilter (main_led K i s) = GyroYawFilter s"
  "Motor (main_led K i s) = Motor s"
  "FlightEnableStep (main_led K i s) = FlightEnableStep s"
  "CompassConfigStep (main_led K i s) = CompassConfigStep s"
  "FlightEnabled (main_led K i s) = FlightEnabled s"
  "FlightMode (main_led K i s) = FlightMode s"
  "IsHolding (main_led K i s) = IsHolding s"
  "Prefs (main_led K i s) = Prefs s"
  by (simp_all add: main_led_def Let_def)

lemma main_estimates_frame [simp]:
  "UsbPulse (main_estimates i s) = UsbPulse s"
  "XBeePulse (main_estimates i s) = XBeePulse s"
  "Radio (main_estimates i s) = Radio s"
  "Sens (main_estimates i s) = Sens s"
  "GyroZX (main_estimates i s) = GyroZX s"
  "GyroZY (main_estimates i s) = GyroZY s"
  "GyroZZ (main_estimates i s) = GyroZZ s"
  "AccelZSmooth (main_estimates i s) = AccelZSmooth s"
  "counter (main_estimates i s) = counter s"
  "Mode (main_estimates i s) = Mode s"
  "NudgeMotor (main_estimates i s) = NudgeMotor s"
  "DesiredAltitude (main_estimates i s) = DesiredAltitude s"
  "DesiredAscentRate (main_estimates i s) = DesiredAscentRate s"
  "GyroRoll (main_estimates i s) = GyroRoll s"
  "GyroPitch (main_estimates i s) = GyroPitch s"
  "GyroYaw (main_estimates i s) = GyroYaw s"
  "GyroRPFilter (main_estimates i s) = GyroRPFilter s"
  "GyroYawFilter (main_estimates i s) = GyroYawFilter s"
  "Motor (main_estimates i s) = Motor s"
  "LEDValue (main_estimates i s) = LEDValue s"
  "FlightEnableStep (main_estimates i s) = FlightEnableStep s"
  "CompassConfigStep (main_estimates i s) = CompassConfigStep s"
  "FlightEnabled (main_estimates i s) = FlightEnabled s"
  "FlightMode (main_estimates i s) = FlightMode s"
  "IsHolding (main_estimates i s) = IsHolding s"
  "BatteryMonitorDelay (main_estimates i s) = BatteryMonitorDelay s"
  "LEDModeColor (main_estimates i s) = LEDModeColor s"
  "BatteryVolts (main_estimates i s) = BatteryVolts s"
  "Prefs (main_estimates i s) = Prefs s"
  by (simp_all add: main_estimates_def Let_def)

section \<open>Motor outputs\<close>








lemma DisarmFlightMode_FlightEnabled: "FlightEnabled (DisarmFlightMode K s) = 0"
  by (simp add: DisarmFlightMode_def Let_def All_LED_def emit_def)









text \<open>
  Claim C7. The X mixer: with zero pitch, roll and yaw outputs and \<open>ThroOut = 12000\<close>
  all four mixed values are 12000 (for any \<open>ThroMix\<close>); with \<open>RollOut = 1000\<close>,
  \<open>ThroMix = 64\<close> and \<open>ThroOut = 12000\<close> the FL and BL values are 12500 and the FR
  and BR values are 11500.
\<close>

theorem X_mixer_examples:
  "XMix 12000 0 0 0 tm m OUT_FL = 12000 \<and> XMix 12000 0 0 0 tm m OUT_FR = 12000
   \<and> XMix 12000 0 0 0 tm m OUT_BL = 12000 \<and> XMix 12000 0 0 0 tm m OUT_BR = 12000
   \<and> XMix 12000 0 1000 0 64 m OUT_FL = 12500 \<and> XMix 12000 0 1000 0 64 m OUT_BL = 12500
   \<and> XMix 12000 0 1000 0 64 m OUT_FR = 11500 \<and> XMix 12000 0 1000 0 64 m OUT_BR = 11500"
  by (simp add: XMix_def Let_def OUT_FL_def OUT_FR_def OUT_BL_def OUT_BR_def drop_bit_eq_div cint_def)



section \<open>Serial commands\<close>

lemma CheckDebugInput_silent: "received i = None \<Longrightarrow> CheckDebugInput K i s = s"
  by (simp add: received_def CheckDebugInput_def split: if_splits)

lemma CheckDebugInput_received:
  "received i = Some (port, c) \<Longrightarrow>
   CheckDebugInput K i s =
     (if c \<le> MODE_MotorTest K then
        (if port = 0 then s\<lparr>Mode := c, UsbPulse := 500, XBeePulse := 0\<rparr>
         else s\<lparr>Mode := c, UsbPulse := 0, XBeePulse := 500\<rparr>)
      else if port = 0 \<and> c AND 0xF8 = 0x08 then s\<lparr>NudgeMotor := c AND 7\<rparr>
      else
        (let s1 = (if c AND 0xF8 = 0x10 then
                     (if Mode s = MODE_SensorTest K then CheckDebugInput_sensor c s else s)
                   else s);
             s2 = (if c AND 0xF8 = 0x18 then CheckDebugInput_prefs K i port c s1 else s1)
         in if c = 0xff then emit (Ev_S4_Put port 0xE8) s2 else s2))"
proof -
  assume r: "received i = Some (port, c)"
  show ?thesis
  proof (cases "in_S4_Check0 i < 0")
    case True
    with r have "port = 1" "c = in_S4_Check1 i" "\<not> in_S4_Check1 i < 0"
      by (simp_all add: received_def split: if_splits)
    with True show ?thesis
      by (simp add: CheckDebugInput_def)
  next
    case False
    with r have "port = 0" "c = in_S4_Check0 i"
      by (simp_all add: received_def split: if_splits)
    with False show ?thesis
      by (simp add: CheckDebugInput_def)
  qed
qed


lemma cmd_facts:
  assumes "16 \<le> c" "c \<le> (21::int)"
  shows "c AND 0xF8 = 0x10" "c AND 0xF8 \<noteq> 0x18" "c AND 0xF8 \<noteq> 0x08" "c \<noteq> 0xff"
proof -
  from assms have "c = 16 \<or> c = 17 \<or> c = 18 \<or> c = 19 \<or> c = 20 \<or> c = 21" by arith
  then show "c AND 0xF8 = 0x10" "c AND 0xF8 \<noteq> 0x18" "c AND 0xF8 \<noteq> 0x08" "c \<noteq> 0xff"
    by auto
qed

text \<open>
  Claim C10. A command byte between 0x10 and 0x15, from either port, acts only in display
  mode \<open>MODE_SensorTest\<close>, where it runs the block of the sensor commands; in any
  other display mode \<open>CheckDebugInput\<close> returns the state as it was: no call reaches
  the sensors driver (gyro drift, accelerometer offset) and the channel scales and
  centres keep their values. Display modes are the bytes up to \<open>MODE_MotorTest\<close>,
  which lies below the command range.
\<close>

theorem sensor_commands_gated:
  assumes "MODE_MotorTest K < 0x10" and "received i = Some (port, c)"
    and "0x10 \<le> c" and "c \<le> 0x15"
  shows "CheckDebugInput K i s =
           (if Mode s = MODE_SensorTest K then CheckDebugInput_sensor c s else s)
       \<and> (Mode s \<noteq> MODE_SensorTest K \<longrightarrow>
            events (CheckDebugInput K i s) = events s
          \<and> ChannelScale (Prefs (CheckDebugInput K i s)) = ChannelScale (Prefs s)
          \<and> ChannelCenter (Prefs (CheckDebugInput K i s)) = ChannelCenter (Prefs s))"
proof -
  have "\<not> c \<le> MODE_MotorTest K" using assms by simp
  with assms(2) cmd_facts [of c] assms(3,4)
  have "CheckDebugInput K i s =
           (if Mode s = MODE_SensorTest K then CheckDebugInput_sensor c s else s)"
    by (simp add: CheckDebugInput_received)
  then show ?thesis by simp
qed


lemma CheckDebugInput_0x19:
  assumes "MODE_MotorTest K < 0x19" and "received i = Some (port, 0x19)"
  shows "CheckDebugInput K i s = CheckDebugInput_prefs K i port 0x19 s"
proof -
  have "\<not> (0x19::int) \<le> MODE_MotorTest K" using assms by simp
  with assms(2) show c: "CheckDebugInput K i s = CheckDebugInput_prefs K i port 0x19 s"
    by (simp add: CheckDebugInput_received)
qed


lemma CheckDebugInput_prefs_mismatch:
  "Prefs_CalculateChecksum K (in_TempPrefs i) \<noteq> Checksum (in_TempPrefs i) \<Longrightarrow>
      CheckDebugInput_prefs K i port 0x19 s = emit Ev_Beep s"
  by (simp add: CheckDebugInput_prefs_def)


text \<open>
  Claim C2. After command 0x19, when the checksum computed over the received record
  differs from the checksum stored in it, \<open>CheckDebugInput\<close> only beeps: the
  preferences in memory are what they were. Hence the preferences change only when
  the two checksums agree.
\<close>

theorem prefs_upload_checksum:
  assumes "MODE_MotorTest K < 0x19" and "received i = Some (port, 0x19)"
  shows "(Prefs_CalculateChecksum K (in_TempPrefs i) \<noteq> Checksum (in_TempPrefs i) \<longrightarrow>
            CheckDebugInput K i s = emit Ev_Beep s
          \<and> Prefs (CheckDebugInput K i s) = Prefs s
          \<and> events (CheckDebugInput K i s) = events s @ [Ev_Beep])
       \<and> (Prefs (CheckDebugInput K i s) \<noteq> Prefs s \<longrightarrow>
            Prefs_CalculateChecksum K (in_TempPrefs i) = Checksum (in_TempPrefs i))"
proof (cases "Prefs_CalculateChecksum K (in_TempPrefs i) = Checksum (in_TempPrefs i)")
  case True
  then show ?thesis by blast
next
  case False
  have "CheckDebugInput K i s = CheckDebugInput_prefs K i port 0x19 s"
    by (rule CheckDebugInput_0x19 [OF assms])
  also have "\<dots> = emit Ev_Beep s"
    by (rule CheckDebugInput_prefs_mismatch [OF False])
  finally have e: "CheckDebugInput K i s = emit Ev_Beep s" .
  have p: "Prefs (emit Ev_Beep s) = Prefs s" by simp
  have v: "events (emit Ev_Beep s) = events s @ [Ev_Beep]" by (simp add: emit_def)
  show ?thesis unfolding e using p v by blast
qed


text \<open>A channel reset (0x13) sent on USB, in display mode 0 and in \<open>MODE_SensorTest\<close>.\<close>

theorem sensor_commands_gated_witness:
  "MODE_MotorTest sample_consts < 0x10
   \<and> received (sample_in\<lparr>in_S4_Check0 := 0x13\<rparr>) = Some (0, 0x13)
   \<and> (0x10 :: int) \<le> 0x13 \<and> (0x13 :: int) \<le> 0x15
   \<and> Mode sample_state \<noteq> MODE_SensorTest sample_consts
   \<and> events (CheckDebugInput sample_consts (sample_in\<lparr>in_S4_Check0 := 0x13\<rparr>) sample_state) = []
   \<and> ChannelScale (Prefs (CheckDebugInput sample_consts (sample_in\<lparr>in_S4_Check0 := 0x13\<rparr>) sample_state))
       = [1024, 1024, 1024, 1024, 1024, 1024, 1024, 1024]
   \<and> events (CheckDebugInput sample_consts (sample_in\<lparr>in_S4_Check0 := 0x13\<rparr>)
        (sample_state\<lparr>Mode := 2\<rparr>)) = [Ev_Beep2]"
proof -
  let ?i = "sample_in\<lparr>in_S4_Check0 := 0x13\<rparr>"
  let ?t = "sample_state\<lparr>Mode := 2\<rparr>"
  have h: "MODE_MotorTest sample_consts < 0x10" "received ?i = Some (0, 0x13)"
    "(0x10 :: int) \<le> 0x13" "(0x13 :: int) \<le> 0x15"
    by (simp_all add: sample_consts_def sample_in_def received_def)
  have m: "Mode sample_state \<noteq> MODE_SensorTest sample_consts"
    and m2: "Mode ?t = MODE_SensorTest sample_consts"
    by (simp_all add: sample_consts_def sample_state_def)
  have e: "events (CheckDebugInput_sensor 0x13 ?t) = [Ev_Beep2]"
    by (simp add: CheckDebugInput_sensor_def emit_def sample_state_def)
  have v: "events sample_state = []"
    "ChannelScale (Prefs sample_state) = [1024, 1024, 1024, 1024, 1024, 1024, 1024, 1024]"
    by (simp_all add: sample_state_def sample_prefs_def)
  from sensor_commands_gated [OF h, of sample_state] m
  have a: "events (CheckDebugInput sample_consts ?i sample_state) = events sample_state
     \<and> ChannelScale (Prefs (CheckDebugInput sample_consts ?i sample_state))
       = ChannelScale (Prefs sample_state)"
    by blast
  from sensor_commands_gated [OF h, of ?t]
  have "CheckDebugInput sample_consts ?i ?t =
      (if Mode ?t = MODE_SensorTest sample_consts then CheckDebugInput_sensor 0x13 ?t else ?t)"
    by (rule conjunct1)
  also have "\<dots> = CheckDebugInput_sensor 0x13 ?t"
    by (simp only: m2 if_True simp_thms)
  finally have f: "events (CheckDebugInput sample_consts ?i ?t) = events (CheckDebugInput_sensor 0x13 ?t)"
    by (rule arg_cong)
  have b: "events (CheckDebugInput sample_consts ?i ?t) = [Ev_Beep2]"
    by (simp only: f e)
  from a have a1: "events (CheckDebugInput sample_consts ?i sample_state) = []"
    and a2: "ChannelScale (Prefs (CheckDebugInput sample_consts ?i sample_state))
       = [1024, 1024, 1024, 1024, 1024, 1024, 1024, 1024]"
    by (simp_all only: v)
  from h m a1 a2 b show ?thesis by blast
qed


text \<open>An upload on USB whose stored checksum is 0 while the computed one is 24004.\<close>

theorem prefs_upload_checksum_witness:
  "MODE_MotorTest sample_consts < 0x19
   \<and> received (sample_in\<lparr>in_S4_Check0 := 0x19, in_TempPrefs := sample_prefs\<lparr>Checksum := 0\<rparr>\<rparr>) = Some (0, 0x19)
   \<and> Prefs_CalculateChecksum sample_consts (sample_prefs\<lparr>Checksum := 0\<rparr>) = 24004
   \<and> Prefs (CheckDebugInput sample_consts
         (sample_in\<lparr>in_S4_Check0 := 0x19, in_TempPrefs := sample_prefs\<lparr>Checksum := 0\<rparr>\<rparr>) sample_state)
       = sample_prefs
   \<and> events (CheckDebugInput sample_consts
         (sample_in\<lparr>in_S4_Check0 := 0x19, in_TempPrefs := sample_prefs\<lparr>Checksum := 0\<rparr>\<rparr>) sample_state)
       = [Ev_Beep]"
proof -
  let ?i = "sample_in\<lparr>in_S4_Check0 := 0x19, in_TempPrefs := sample_prefs\<lparr>Checksum := 0\<rparr>\<rparr>"
  have h: "MODE_MotorTest sample_consts < 0x19" "received ?i = Some (0, 0x19)"
    by (simp_all add: sample_consts_def sample_in_def received_def)
  have c: "Prefs_CalculateChecksum sample_consts (sample_prefs\<lparr>Checksum := 0\<rparr>) = 24004"
    by (simp add: sample_consts_def sample_prefs_def)
  have n: "Prefs_CalculateChecksum sample_consts (in_TempPrefs ?i) \<noteq> Checksum (in_TempPrefs ?i)"
    by (simp add: sample_consts_def sample_prefs_def)
  have s: "Prefs sample_state = sample_prefs" "events sample_state = []"
    by (simp_all add: sample_state_def)
  from prefs_upload_checksum [OF h, of sample_state] n
  have "Prefs (CheckDebugInput sample_consts ?i sample_state) = Prefs sample_state
     \<and> events (CheckDebugInput sample_consts ?i sample_state) = events sample_state @ [Ev_Beep]"
    by blast
  then have "Prefs (CheckDebugInput sample_consts ?i sample_state) = sample_prefs
     \<and> events (CheckDebugInput sample_consts ?i sample_state) = [Ev_Beep]"
    by (simp only: s append_Nil)
  with h c show ?thesis by blast
qed

section \<open>Flight mode switch and altitude hold\<close>

lemma main_tick_FlightMode:
  "FlightMode (main_tick K i s) =
     (if FlightMode s = FlightMode_CalibrateCompass then FlightMode_CalibrateCompass
      else FlightMode (main_flight_mode (main_intake i s)))"
  by (simp add: main_tick_def Let_def DoCompassCalibrate_def)

lemma main_flight_mode_FlightMode:
  "FlightMode (main_flight_mode s) = NewFlightMode (Radio s)"
  by (simp add: main_flight_mode_def Let_def)

text \<open>
  Claim C6. The flight mode switch of the main loop sets the mode from the gear channel:
  Assisted above 512, Manual below -512, Automatic otherwise. When the mode changes,
  \<open>IsHolding\<close> becomes 0, the IMU is asked to reset the desired orientation on
  entering Manual and the desired yaw otherwise, and on entering Automatic
  \<open>DesiredAltitude\<close> becomes \<open>AltiEst\<close>; when it does not change, nothing happens.
  Every pass of the main loop outside compass calibration runs the switch on the radio
  frame of the pass, before \<open>UpdateFlightLoop\<close>.
\<close>

theorem flight_mode_switch:
  "FlightMode (main_flight_mode s) =
     (if Gear (Radio s) > 512 then FlightMode_Assisted
      else if Gear (Radio s) < -512 then FlightMode_Manual
      else FlightMode_Automatic)
   \<and> (FlightMode (main_flight_mode s) \<noteq> FlightMode s \<longrightarrow>
        IsHolding (main_flight_mode s) = 0
      \<and> events (main_flight_mode s) =
          events s @ [if FlightMode (main_flight_mode s) = FlightMode_Manual
                      then Ev_QuatIMU_ResetDesiredOrientation else Ev_QuatIMU_ResetDesiredYaw]
      \<and> DesiredAltitude (main_flight_mode s) =
          (if FlightMode (main_flight_mode s) = FlightMode_Automatic then AltiEst s
           else DesiredAltitude s))
   \<and> (FlightMode (main_flight_mode s) = FlightMode s \<longrightarrow> main_flight_mode s = s)
   \<and> (FlightMode s \<noteq> FlightMode_CalibrateCompass \<longrightarrow>
        FlightMode (main_tick K i s) =
          (if Gear (in_Radio i) > 512 then FlightMode_Assisted
           else if Gear (in_Radio i) < -512 then FlightMode_Manual
           else FlightMode_Automatic)
      \<and> main_tick K i s =
          (let s8 = main_estimates i (main_led K i
                      (UpdateFlightLoop K i (main_flight_mode (main_intake i s))));
               s10 = DoDebugModeOutput K i (CheckDebugInput K i s8)
           in s10\<lparr>counter := counter s10 + 1\<rparr>)
      \<and> Radio (main_intake i s) = in_Radio i
      \<and> FlightMode (main_intake i s) = FlightMode s
      \<and> AltiEst (main_intake i s) = AltiEst s)"
proof (intro conjI impI)
  show "FlightMode (main_flight_mode s) =
     (if Gear (Radio s) > 512 then FlightMode_Assisted
      else if Gear (Radio s) < -512 then FlightMode_Manual
      else FlightMode_Automatic)"
    by (simp add: main_flight_mode_FlightMode NewFlightMode_def)
next
  assume "FlightMode (main_flight_mode s) \<noteq> FlightMode s"
  then have n: "NewFlightMode (Radio s) \<noteq> FlightMode s"
    by (simp add: main_flight_mode_FlightMode)
  from n show "IsHolding (main_flight_mode s) = 0"
    by (simp add: main_flight_mode_def Let_def)
  from n show "events (main_flight_mode s) =
          events s @ [if FlightMode (main_flight_mode s) = FlightMode_Manual
                      then Ev_QuatIMU_ResetDesiredOrientation else Ev_QuatIMU_ResetDesiredYaw]"
    by (simp add: main_flight_mode_FlightMode) (auto simp add: main_flight_mode_def Let_def emit_def)
  from n show "DesiredAltitude (main_flight_mode s) =
          (if FlightMode (main_flight_mode s) = FlightMode_Automatic then AltiEst s
           else DesiredAltitude s)"
    by (simp add: main_flight_mode_FlightMode) (auto simp add: main_flight_mode_def Let_def)
next
  assume "FlightMode (main_flight_mode s) = FlightMode s"
  then have "NewFlightMode (Radio s) = FlightMode s"
    by (simp add: main_flight_mode_FlightMode)
  then show "main_flight_mode s = s"
    by (simp add: main_flight_mode_def Let_def)
next
  assume c: "FlightMode s \<noteq> FlightMode_CalibrateCompass"
  then show "FlightMode (main_tick K i s) =
          (if Gear (in_Radio i) > 512 then FlightMode_Assisted
           else if Gear (in_Radio i) < -512 then FlightMode_Manual
           else FlightMode_Automatic)"
    by (simp add: main_tick_FlightMode main_flight_mode_FlightMode NewFlightMode_def main_intake_def Let_def)
  from c show "main_tick K i s =
          (let s8 = main_estimates i (main_led K i
                      (UpdateFlightLoop K i (main_flight_mode (main_intake i s))));
               s10 = DoDebugModeOutput K i (CheckDebugInput K i s8)
           in s10\<lparr>counter := counter s10 + 1\<rparr>)"
    by (simp add: main_tick_def Let_def)
  show "Radio (main_intake i s) = in_Radio i"
    by (simp add: main_intake_def Let_def)
  show "FlightMode (main_intake i s) = FlightMode s" by simp
  show "AltiEst (main_intake i s) = AltiEst s" by simp
qed

text \<open>The gear switch moved from Assisted to the middle, and to Manual.\<close>

theorem flight_mode_switch_witness:
  "FlightMode (sample_state\<lparr>Radio := sample_radio\<lparr>Gear := 0\<rparr>, AltiEst := 1234, IsHolding := 1\<rparr>)
     = FlightMode_Assisted
   \<and> FlightMode (main_flight_mode
        (sample_state\<lparr>Radio := sample_radio\<lparr>Gear := 0\<rparr>, AltiEst := 1234, IsHolding := 1\<rparr>))
     = FlightMode_Automatic
   \<and> IsHolding (main_flight_mode
        (sample_state\<lparr>Radio := sample_radio\<lparr>Gear := 0\<rparr>, AltiEst := 1234, IsHolding := 1\<rparr>)) = 0
   \<and> events (main_flight_mode
        (sample_state\<lparr>Radio := sample_radio\<lparr>Gear := 0\<rparr>, AltiEst := 1234, IsHolding := 1\<rparr>))
     = [Ev_QuatIMU_ResetDesiredYaw]
   \<and> DesiredAltitude (main_flight_mode
        (sample_state\<lparr>Radio := sample_radio\<lparr>Gear := 0\<rparr>, AltiEst := 1234, IsHolding := 1\<rparr>)) = 1234
   \<and> FlightMode sample_state \<noteq> FlightMode_CalibrateCompass
   \<and> FlightMode (main_tick sample_consts (sample_in\<lparr>in_Radio := sample_radio\<lparr>Gear := -1000\<rparr>\<rparr>) sample_state)
     = FlightMode_Manual"
proof -
  let ?s = "sample_state\<lparr>Radio := sample_radio\<lparr>Gear := 0\<rparr>, AltiEst := 1234, IsHolding := 1\<rparr>"
  let ?i = "sample_in\<lparr>in_Radio := sample_radio\<lparr>Gear := -1000\<rparr>\<rparr>"
  have g: "Gear (Radio ?s) = 0" "FlightMode ?s = FlightMode_Assisted" "events ?s = []"
    "AltiEst ?s = 1234" "FlightMode sample_state \<noteq> FlightMode_CalibrateCompass"
    "Gear (in_Radio ?i) = -1000"
    by (simp_all add: sample_state_def sample_radio_def sample_in_def)
  note t = flight_mode_switch [of ?s sample_consts ?i]
  from t have "FlightMode (main_flight_mode ?s) =
     (if Gear (Radio ?s) > 512 then FlightMode_Assisted
      else if Gear (Radio ?s) < -512 then FlightMode_Manual
      else FlightMode_Automatic)"
    by (rule conjunct1)
  then have m: "FlightMode (main_flight_mode ?s) = FlightMode_Automatic"
    by (simp add: g(1))
  then have "FlightMode (main_flight_mode ?s) \<noteq> FlightMode ?s"
    by (simp add: g(2))
  with t have "IsHolding (main_flight_mode ?s) = 0
      \<and> events (main_flight_mode ?s) =
          events ?s @ [if FlightMode (main_flight_mode ?s) = FlightMode_Manual
                      then Ev_QuatIMU_ResetDesiredOrientation else Ev_QuatIMU_ResetDesiredYaw]
      \<and> DesiredAltitude (main_flight_mode ?s) =
          (if FlightMode (main_flight_mode ?s) = FlightMode_Automatic then AltiEst ?s
           else DesiredAltitude ?s)"
    by blast
  then have r: "IsHolding (main_flight_mode ?s) = 0
      \<and> events (main_flight_mode ?s) = [Ev_QuatIMU_ResetDesiredYaw]
      \<and> DesiredAltitude (main_flight_mode ?s) = 1234"
    by (simp add: m g(3,4))
  from flight_mode_switch [of sample_state sample_consts ?i] g(5)
  have "FlightMode (main_tick sample_consts ?i sample_state) =
          (if Gear (in_Radio ?i) > 512 then FlightMode_Assisted
           else if Gear (in_Radio ?i) < -512 then FlightMode_Manual
           else FlightMode_Automatic)"
    by blast
  then have k: "FlightMode (main_tick sample_consts ?i sample_state) = FlightMode_Manual"
    by (simp add: g(6))
  from g(2,5) m r k show ?thesis by blast
qed

lemma UpdateFlightLoop_stays_armed:
  assumes "FlightEnabled s \<noteq> 0" and "FlightEnabled (UpdateFlightLoop K i s) \<noteq> 0"
  shows "\<exists>s1. UpdateFlightLoop K i s = BatteryAlarm K (UpdateFlightLoop_control K i s1)
            \<and> Radio s1 = Radio s \<and> FlightMode s1 = FlightMode s \<and> IsHolding s1 = IsHolding s
            \<and> AltiEst s1 = AltiEst s \<and> events s1 = events s \<and> Prefs s1 = Prefs s
            \<and> DesiredAltitude s1 = DesiredAltitude s"
proof -
  let ?s = "UpdateFlightLEDColor K s"
  let ?g = "Rudd (Radio ?s) < -750 \<and> Aile (Radio ?s) > 750 \<and> Thro (Radio ?s) < -750 \<and> Elev (Radio ?s) < -750"
  let ?s1 = "?s\<lparr>FlightEnableStep := sshort (FlightEnableStep ?s + 1),
                       LEDModeColor := LED_Yellow K AND LED_Half K\<rparr>"
  show ?thesis
  proof (cases ?g)
    case False
    with assms(1) have "UpdateFlightLoop K i s =
        BatteryAlarm K (UpdateFlightLoop_control K i (?s\<lparr>FlightEnableStep := 0\<rparr>))"
      by (auto simp add: UpdateFlightLoop_def Let_def)
    then show ?thesis by (intro exI [of _ "?s\<lparr>FlightEnableStep := 0\<rparr>"]) simp
  next
    case True
    show ?thesis
    proof (cases "FlightEnableStep ?s1 \<ge> DisarmDelay (Prefs ?s1)")
      case d: True
      with True assms(1) have "UpdateFlightLoop K i s = DisarmFlightMode K ?s1"
        by (auto simp add: UpdateFlightLoop_def Let_def)
      then have "FlightEnabled (UpdateFlightLoop K i s) = 0"
        by (simp add: DisarmFlightMode_FlightEnabled)
      with assms(2) show ?thesis by simp
    next
      case d: False
      with True assms(1) have "UpdateFlightLoop K i s =
          BatteryAlarm K (UpdateFlightLoop_control K i ?s1)"
        by (auto simp add: UpdateFlightLoop_def Let_def)
      then show ?thesis by (intro exI [of _ ?s1]) simp
    qed
  qed
qed

lemma events_extend:
  "\<exists>X. events (UpdateFlightLoop_gate s) = events s @ X"
  "\<exists>X. events (UpdateFlightLoop_pids d s) = events s @ X"
  "\<exists>X. events (UpdateFlightLoop_ascent d s) = events s @ X"
  "\<exists>X. events (UpdateFlightLoop_dispatch s) = events s @ X"
  "\<exists>X. events (BatteryAlarm K s) = events s @ X"
  by (simp_all add: UpdateFlightLoop_gate_def UpdateFlightLoop_pids_def UpdateFlightLoop_ascent_def
      UpdateFlightLoop_dispatch_def BatteryAlarm_def emit_def Let_def)

lemma control_Automatic:
  assumes "FlightMode s = FlightMode_Automatic"
  shows "UpdateFlightLoop_control K i s =
      UpdateFlightLoop_dispatch (UpdateFlightLoop_motors i
        (ThroOut K i (UpdateFlightLoop_pids (DoIntegrate s) (UpdateFlightLoop_gate (UpdateFlightLoop_filter s))))
        (ThroMix s)
        (UpdateFlightLoop_ascent (DoIntegrate s)
          (UpdateFlightLoop_hold i (DoIntegrate s)
            (UpdateFlightLoop_pids (DoIntegrate s) (UpdateFlightLoop_gate (UpdateFlightLoop_filter s))))))"
  using assms
  by (simp add: UpdateFlightLoop_control_def Let_def UpdateFlightLoop_assist_def
      UpdateFlightLoop_altitude_def DoIntegrate_def ThroMix_def)


lemma hold_outside:
  assumes "\<bar>Thro (Radio s)\<bar> > 100"
  shows "IsHolding (UpdateFlightLoop_hold i d s) = 0"
    "DesiredAscentRate (UpdateFlightLoop_hold i d s) =
       cdiv ((if Thro (Radio s) > 0 then Thro (Radio s) - 100 else Thro (Radio s) + 100) * 6000) (1024 - 100)"
  using assms
  by (auto simp add: UpdateFlightLoop_hold_def AdjustedThrottle_def AltiThrottleDeadband_def abs_c_def)

lemma hold_entry:
  assumes "\<bar>Thro (Radio s)\<bar> \<le> 100" and "IsHolding s = 0"
  shows "IsHolding (UpdateFlightLoop_hold i d s) = 1"
    "DesiredAltitude (UpdateFlightLoop_hold i d s) = AltiEst s"
    "events (UpdateFlightLoop_hold i d s) =
       events s @ [Ev_PID_ResetIntegralError AltPID, Ev_PID_Calculate AltPID (AltiEst s) (AltiEst s) d]"
  using assms
  by (auto simp add: UpdateFlightLoop_hold_def AltiThrottleDeadband_def abs_c_def Let_def emit_def)

text \<open>
  Claim C5. On a tick in Automatic mode that starts armed and stays armed: with the
  throttle outside the deadband of 100, \<open>IsHolding\<close> becomes 0 and
  \<open>DesiredAscentRate\<close> is the throttle with the deadband removed, times 6000,
  divided by 1024 - 100; with the throttle inside the deadband and \<open>IsHolding = 0\<close>,
  \<open>IsHolding\<close> becomes 1, \<open>DesiredAltitude\<close> becomes \<open>AltiEst\<close>, and the
  integral of the altitude PID is reset just before that PID is evaluated at the new
  target.
\<close>

theorem altitude_hold_entry:
  assumes "FlightEnabled s \<noteq> 0" and "FlightEnabled (UpdateFlightLoop K i s) \<noteq> 0"
    and "FlightMode s = FlightMode_Automatic"
  shows "(\<bar>Thro (Radio s)\<bar> > 100 \<longrightarrow>
            IsHolding (UpdateFlightLoop K i s) = 0
          \<and> DesiredAscentRate (UpdateFlightLoop K i s) =
              cdiv ((if Thro (Radio s) > 0 then Thro (Radio s) - 100 else Thro (Radio s) + 100) * 6000)
                   (1024 - 100))
       \<and> (\<bar>Thro (Radio s)\<bar> \<le> 100 \<and> IsHolding s = 0 \<longrightarrow>
            IsHolding (UpdateFlightLoop K i s) = 1
          \<and> DesiredAltitude (UpdateFlightLoop K i s) = AltiEst s
          \<and> (\<exists>pre post. events (UpdateFlightLoop K i s) =
                events s @ pre
                  @ [Ev_PID_ResetIntegralError AltPID,
                     Ev_PID_Calculate AltPID (AltiEst s) (AltiEst s) (if Thro (Radio s) < -800 then 0 else 1)]
                  @ post))"
proof -
  from UpdateFlightLoop_stays_armed [OF assms(1,2)]
  obtain s1 where u: "UpdateFlightLoop K i s = BatteryAlarm K (UpdateFlightLoop_control K i s1)"
    and f: "Radio s1 = Radio s" "FlightMode s1 = FlightMode s" "IsHolding s1 = IsHolding s"
      "AltiEst s1 = AltiEst s" "events s1 = events s"
    by blast
  define d where "d = DoIntegrate s1"
  define s2 where "s2 = UpdateFlightLoop_pids d (UpdateFlightLoop_gate (UpdateFlightLoop_filter s1))"
  define h where "h = UpdateFlightLoop_hold i d s2"
  have f2: "Radio s2 = Radio s" "IsHolding s2 = IsHolding s" "AltiEst s2 = AltiEst s"
    by (simp_all add: s2_def f)
  have dv: "d = (if Thro (Radio s) < -800 then 0 else 1)"
    by (simp add: d_def DoIntegrate_def f)
  from assms(3) f have "FlightMode s1 = FlightMode_Automatic" by simp
  from control_Automatic [OF this, of K i]
  have c: "UpdateFlightLoop_control K i s1 =
      UpdateFlightLoop_dispatch (UpdateFlightLoop_motors i (ThroOut K i s2) (ThroMix s1)
        (UpdateFlightLoop_ascent d h))"
    by (simp only: d_def s2_def h_def)
  have p1: "IsHolding (UpdateFlightLoop K i s) = IsHolding h"
    "DesiredAscentRate (UpdateFlightLoop K i s) = DesiredAscentRate h"
    "DesiredAltitude (UpdateFlightLoop K i s) = DesiredAltitude h"
    by (simp_all add: u c)
  obtain pre where pre: "events s2 = events s @ pre"
  proof -
    obtain X where "events (UpdateFlightLoop_gate (UpdateFlightLoop_filter s1)) = events s1 @ X"
      using events_extend(1) [of "UpdateFlightLoop_filter s1"] by auto
    moreover obtain Y where "events s2 = events (UpdateFlightLoop_gate (UpdateFlightLoop_filter s1)) @ Y"
      unfolding s2_def using events_extend(2) by blast
    ultimately have "events s2 = events s @ (X @ Y)" by (simp add: f)
    then show ?thesis using that by blast
  qed
  obtain post where post: "events (UpdateFlightLoop K i s) = events h @ post"
  proof -
    obtain X where x: "events (UpdateFlightLoop_ascent d h) = events h @ X"
      using events_extend(3) by blast
    let ?m = "UpdateFlightLoop_motors i (ThroOut K i s2) (ThroMix s1) (UpdateFlightLoop_ascent d h)"
    obtain Y where y: "events (UpdateFlightLoop_dispatch ?m) = events ?m @ Y"
      using events_extend(4) by blast
    obtain Z where z: "events (BatteryAlarm K (UpdateFlightLoop_dispatch ?m))
        = events (UpdateFlightLoop_dispatch ?m) @ Z"
      using events_extend(5) by blast
    have "events (UpdateFlightLoop K i s) = events h @ (X @ Y @ Z)"
      by (simp add: u c z y x)
    then show ?thesis using that by blast
  qed
  show ?thesis
  proof (intro conjI impI)
    assume o: "\<bar>Thro (Radio s)\<bar> > 100"
    then have "\<bar>Thro (Radio s2)\<bar> > 100" by (simp add: f2)
    from hold_outside [OF this, of i d]
    show "IsHolding (UpdateFlightLoop K i s) = 0"
      "DesiredAscentRate (UpdateFlightLoop K i s) =
        cdiv ((if Thro (Radio s) > 0 then Thro (Radio s) - 100 else Thro (Radio s) + 100) * 6000)
             (1024 - 100)"
      by (simp_all add: p1 h_def f2)
  next
    assume "\<bar>Thro (Radio s)\<bar> \<le> 100 \<and> IsHolding s = 0"
    then have "\<bar>Thro (Radio s2)\<bar> \<le> 100" "IsHolding s2 = 0" by (simp_all add: f2)
    from hold_entry [OF this, of i d]
    have e: "IsHolding h = 1" "DesiredAltitude h = AltiEst s"
      "events h = events s2 @ [Ev_PID_ResetIntegralError AltPID,
          Ev_PID_Calculate AltPID (AltiEst s) (AltiEst s) d]"
      by (simp_all add: h_def f2)
    show "IsHolding (UpdateFlightLoop K i s) = 1" by (simp add: p1 e)
    show "DesiredAltitude (UpdateFlightLoop K i s) = AltiEst s" by (simp add: p1 e)
    have "events (UpdateFlightLoop K i s) =
        events s @ pre @ [Ev_PID_ResetIntegralError AltPID,
          Ev_PID_Calculate AltPID (AltiEst s) (AltiEst s) (if Thro (Radio s) < -800 then 0 else 1)] @ post"
      by (simp add: post e pre dv)
    then show "\<exists>pre post. events (UpdateFlightLoop K i s) =
                events s @ pre
                  @ [Ev_PID_ResetIntegralError AltPID,
                     Ev_PID_Calculate AltPID (AltiEst s) (AltiEst s) (if Thro (Radio s) < -800 then 0 else 1)]
                  @ post"
      by blast
  qed
qed

text \<open>Armed in Automatic mode: throttle at 500, and throttle centred with no hold yet.\<close>

theorem altitude_hold_entry_witness:
  "FlightEnabled (sample_state\<lparr>FlightEnabled := 1, FlightMode := FlightMode_Automatic,
       Radio := sample_radio\<lparr>Thro := 500\<rparr>\<rparr>) \<noteq> 0
   \<and> FlightEnabled (UpdateFlightLoop sample_consts sample_in
        (sample_state\<lparr>FlightEnabled := 1, FlightMode := FlightMode_Automatic,
           Radio := sample_radio\<lparr>Thro := 500\<rparr>\<rparr>)) \<noteq> 0
   \<and> IsHolding (UpdateFlightLoop sample_consts sample_in
        (sample_state\<lparr>FlightEnabled := 1, FlightMode := FlightMode_Automatic,
           Radio := sample_radio\<lparr>Thro := 500\<rparr>\<rparr>)) = 0
   \<and> DesiredAscentRate (UpdateFlightLoop sample_consts sample_in
        (sample_state\<lparr>FlightEnabled := 1, FlightMode := FlightMode_Automatic,
           Radio := sample_radio\<lparr>Thro := 500\<rparr>\<rparr>)) = 2597
   \<and> FlightEnabled (UpdateFlightLoop sample_consts sample_in
        (sample_state\<lparr>FlightEnabled := 1, FlightMode := FlightMode_Automatic, AltiEst := 1234\<rparr>)) \<noteq> 0
   \<and> IsHolding (UpdateFlightLoop sample_consts sample_in
        (sample_state\<lparr>FlightEnabled := 1, FlightMode := FlightMode_Automatic, AltiEst := 1234\<rparr>)) = 1
   \<and> DesiredAltitude (UpdateFlightLoop sample_consts sample_in
        (sample_state\<lparr>FlightEnabled := 1, FlightMode := FlightMode_Automatic, AltiEst := 1234\<rparr>)) = 1234"
proof -
  let ?a = "sample_state\<lparr>FlightEnabled := 1, FlightMode := FlightMode_Automatic,
       Radio := sample_radio\<lparr>Thro := 500\<rparr>\<rparr>"
  let ?b = "sample_state\<lparr>FlightEnabled := 1, FlightMode := FlightMode_Automatic, AltiEst := 1234\<rparr>"
  have a: "FlightEnabled ?a \<noteq> 0" "FlightEnabled (UpdateFlightLoop sample_consts sample_in ?a) \<noteq> 0"
    "FlightMode ?a = FlightMode_Automatic"
    by (simp_all add: UpdateFlightLoop_def Let_def sample_state_def sample_radio_def sample_prefs_def)
  have b: "FlightEnabled ?b \<noteq> 0" "FlightEnabled (UpdateFlightLoop sample_consts sample_in ?b) \<noteq> 0"
    "FlightMode ?b = FlightMode_Automatic"
    by (simp_all add: UpdateFlightLoop_def Let_def sample_state_def sample_radio_def sample_prefs_def)
  have va: "\<bar>Thro (Radio ?a)\<bar> > 100" "Thro (Radio ?a) = 500"
    by (simp_all add: sample_radio_def)
  have vb: "\<bar>Thro (Radio ?b)\<bar> \<le> 100 \<and> IsHolding ?b = 0" "AltiEst ?b = 1234"
    by (simp_all add: sample_state_def sample_radio_def)
  have k: "cdiv 2400000 924 = 2597"
    by (simp add: cdiv_def)
  from altitude_hold_entry [OF a] va(1)
  have "IsHolding (UpdateFlightLoop sample_consts sample_in ?a) = 0
      \<and> DesiredAscentRate (UpdateFlightLoop sample_consts sample_in ?a) =
          cdiv ((if Thro (Radio ?a) > 0 then Thro (Radio ?a) - 100 else Thro (Radio ?a) + 100) * 6000)
               (1024 - 100)"
    by blast
  then have ra: "IsHolding (UpdateFlightLoop sample_consts sample_in ?a) = 0
      \<and> DesiredAscentRate (UpdateFlightLoop sample_consts sample_in ?a) = 2597"
    by (simp add: va(2) k)
  from altitude_hold_entry [OF b] vb(1)
  have "IsHolding (UpdateFlightLoop sample_consts sample_in ?b) = 1
      \<and> DesiredAltitude (UpdateFlightLoop sample_consts sample_in ?b) = AltiEst ?b"
    by blast
  then have rb: "IsHolding (UpdateFlightLoop sample_consts sample_in ?b) = 1
      \<and> DesiredAltitude (UpdateFlightLoop sample_consts sample_in ?b) = 1234"
    by (simp only: vb(2))
  from a(1,2) b(2) ra rb show ?thesis by blast
qed

section \<open>Gyro zeroing\<close>










section \<open>Arming\<close>

lemma sshort_lower: "-32768 \<le> sshort x"
  by (simp add: sshort_def)

lemma sshort_le: "-32768 \<le> x \<Longrightarrow> sshort x \<le> x"
proof -
  assume "-32768 \<le> x"
  then have "0 \<le> x + 32768" by simp
  then have "(x + 32768) mod 65536 \<le> x + 32768" by (rule zmod_le_nonneg_dividend)
  then show ?thesis by (simp add: sshort_def)
qed

lemma ArmFlightMode_FlightEnabled: "FlightEnabled (ArmFlightMode K i s) = 1"
  by (simp add: ArmFlightMode_def Let_def emit_def All_LED_def)

lemma UpdateFlightLoop_disarmed:
  assumes "FlightEnabled s = 0"
  shows "FlightEnabled (UpdateFlightLoop K i s) \<noteq> 0 \<Longrightarrow>
           arm_gesture (Radio s) \<and> ArmDelay (Prefs s) \<le> sshort (FlightEnableStep s + 1)"
    and "FlightEnabled (UpdateFlightLoop K i s) = 0 \<Longrightarrow>
           FlightEnableStep (UpdateFlightLoop K i s) =
             (if arm_gesture (Radio s) then sshort (FlightEnableStep s + 1) else 0)"
    and "FlightEnabled (UpdateFlightLoop K i s) \<noteq> 0 \<Longrightarrow> FlightEnabled (UpdateFlightLoop K i s) = 1"
  using assms
  by (auto simp add: UpdateFlightLoop_def Let_def arm_gesture_def StartCompassCalibrate_def
      ArmFlightMode_FlightEnabled split: if_splits)

lemma DisarmFlightMode_FlightEnableStep: "FlightEnableStep (DisarmFlightMode K s) = 0"
  by (simp add: DisarmFlightMode_def Let_def emit_def All_LED_def)

lemma UpdateFlightLoop_armed_disarms:
  assumes "FlightEnabled s \<noteq> 0" and "FlightEnabled (UpdateFlightLoop K i s) = 0"
  shows "FlightEnableStep (UpdateFlightLoop K i s) = 0"
  using assms
  by (auto simp add: UpdateFlightLoop_def Let_def DisarmFlightMode_FlightEnableStep split: if_splits)

lemma ArmFlightMode_FlightEnableStep: "FlightEnableStep (ArmFlightMode K i s) = 0"
  by (simp add: ArmFlightMode_def Let_def emit_def All_LED_def)

lemma UpdateFlightLoop_FlightEnableStep_lower:
  assumes "-32768 \<le> FlightEnableStep s"
  shows "-32768 \<le> FlightEnableStep (UpdateFlightLoop K i s)"
  using assms sshort_lower [of "FlightEnableStep s + 1"]
  by (auto simp add: UpdateFlightLoop_def Let_def DisarmFlightMode_FlightEnableStep
      ArmFlightMode_FlightEnableStep StartCompassCalibrate_def)

lemma main_tick_flight:
  assumes "FlightMode s \<noteq> FlightMode_CalibrateCompass"
  shows "FlightEnabled (main_tick K i s) =
           FlightEnabled (UpdateFlightLoop K i (main_flight_mode (main_intake i s)))"
    and "FlightEnableStep (main_tick K i s) =
           FlightEnableStep (UpdateFlightLoop K i (main_flight_mode (main_intake i s)))"
    and "FlightMode (main_tick K i s) \<noteq> FlightMode_CalibrateCompass"
  using assms
  by (simp_all add: main_tick_def Let_def main_flight_mode_def NewFlightMode_def)

lemma main_intake_Radio: "Radio (main_intake i s) = in_Radio i"
  by (simp add: main_intake_def Let_def)

lemma pre_flight:
  "FlightEnabled (main_flight_mode (main_intake i s)) = FlightEnabled s"
  "FlightEnableStep (main_flight_mode (main_intake i s)) = FlightEnableStep s"
  "Prefs (main_flight_mode (main_intake i s)) = Prefs s"
  "Radio (main_flight_mode (main_intake i s)) = in_Radio i"
  by (simp_all add: main_intake_def Let_def)

lemma main_tick_arming:
  assumes "FlightMode s \<noteq> FlightMode_CalibrateCompass"
  shows "FlightMode (main_tick K i s) \<noteq> FlightMode_CalibrateCompass"
    and "-32768 \<le> FlightEnableStep s \<Longrightarrow> -32768 \<le> FlightEnableStep (main_tick K i s)"
    and "FlightEnabled s = 0 \<Longrightarrow> FlightEnabled (main_tick K i s) \<noteq> 0 \<Longrightarrow>
           arm_gesture (in_Radio i) \<and> ArmDelay (Prefs s) \<le> sshort (FlightEnableStep s + 1)"
    and "FlightEnabled s = 0 \<Longrightarrow> FlightEnabled (main_tick K i s) = 0 \<Longrightarrow>
           FlightEnableStep (main_tick K i s) =
             (if arm_gesture (in_Radio i) then sshort (FlightEnableStep s + 1) else 0)"
    and "FlightEnabled s \<noteq> 0 \<Longrightarrow> FlightEnabled (main_tick K i s) = 0 \<Longrightarrow>
           FlightEnableStep (main_tick K i s) = 0"
    and "FlightEnabled s = 0 \<Longrightarrow> FlightEnabled (main_tick K i s) \<noteq> 0 \<Longrightarrow>
           FlightEnabled (main_tick K i s) = 1"
proof -
  let ?t = "main_flight_mode (main_intake i s)"
  note m = main_tick_flight [OF assms, of K i]
  show "FlightMode (main_tick K i s) \<noteq> FlightMode_CalibrateCompass" by (rule m(3))
  show "-32768 \<le> FlightEnableStep s \<Longrightarrow> -32768 \<le> FlightEnableStep (main_tick K i s)"
    using UpdateFlightLoop_FlightEnableStep_lower [of ?t K i] by (simp add: m pre_flight main_intake_Radio)
  show "FlightEnabled s = 0 \<Longrightarrow> FlightEnabled (main_tick K i s) \<noteq> 0 \<Longrightarrow>
           arm_gesture (in_Radio i) \<and> ArmDelay (Prefs s) \<le> sshort (FlightEnableStep s + 1)"
    using UpdateFlightLoop_disarmed(1) [of ?t K i] by (simp add: m pre_flight main_intake_Radio)
  show "FlightEnabled s = 0 \<Longrightarrow> FlightEnabled (main_tick K i s) = 0 \<Longrightarrow>
           FlightEnableStep (main_tick K i s) =
             (if arm_gesture (in_Radio i) then sshort (FlightEnableStep s + 1) else 0)"
    using UpdateFlightLoop_disarmed(2) [of ?t K i] by (simp add: m pre_flight main_intake_Radio)
  show "FlightEnabled s \<noteq> 0 \<Longrightarrow> FlightEnabled (main_tick K i s) = 0 \<Longrightarrow>
           FlightEnableStep (main_tick K i s) = 0"
    using UpdateFlightLoop_armed_disarms [of ?t K i] by (simp add: m pre_flight main_intake_Radio)
  show "FlightEnabled s = 0 \<Longrightarrow> FlightEnabled (main_tick K i s) \<noteq> 0 \<Longrightarrow>
           FlightEnabled (main_tick K i s) = 1"
    using UpdateFlightLoop_disarmed(3) [of ?t K i] by (simp add: m pre_flight main_intake_Radio)
qed

lemma run_append: "run K s (xs @ ys) = run K (run K s xs) ys"
  by (induction xs arbitrary: s) simp_all

lemma run_take_Suc:
  "n < length xs \<Longrightarrow> run K s (take (Suc n) xs) = main_tick K (xs ! n) (run K s (take n xs))"
  by (simp add: take_Suc_conv_app_nth run_append)

lemma run_arming_inv:
  assumes "FlightEnabled s0 = 0" and "FlightEnableStep s0 = 0"
    and "FlightMode s0 \<noteq> FlightMode_CalibrateCompass" and "n \<le> length xs"
  shows "FlightMode (run K s0 (take n xs)) \<noteq> FlightMode_CalibrateCompass
       \<and> -32768 \<le> FlightEnableStep (run K s0 (take n xs))
       \<and> (FlightEnabled (run K s0 (take n xs)) = 0 \<longrightarrow>
            FlightEnableStep (run K s0 (take n xs)) \<le> int n
          \<and> (\<forall>j<n. int n - int j \<le> FlightEnableStep (run K s0 (take n xs)) \<longrightarrow>
                 arm_gesture (in_Radio (xs ! j)) \<and> FlightEnabled (run K s0 (take j xs)) = 0))"
  using assms(4)
proof (induction n)
  case 0
  show ?case using assms(1-3) by simp
next
  case (Suc n)
  define s where "s = run K s0 (take n xs)"
  define s' where "s' = run K s0 (take (Suc n) xs)"
  define i where "i = xs ! n"
  from Suc.prems have n: "n < length xs" by simp
  then have st: "s' = main_tick K i s"
    unfolding s'_def s_def i_def by (rule run_take_Suc)
  from Suc.IH n have ih: "FlightMode s \<noteq> FlightMode_CalibrateCompass" "-32768 \<le> FlightEnableStep s"
    "FlightEnabled s = 0 \<Longrightarrow> FlightEnableStep s \<le> int n"
    "\<And>j. FlightEnabled s = 0 \<Longrightarrow> j < n \<Longrightarrow> int n - int j \<le> FlightEnableStep s \<Longrightarrow>
       arm_gesture (in_Radio (xs ! j)) \<and> FlightEnabled (run K s0 (take j xs)) = 0"
    unfolding s_def by simp_all
  note t = main_tick_arming [OF ih(1), of K i, folded st]
  have a: "FlightMode s' \<noteq> FlightMode_CalibrateCompass" by (rule t(1))
  have b: "-32768 \<le> FlightEnableStep s'" by (rule t(2) [OF ih(2)])
  have c: "FlightEnableStep s' \<le> int (Suc n)
          \<and> (\<forall>j<Suc n. int (Suc n) - int j \<le> FlightEnableStep s' \<longrightarrow>
                 arm_gesture (in_Radio (xs ! j)) \<and> FlightEnabled (run K s0 (take j xs)) = 0)"
    if d: "FlightEnabled s' = 0"
  proof (cases "FlightEnabled s = 0 \<and> arm_gesture (in_Radio i)")
    case False
    have z: "FlightEnableStep s' = 0"
    proof (cases "FlightEnabled s = 0")
      case True
      with False t(4) [OF True d] show ?thesis by simp
    next
      case False
      from t(5) [OF False d] show ?thesis .
    qed
    then show ?thesis by auto
  next
    case True
    then have e: "FlightEnabled s = 0" and g: "arm_gesture (in_Radio i)" by simp_all
    from t(4) [OF e d] g have f: "FlightEnableStep s' = sshort (FlightEnableStep s + 1)" by simp
    from ih(2) have "-32768 \<le> FlightEnableStep s + 1" by simp
    from sshort_le [OF this] f have le: "FlightEnableStep s' \<le> FlightEnableStep s + 1" by simp
    with ih(3) [OF e] have "FlightEnableStep s' \<le> int (Suc n)" by simp
    moreover have "arm_gesture (in_Radio (xs ! j)) \<and> FlightEnabled (run K s0 (take j xs)) = 0"
      if j: "j < Suc n" "int (Suc n) - int j \<le> FlightEnableStep s'" for j
    proof (cases "j = n")
      case True
      with g e show ?thesis by (simp add: i_def s_def)
    next
      case False
      with j(1) have "j < n" by simp
      moreover from j(2) le have "int n - int j \<le> FlightEnableStep s" by simp
      ultimately show ?thesis by (rule ih(4) [OF e])
    qed
    ultimately show ?thesis by blast
  qed
  from a b c show ?case unfolding s'_def by blast
qed

text \<open>
  Claim C4. Take any run of the main loop from a disarmed state with
  \<open>FlightEnableStep = 0\<close> (as \<open>Initialize\<close> and \<open>DisarmFlightMode\<close> leave it) that
  is not in compass calibration. If pass \<open>n\<close> arms the controller (disarmed before,
  \<open>FlightEnabled = 1\<close> after), then at least \<open>ArmDelay\<close> passes have run and on each
  of the last \<open>ArmDelay\<close> passes up to \<open>n\<close>, and in any case on pass \<open>n\<close>, the
  controller was disarmed and the arming gesture (Throttle, Elevator and Aileron below
  -750, Rudder above 750) held.
  A disarmed pass on which the gesture does not hold leaves the controller disarmed
  with \<open>FlightEnableStep = 0\<close>.
\<close>

theorem arming_needs_held_gesture:
  assumes "FlightEnabled s0 = 0" and "FlightEnableStep s0 = 0"
    and "FlightMode s0 \<noteq> FlightMode_CalibrateCompass"
  shows "(\<forall>n<length xs.
            FlightEnabled (run K s0 (take n xs)) = 0 \<and> FlightEnabled (run K s0 (take (Suc n) xs)) \<noteq> 0 \<longrightarrow>
              FlightEnabled (run K s0 (take (Suc n) xs)) = 1
            \<and> arm_gesture (in_Radio (xs ! n))
            \<and> ArmDelay (Prefs (run K s0 (take n xs))) \<le> int (Suc n)
            \<and> (\<forall>j\<le>n. int n - int j < ArmDelay (Prefs (run K s0 (take n xs))) \<longrightarrow>
                   arm_gesture (in_Radio (xs ! j)) \<and> FlightEnabled (run K s0 (take j xs)) = 0))
       \<and> (\<forall>n<length xs.
            FlightEnabled (run K s0 (take n xs)) = 0 \<and> \<not> arm_gesture (in_Radio (xs ! n)) \<longrightarrow>
              FlightEnabled (run K s0 (take (Suc n) xs)) = 0
            \<and> FlightEnableStep (run K s0 (take (Suc n) xs)) = 0)"
proof (intro conjI allI impI)
  fix n assume n: "n < length xs"
    and h: "FlightEnabled (run K s0 (take n xs)) = 0 \<and> FlightEnabled (run K s0 (take (Suc n) xs)) \<noteq> 0"
  define s where "s = run K s0 (take n xs)"
  from n have st: "run K s0 (take (Suc n) xs) = main_tick K (xs ! n) s"
    unfolding s_def by (rule run_take_Suc)
  from n have "n \<le> length xs" by simp
  from run_arming_inv [OF assms this, of K]
  have inv: "FlightMode s \<noteq> FlightMode_CalibrateCompass" "-32768 \<le> FlightEnableStep s"
    "FlightEnableStep s \<le> int n"
    "\<And>j. j < n \<Longrightarrow> int n - int j \<le> FlightEnableStep s \<Longrightarrow>
       arm_gesture (in_Radio (xs ! j)) \<and> FlightEnabled (run K s0 (take j xs)) = 0"
    using h unfolding s_def by simp_all
  from h have d: "FlightEnabled s = 0" and a: "FlightEnabled (main_tick K (xs ! n) s) \<noteq> 0"
    by (simp_all add: s_def [symmetric] st)
  from main_tick_arming(3) [OF inv(1) d a]
  have g: "arm_gesture (in_Radio (xs ! n))" and k: "ArmDelay (Prefs s) \<le> sshort (FlightEnableStep s + 1)"
    by simp_all
  from inv(2) have "-32768 \<le> FlightEnableStep s + 1" by simp
  from sshort_le [OF this] k have k': "ArmDelay (Prefs s) \<le> FlightEnableStep s + 1" by simp
  show "FlightEnabled (run K s0 (take (Suc n) xs)) = 1"
    unfolding st by (rule main_tick_arming(6) [OF inv(1) d a])
  show "arm_gesture (in_Radio (xs ! n))" by (rule g)
  show "ArmDelay (Prefs (run K s0 (take n xs))) \<le> int (Suc n)"
    using k' inv(3) by (simp add: s_def)
  fix j assume j: "j \<le> n" "int n - int j < ArmDelay (Prefs (run K s0 (take n xs)))"
  show "arm_gesture (in_Radio (xs ! j))" "FlightEnabled (run K s0 (take j xs)) = 0"
  proof -
    have "arm_gesture (in_Radio (xs ! j)) \<and> FlightEnabled (run K s0 (take j xs)) = 0"
    proof (cases "j = n")
      case True
      with g d show ?thesis by (simp add: s_def)
    next
      case False
      with j(1) have "j < n" by simp
      moreover from j(2) k' have "int n - int j \<le> FlightEnableStep s" by (simp add: s_def)
      ultimately show ?thesis by (rule inv(4))
    qed
    then show "arm_gesture (in_Radio (xs ! j))" "FlightEnabled (run K s0 (take j xs)) = 0"
      by simp_all
  qed
next
  fix n assume n: "n < length xs"
    and h: "FlightEnabled (run K s0 (take n xs)) = 0 \<and> \<not> arm_gesture (in_Radio (xs ! n))"
  define s where "s = run K s0 (take n xs)"
  from n have st: "run K s0 (take (Suc n) xs) = main_tick K (xs ! n) s"
    unfolding s_def by (rule run_take_Suc)
  from n have "n \<le> length xs" by simp
  from run_arming_inv [OF assms this, of K]
  have inv: "FlightMode s \<noteq> FlightMode_CalibrateCompass"
    unfolding s_def by simp
  from h have d: "FlightEnabled s = 0" and g: "\<not> arm_gesture (in_Radio (xs ! n))"
    by (simp_all add: s_def)
  have z: "FlightEnabled (main_tick K (xs ! n) s) = 0"
    using main_tick_arming(3) [OF inv d, of K "xs ! n"] g by blast
  from main_tick_arming(4) [OF inv d z] g
  have "FlightEnableStep (main_tick K (xs ! n) s) = 0" by simp
  with z show "FlightEnabled (run K s0 (take (Suc n) xs)) = 0"
    "FlightEnableStep (run K s0 (take (Suc n) xs)) = 0"
    unfolding st by simp_all
qed

lemma main_tick_Prefs_silent: "received i = None \<Longrightarrow> Prefs (main_tick K i s) = Prefs s"
  by (simp add: main_tick_def Let_def CheckDebugInput_silent DoCompassCalibrate_def)

text \<open>With \<open>ArmDelay = 2\<close>, two passes with the sticks in the arming position arm.\<close>

theorem arming_needs_held_gesture_witness:
  "FlightEnabled sample_state = 0 \<and> FlightEnableStep sample_state = 0
   \<and> FlightMode sample_state \<noteq> FlightMode_CalibrateCompass
   \<and> FlightEnabled (run sample_consts sample_state
        (take 1 [sample_in\<lparr>in_Radio := arm_radio\<rparr>, sample_in\<lparr>in_Radio := arm_radio\<rparr>])) = 0
   \<and> FlightEnabled (run sample_consts sample_state
        (take (Suc 1) [sample_in\<lparr>in_Radio := arm_radio\<rparr>, sample_in\<lparr>in_Radio := arm_radio\<rparr>])) = 1
   \<and> ArmDelay (Prefs (run sample_consts sample_state
        (take 1 [sample_in\<lparr>in_Radio := arm_radio\<rparr>, sample_in\<lparr>in_Radio := arm_radio\<rparr>]))) = 2
   \<and> arm_gesture (in_Radio ([sample_in\<lparr>in_Radio := arm_radio\<rparr>, sample_in\<lparr>in_Radio := arm_radio\<rparr>] ! 0))
   \<and> arm_gesture (in_Radio ([sample_in\<lparr>in_Radio := arm_radio\<rparr>, sample_in\<lparr>in_Radio := arm_radio\<rparr>] ! 1))"
proof -
  let ?i = "sample_in\<lparr>in_Radio := arm_radio\<rparr>"
  let ?xs = "[?i, ?i]"
  let ?K = sample_consts
  let ?s1 = "main_tick ?K ?i sample_state"
  have init: "FlightEnabled sample_state = 0" "FlightEnableStep sample_state = 0"
    "FlightMode sample_state \<noteq> FlightMode_CalibrateCompass"
    by (simp_all add: sample_state_def)
  have r: "received ?i = None" by (simp add: received_def sample_in_def)
  have rad: "Thro arm_radio = -1000" "Elev arm_radio = -1000" "Rudd arm_radio = 1000"
    "Aile arm_radio = -1000"
    by (simp_all add: arm_radio_def sample_radio_def)
  have p0: "ArmDelay (Prefs sample_state) = 2" by (simp add: sample_state_def sample_prefs_def)
  have e1: "FlightEnabled ?s1 = 0" "FlightEnableStep ?s1 = 1"
    by (simp_all add: main_tick_flight [OF init(3)] UpdateFlightLoop_def Let_def main_intake_Radio
        rad init p0 sshort_def)
  have p1: "ArmDelay (Prefs ?s1) = 2" by (simp add: main_tick_Prefs_silent [OF r] p0)
  have m1: "FlightMode ?s1 \<noteq> FlightMode_CalibrateCompass" by (rule main_tick_flight(3) [OF init(3)])
  have e2: "FlightEnabled (main_tick ?K ?i ?s1) \<noteq> 0"
    by (simp add: main_tick_flight [OF m1] UpdateFlightLoop_def Let_def main_intake_Radio
        rad e1 p1 sshort_def ArmFlightMode_FlightEnabled)
  have t1: "run ?K sample_state (take 1 ?xs) = ?s1" by simp
  have t2: "run ?K sample_state (take (Suc 1) ?xs) = main_tick ?K ?i ?s1" by simp
  have l: "(1::nat) < length ?xs" by simp
  from arming_needs_held_gesture [OF init, of ?xs ?K] l
  have "FlightEnabled (run ?K sample_state (take 1 ?xs)) = 0
      \<and> FlightEnabled (run ?K sample_state (take (Suc 1) ?xs)) \<noteq> 0 \<longrightarrow>
        FlightEnabled (run ?K sample_state (take (Suc 1) ?xs)) = 1
      \<and> arm_gesture (in_Radio (?xs ! 1))
      \<and> ArmDelay (Prefs (run ?K sample_state (take 1 ?xs))) \<le> int (Suc 1)
      \<and> (\<forall>j\<le>1. int 1 - int j < ArmDelay (Prefs (run ?K sample_state (take 1 ?xs))) \<longrightarrow>
             arm_gesture (in_Radio (?xs ! j)) \<and> FlightEnabled (run ?K sample_state (take j ?xs)) = 0)"
    by blast
  moreover have h: "FlightEnabled (run ?K sample_state (take 1 ?xs)) = 0
      \<and> FlightEnabled (run ?K sample_state (take (Suc 1) ?xs)) \<noteq> 0"
    unfolding t1 t2 using e1(1) e2 by blast
  ultimately have c: "FlightEnabled (run ?K sample_state (take (Suc 1) ?xs)) = 1"
    and g: "\<forall>j\<le>1. int 1 - int j < ArmDelay (Prefs (run ?K sample_state (take 1 ?xs))) \<longrightarrow>
             arm_gesture (in_Radio (?xs ! j)) \<and> FlightEnabled (run ?K sample_state (take j ?xs)) = 0"
    by blast+
  have a: "ArmDelay (Prefs (run ?K sample_state (take 1 ?xs))) = 2"
    unfolding t1 by (rule p1)
  have "arm_gesture (in_Radio (?xs ! 0))"
    using g [unfolded a, rule_format, of 0] by simp
  moreover have "arm_gesture (in_Radio (?xs ! 1))"
    using g [unfolded a, rule_format, of 1] by simp
  ultimately show ?thesis using init h c a by blast
qed

section \<open>Telemetry pulse timers\<close>

lemma sshort_id: "-32768 \<le> x \<Longrightarrow> x \<le> 32767 \<Longrightarrow> sshort x = x"
  by (simp add: sshort_def)

lemma DoDebugModeOutput_pulses:
  "UsbPulse (DoDebugModeOutput K i s) =
     (if UsbPulse s > 0 \<or> XBeePulse s > 0 then sshort (UsbPulse s - 1) else UsbPulse s)"
  "Mode (DoDebugModeOutput K i s) =
     (if (UsbPulse s > 0 \<or> XBeePulse s > 0) \<and> sshort (UsbPulse s - 1) = 0 then MODE_None K
      else Mode s)"
  by (simp_all add: DoDebugModeOutput_def Let_def)

lemma main_tick_pulses_silent:
  assumes "received i = None"
  shows "UsbPulse (main_tick K i s) =
           (if UsbPulse s > 0 \<or> XBeePulse s > 0 then sshort (UsbPulse s - 1) else UsbPulse s)"
    and "XBeePulse (main_tick K i s) = XBeePulse s"
    and "Mode (main_tick K i s) =
           (if (UsbPulse s > 0 \<or> XBeePulse s > 0) \<and> sshort (UsbPulse s - 1) = 0 then MODE_None K
            else Mode s)"
  using assms
  by (auto simp add: main_tick_def Let_def CheckDebugInput_silent DoDebugModeOutput_pulses
      DoCompassCalibrate_def)

lemma main_tick_pulses_heartbeat:
  assumes "received i = Some (port, c)" and "c \<le> MODE_MotorTest K"
  shows "UsbPulse (main_tick K i s) = (if port = 0 then 499 else -1)"
    and "XBeePulse (main_tick K i s) = (if port = 0 then 0 else 500)"
    and "Mode (main_tick K i s) = c"
  using assms
  by (auto simp add: main_tick_def Let_def CheckDebugInput_received DoDebugModeOutput_pulses
      DoCompassCalibrate_def sshort_def)


lemma run_silent_xbee:
  assumes "\<forall>i\<in>set xs. received i = None" and "UsbPulse s \<le> 0" and "XBeePulse s > 0"
    and "int (length xs) \<le> 32768 + UsbPulse s"
  shows "UsbPulse (run K s xs) = UsbPulse s - int (length xs)
       \<and> XBeePulse (run K s xs) = XBeePulse s \<and> Mode (run K s xs) = Mode s"
  using assms
proof (induction xs arbitrary: s)
  case Nil
  show ?case by simp
next
  case (Cons i xs)
  from Cons.prems have r: "received i = None" by simp
  from Cons.prems have b: "-32768 \<le> UsbPulse s - 1" "UsbPulse s - 1 \<le> 32767" by simp_all
  from sshort_id [OF b] have d: "sshort (UsbPulse s - 1) = UsbPulse s - 1" .
  have u: "UsbPulse (main_tick K i s) = UsbPulse s - 1"
    using Cons.prems(3) by (simp add: main_tick_pulses_silent(1) [OF r] d)
  have x: "XBeePulse (main_tick K i s) = XBeePulse s"
    by (rule main_tick_pulses_silent(2) [OF r])
  have m: "Mode (main_tick K i s) = Mode s"
    using Cons.prems(2) by (simp add: main_tick_pulses_silent(3) [OF r] d)
  have "UsbPulse (run K (main_tick K i s) xs) = UsbPulse (main_tick K i s) - int (length xs)
       \<and> XBeePulse (run K (main_tick K i s) xs) = XBeePulse (main_tick K i s)
       \<and> Mode (run K (main_tick K i s) xs) = Mode (main_tick K i s)"
    using Cons.prems by (intro Cons.IH) (simp_all add: u x)
  then show ?case by (simp add: u x m)
qed

lemma run_silent_usb:
  assumes "\<forall>i\<in>set xs. received i = None" and "UsbPulse s \<le> 32767"
    and "int (length xs) < UsbPulse s"
  shows "UsbPulse (run K s xs) = UsbPulse s - int (length xs)
       \<and> XBeePulse (run K s xs) = XBeePulse s \<and> Mode (run K s xs) = Mode s"
  using assms
proof (induction xs arbitrary: s)
  case Nil
  show ?case by simp
next
  case (Cons i xs)
  from Cons.prems have r: "received i = None" by simp
  from Cons.prems have b: "-32768 \<le> UsbPulse s - 1" "UsbPulse s - 1 \<le> 32767" by simp_all
  from sshort_id [OF b] have d: "sshort (UsbPulse s - 1) = UsbPulse s - 1" .
  from Cons.prems have p: "0 < UsbPulse s" "UsbPulse s - 1 \<noteq> 0" by simp_all
  have u: "UsbPulse (main_tick K i s) = UsbPulse s - 1"
    using p by (simp add: main_tick_pulses_silent(1) [OF r] d)
  have x: "XBeePulse (main_tick K i s) = XBeePulse s"
    by (rule main_tick_pulses_silent(2) [OF r])
  have m: "Mode (main_tick K i s) = Mode s"
    using p by (simp add: main_tick_pulses_silent(3) [OF r] d)
  have "UsbPulse (run K (main_tick K i s) xs) = UsbPulse (main_tick K i s) - int (length xs)
       \<and> XBeePulse (run K (main_tick K i s) xs) = XBeePulse (main_tick K i s)
       \<and> Mode (run K (main_tick K i s) xs) = Mode (main_tick K i s)"
    using Cons.prems by (intro Cons.IH) (simp_all add: u x)
  then show ?case by (simp add: u x m)
qed

lemma usb_pulse_expires:
  assumes "received i = None" and "UsbPulse s = 1"
  shows "UsbPulse (main_tick K i s) = 0 \<and> Mode (main_tick K i s) = MODE_None K"
  using assms(2) by (simp add: main_tick_pulses_silent [OF assms(1)] sshort_def)

lemma run_snoc: "run K s (xs @ [i]) = main_tick K i (run K s xs)"
  by (induction xs arbitrary: s) simp_all

text \<open>
  Claim C8. A display-mode byte on USB sets \<open>UsbPulse\<close> to 500; with nothing more on
  the serial ports the timer falls by one per pass (the first time in the pass of the
  heartbeat itself) and when it reaches 0, on the 500th pass, the display mode becomes
  \<open>MODE_None\<close>. For the radio modem the code does otherwise: the branch taken when
  \<open>XBeePulse > 0\<close> counts \<open>UsbPulse\<close> down, so \<open>XBeePulse\<close> stays at 500,
  \<open>UsbPulse\<close> goes negative and the display mode is kept, for every run of up to
  32767 silent passes.
\<close>

theorem pulse_timers:
  assumes "\<forall>i\<in>set xs. received i = None" and "c \<le> MODE_MotorTest K"
  shows "(received hb = Some (0, c) \<and> length xs < 499 \<longrightarrow>
            UsbPulse (run K s (hb # xs)) = 499 - int (length xs) \<and> Mode (run K s (hb # xs)) = c)
       \<and> (received hb = Some (0, c) \<and> length xs = 499 \<longrightarrow>
            UsbPulse (run K s (hb # xs)) = 0 \<and> Mode (run K s (hb # xs)) = MODE_None K)
       \<and> (received hb = Some (1, c) \<and> length xs \<le> 32767 \<longrightarrow>
            XBeePulse (run K s (hb # xs)) = 500
          \<and> UsbPulse (run K s (hb # xs)) = -1 - int (length xs)
          \<and> Mode (run K s (hb # xs)) = c)"
proof (intro conjI impI)
  assume h: "received hb = Some (0, c) \<and> length xs < 499"
  then have r: "received hb = Some (0, c)" by simp
  note hbt = main_tick_pulses_heartbeat [OF r assms(2), of s]
  have "UsbPulse (run K (main_tick K hb s) xs) = UsbPulse (main_tick K hb s) - int (length xs)
       \<and> XBeePulse (run K (main_tick K hb s) xs) = XBeePulse (main_tick K hb s)
       \<and> Mode (run K (main_tick K hb s) xs) = Mode (main_tick K hb s)"
    using h by (intro run_silent_usb [OF assms(1)]) (simp_all add: hbt)
  then show "UsbPulse (run K s (hb # xs)) = 499 - int (length xs)" "Mode (run K s (hb # xs)) = c"
    by (simp_all add: hbt)
next
  assume h: "received hb = Some (0, c) \<and> length xs = 499"
  then have r: "received hb = Some (0, c)" by simp
  note hbt = main_tick_pulses_heartbeat [OF r assms(2), of s]
  from h obtain ys i where xs: "xs = ys @ [i]" and l: "length ys = 498"
    by (cases xs rule: rev_cases) auto
  from assms(1) xs have si: "received i = None" and sy: "\<forall>i\<in>set ys. received i = None"
    by simp_all
  have "UsbPulse (run K (main_tick K hb s) ys) = UsbPulse (main_tick K hb s) - int (length ys)
       \<and> XBeePulse (run K (main_tick K hb s) ys) = XBeePulse (main_tick K hb s)
       \<and> Mode (run K (main_tick K hb s) ys) = Mode (main_tick K hb s)"
    using l by (intro run_silent_usb [OF sy]) (simp_all add: hbt)
  then have "UsbPulse (run K (main_tick K hb s) ys) = 1" by (simp add: hbt l)
  from usb_pulse_expires [OF si this, of K]
  show "UsbPulse (run K s (hb # xs)) = 0" "Mode (run K s (hb # xs)) = MODE_None K"
    by (simp_all add: xs run_snoc)
next
  assume h: "received hb = Some (1, c) \<and> length xs \<le> 32767"
  then have r: "received hb = Some (1, c)" by simp
  note hbt = main_tick_pulses_heartbeat [OF r assms(2), of s]
  have "UsbPulse (run K (main_tick K hb s) xs) = UsbPulse (main_tick K hb s) - int (length xs)
       \<and> XBeePulse (run K (main_tick K hb s) xs) = XBeePulse (main_tick K hb s)
       \<and> Mode (run K (main_tick K hb s) xs) = Mode (main_tick K hb s)"
    using h by (intro run_silent_xbee [OF assms(1)]) (simp_all add: hbt)
  then show "XBeePulse (run K s (hb # xs)) = 500"
    "UsbPulse (run K s (hb # xs)) = -1 - int (length xs)" "Mode (run K s (hb # xs)) = c"
    by (simp_all add: hbt)
qed

text \<open>Display mode 2 selected on USB and on the radio modem, then 499 silent passes.\<close>

theorem pulse_timers_witness:
  "Mode (run sample_consts sample_state (sample_in\<lparr>in_S4_Check0 := 2\<rparr> # replicate 499 sample_in))
     = MODE_None sample_consts
   \<and> UsbPulse (run sample_consts sample_state (sample_in\<lparr>in_S4_Check0 := 2\<rparr> # replicate 499 sample_in)) = 0
   \<and> MODE_None sample_consts = 0
   \<and> Mode (run sample_consts sample_state (sample_in\<lparr>in_S4_Check1 := 2\<rparr> # replicate 499 sample_in)) = 2
   \<and> XBeePulse (run sample_consts sample_state (sample_in\<lparr>in_S4_Check1 := 2\<rparr> # replicate 499 sample_in)) = 500
   \<and> UsbPulse (run sample_consts sample_state (sample_in\<lparr>in_S4_Check1 := 2\<rparr> # replicate 499 sample_in)) = -500"
proof -
  let ?xs = "replicate 499 sample_in"
  have q: "received sample_in = None" by (simp add: received_def sample_in_def)
  then have s: "\<forall>i\<in>set ?xs. received i = None" by simp
  have c: "(2::int) \<le> MODE_MotorTest sample_consts" and n: "MODE_None sample_consts = 0"
    by (simp_all add: sample_consts_def)
  have u: "received (sample_in\<lparr>in_S4_Check0 := 2\<rparr>) = Some (0, 2) \<and> length ?xs = 499"
    and x: "received (sample_in\<lparr>in_S4_Check1 := 2\<rparr>) = Some (1, 2) \<and> length ?xs \<le> 32767"
    by (simp_all add: received_def sample_in_def)
  note t0 = pulse_timers [OF s c, of "sample_in\<lparr>in_S4_Check0 := 2\<rparr>" sample_state]
  note t1 = pulse_timers [OF s c, of "sample_in\<lparr>in_S4_Check1 := 2\<rparr>" sample_state]
  from t0 u have a: "UsbPulse (run sample_consts sample_state (sample_in\<lparr>in_S4_Check0 := 2\<rparr> # ?xs)) = 0
     \<and> Mode (run sample_consts sample_state (sample_in\<lparr>in_S4_Check0 := 2\<rparr> # ?xs)) = MODE_None sample_consts"
    by blast
  from t1 x have "XBeePulse (run sample_consts sample_state (sample_in\<lparr>in_S4_Check1 := 2\<rparr> # ?xs)) = 500
     \<and> UsbPulse (run sample_consts sample_state (sample_in\<lparr>in_S4_Check1 := 2\<rparr> # ?xs)) = -1 - int (length ?xs)
     \<and> Mode (run sample_consts sample_state (sample_in\<lparr>in_S4_Check1 := 2\<rparr> # ?xs)) = 2"
    by blast
  then have b: "XBeePulse (run sample_consts sample_state (sample_in\<lparr>in_S4_Check1 := 2\<rparr> # ?xs)) = 500
     \<and> UsbPulse (run sample_consts sample_state (sample_in\<lparr>in_S4_Check1 := 2\<rparr> # ?xs)) = -500
     \<and> Mode (run sample_consts sample_state (sample_in\<lparr>in_S4_Check1 := 2\<rparr> # ?xs)) = 2"
    by simp
  from a b n show ?thesis by blast
qed

section \<open>LED colour\<close>

lemma LEDBrightMask_value: "LEDBrightMask = 0xFFFFFF"
  by (simp add: LEDBrightMask_def LEDSingleMask_def LEDBrightShift_def)

lemma flight_mode_index_and: "flight_mode_index m AND 3 = flight_mode_index m"
  by (cases m) simp_all

lemma UpdateFlightLEDColor_color:
  "LEDModeColor (UpdateFlightLEDColor K s) =
     FlightLEDColor K (FlightMode s) (FlightEnabled s) (IsHolding s) (LowBatt K s) (counter s)"
  by (simp add: UpdateFlightLEDColor_def FlightLEDColor_def Let_def LEDBrightMask_value
      LEDBrightShift_def flight_mode_index_and)

lemma UpdateFlightLoop_LEDModeColor:
  "LEDModeColor (UpdateFlightLoop K i s) =
     (if FlightEnabled s = 0 \<and> arm_gesture (Radio s) then LED_Yellow K AND LED_Half K
      else if FlightEnabled s = 0 \<and> compass_gesture (Radio s) then (LED_Blue K OR LED_Red K) AND LED_Half K
      else if FlightEnabled s \<noteq> 0 \<and> disarm_gesture (Radio s) then LED_Yellow K AND LED_Half K
      else FlightLEDColor K (FlightMode s) (FlightEnabled s) (IsHolding s) (LowBatt K s) (counter s))"
  by (auto simp add: UpdateFlightLoop_def Let_def arm_gesture_def compass_gesture_def disarm_gesture_def
      StartCompassCalibrate_def UpdateFlightLEDColor_color)

lemma main_led_LEDModeColor:
  "LEDModeColor (main_led K i s) =
     (if UseBattMon (Prefs s) \<noteq> 0 \<and> BatteryMonitorDelay s > 0 then LED_Blue K else LEDModeColor s)"
  by (simp add: main_led_def main_battery_def Let_def All_LED_def emit_def)

lemma main_tick_LEDModeColor:
  assumes "FlightMode s \<noteq> FlightMode_CalibrateCompass"
  shows "LEDModeColor (main_tick K i s) =
     (if UseBattMon (Prefs s) \<noteq> 0 \<and> BatteryMonitorDelay s > 0 then LED_Blue K
      else if FlightEnabled s = 0 \<and> arm_gesture (in_Radio i) then LED_Yellow K AND LED_Half K
      else if FlightEnabled s = 0 \<and> compass_gesture (in_Radio i)
        then (LED_Blue K OR LED_Red K) AND LED_Half K
      else if FlightEnabled s \<noteq> 0 \<and> disarm_gesture (in_Radio i) then LED_Yellow K AND LED_Half K
      else (case led_tuple K (main_flight_mode (main_intake i s)) of
              (fm, en, hold, lb, cnt) \<Rightarrow> FlightLEDColor K fm en hold lb cnt))"
proof -
  let ?t = "main_flight_mode (main_intake i s)"
  have "LEDModeColor (main_tick K i s) = LEDModeColor (main_led K i (UpdateFlightLoop K i ?t))"
    using assms by (simp add: main_tick_def Let_def)
  also have "\<dots> = (if UseBattMon (Prefs s) \<noteq> 0 \<and> BatteryMonitorDelay s > 0 then LED_Blue K
      else LEDModeColor (UpdateFlightLoop K i ?t))"
    by (simp add: main_led_LEDModeColor)
  finally show ?thesis
    by (simp add: UpdateFlightLoop_LEDModeColor main_intake_Radio led_tuple_def)
qed

lemma CheckDebugInput_NudgeMotor:
  "NudgeMotor (CheckDebugInput K i s) = 5 \<Longrightarrow> led_test i s"
  by (auto simp add: CheckDebugInput_def Let_def led_test_def split: if_splits)

lemma NudgeMotor_test_LEDValue:
  "NudgeMotor s \<noteq> 5 \<Longrightarrow> LEDValue (NudgeMotor_test i s) = LEDValue s"
  by (simp add: NudgeMotor_test_def Let_def)

lemma DoDebugModeOutput_LEDValue:
  "NudgeMotor s \<noteq> 5 \<Longrightarrow> LEDValue (DoDebugModeOutput K i s) = LEDValue s"
  by (simp add: DoDebugModeOutput_def DoDebugModeOutput_send_def Let_def NudgeMotor_test_LEDValue)

lemma main_tick_unfold:
  "main_tick K i s =
     (DoDebugModeOutput K i (CheckDebugInput K i (main_estimates i (main_led K i
        (if FlightMode (main_intake i s) = FlightMode_CalibrateCompass
         then DoCompassCalibrate (main_intake i s)
         else UpdateFlightLoop K i (main_flight_mode (main_intake i s)))))))
     \<lparr>counter := counter (DoDebugModeOutput K i (CheckDebugInput K i (main_estimates i (main_led K i
        (if FlightMode (main_intake i s) = FlightMode_CalibrateCompass
         then DoCompassCalibrate (main_intake i s)
         else UpdateFlightLoop K i (main_flight_mode (main_intake i s))))))) + 1\<rparr>"
  by (simp add: main_tick_def Let_def)

lemma main_tick_LEDValue:
  assumes "\<not> led_test i s"
  shows "LEDValue (main_tick K i s) = LEDModeColor (main_tick K i s)"
proof -
  define s4 where "s4 =
     (if FlightMode (main_intake i s) = FlightMode_CalibrateCompass
      then DoCompassCalibrate (main_intake i s)
      else UpdateFlightLoop K i (main_flight_mode (main_intake i s)))"
  define s8 where "s8 = main_estimates i (main_led K i s4)"
  have n4: "NudgeMotor s4 = NudgeMotor s"
    by (simp add: s4_def DoCompassCalibrate_def)
  have n8: "NudgeMotor s8 = NudgeMotor s"
    by (simp add: s8_def n4)
  have "\<not> led_test i s8"
    using assms n8 by (simp add: led_test_def)
  then have n9: "NudgeMotor (CheckDebugInput K i s8) \<noteq> 5"
    using CheckDebugInput_NudgeMotor by blast
  have "LEDValue (main_tick K i s) = LEDValue (DoDebugModeOutput K i (CheckDebugInput K i s8))"
    unfolding main_tick_unfold s8_def s4_def by simp
  also have "\<dots> = LEDValue (CheckDebugInput K i s8)"
    using n9 by (rule DoDebugModeOutput_LEDValue)
  also have "\<dots> = LEDModeColor (main_led K i s4)"
    by (simp add: s8_def main_led_def Let_def All_LED_def)
  finally have a: "LEDValue (main_tick K i s) = LEDModeColor (main_led K i s4)" .
  have "LEDModeColor (main_tick K i s) = LEDModeColor (main_led K i s4)"
    unfolding main_tick_unfold s4_def by simp
  with a show ?thesis by simp
qed

lemma fold_All_LED:
  "0 < n \<Longrightarrow> LEDValue (fold (\<lambda>k. All_LED (f k)) [0..<n] s) = f (n - 1)"
  by (cases n) (simp_all add: All_LED_def)

lemma NudgeMotor_test_LED_test:
  "NudgeMotor s = 5 \<Longrightarrow> LEDValue (NudgeMotor_test i s) = 0xFF0000"
  by (simp add: NudgeMotor_test_def Let_def fold_All_LED del: upt_rec_numeral)

lemma CheckDebugInput_0x0D:
  "in_S4_Check0 i = 0x0D \<Longrightarrow> MODE_MotorTest K < 0x0D \<Longrightarrow>
     CheckDebugInput K i s = s\<lparr>NudgeMotor := 5\<rparr>"
  by (simp add: CheckDebugInput_def Let_def)

lemma DoDebugModeOutput_LED_test:
  assumes "UsbPulse s = 0" and "XBeePulse s = 0" and "Mode s \<noteq> MODE_None K"
    and "NudgeMotor s = 5"
  shows "LEDValue (DoDebugModeOutput K i s) = 0xFF0000"
  using assms
  by (simp add: DoDebugModeOutput_def DoDebugModeOutput_send_def Let_def NudgeMotor_test_LED_test)

lemma main_tick_LED_test:
  assumes c: "in_S4_Check0 i = 0x0D" and k: "MODE_MotorTest K < 0x0D"
    and u: "UsbPulse s = 0" and x: "XBeePulse s = 0" and m: "Mode s \<noteq> MODE_None K"
  shows "LEDValue (main_tick K i s) = 0xFF0000"
proof -
  define s4 where "s4 =
     (if FlightMode (main_intake i s) = FlightMode_CalibrateCompass
      then DoCompassCalibrate (main_intake i s)
      else UpdateFlightLoop K i (main_flight_mode (main_intake i s)))"
  define s8 where "s8 = main_estimates i (main_led K i s4)"
  have f4: "UsbPulse s4 = UsbPulse s" "XBeePulse s4 = XBeePulse s" "Mode s4 = Mode s"
    by (simp_all add: s4_def DoCompassCalibrate_def)
  have f8: "UsbPulse s8 = 0" "XBeePulse s8 = 0" "Mode s8 \<noteq> MODE_None K"
    using u x m by (simp_all add: s8_def f4)
  have e: "CheckDebugInput K i s8 = s8\<lparr>NudgeMotor := 5\<rparr>"
    using c k by (rule CheckDebugInput_0x0D)
  have "LEDValue (main_tick K i s) = LEDValue (DoDebugModeOutput K i (CheckDebugInput K i s8))"
    unfolding main_tick_unfold s8_def s4_def by simp
  also have "\<dots> = LEDValue (DoDebugModeOutput K i (s8\<lparr>NudgeMotor := 5\<rparr>))"
    by (simp only: e)
  also have "\<dots> = 0xFF0000"
    by (rule DoDebugModeOutput_LED_test) (simp_all add: f8)
  finally show ?thesis .
qed

text \<open>
  Claim C9, as amended. The colour computed by \<open>UpdateFlightLEDColor\<close> is a function of
  the flight mode, the arm flag, the hold flag, the low-battery flag and the loop
  counter alone. The colour the main loop passes to \<open>All_LED\<close> in a pass outside
  compass calibration (the value of \<open>LEDModeColor\<close>, which is not written after that
  call) is that colour, taken on the five values as the flight mode switch of the pass
  leaves them, unless the battery monitor is in its start-up delay (blue) or a stick
  gesture is held (half yellow while arming or disarming, half blue-red for the compass
  gesture). The LEDs hold the colour passed by the main loop at the end of the pass
  unless the LED test (nudge command 5) is pending or commanded in the pass. So two
  passes without such an override, without the LED test and with equal five values
  leave equal colours on the LEDs.
\<close>

theorem led_color_function:
  "LEDModeColor (UpdateFlightLEDColor K s) =
     FlightLEDColor K (FlightMode s) (FlightEnabled s) (IsHolding s) (LowBatt K s) (counter s)
   \<and> LEDValue (main_led K i s) = LEDModeColor (main_led K i s)
   \<and> (FlightMode s \<noteq> FlightMode_CalibrateCompass \<longrightarrow>
        LEDModeColor (main_tick K i s) =
          (if UseBattMon (Prefs s) \<noteq> 0 \<and> BatteryMonitorDelay s > 0 then LED_Blue K
           else if FlightEnabled s = 0 \<and> arm_gesture (in_Radio i) then LED_Yellow K AND LED_Half K
           else if FlightEnabled s = 0 \<and> compass_gesture (in_Radio i)
             then (LED_Blue K OR LED_Red K) AND LED_Half K
           else if FlightEnabled s \<noteq> 0 \<and> disarm_gesture (in_Radio i) then LED_Yellow K AND LED_Half K
           else (case led_tuple K (main_flight_mode (main_intake i s)) of
                   (fm, en, hold, lb, cnt) \<Rightarrow> FlightLEDColor K fm en hold lb cnt)))
   \<and> (FlightMode s1 \<noteq> FlightMode_CalibrateCompass \<and> FlightMode s2 \<noteq> FlightMode_CalibrateCompass
        \<and> \<not> led_override i1 s1 \<and> \<not> led_override i2 s2
        \<and> led_tuple K (main_flight_mode (main_intake i1 s1))
            = led_tuple K (main_flight_mode (main_intake i2 s2)) \<longrightarrow>
        LEDModeColor (main_tick K i1 s1) = LEDModeColor (main_tick K i2 s2))
   \<and> (\<not> led_test i s \<longrightarrow> LEDValue (main_tick K i s) = LEDModeColor (main_tick K i s))
   \<and> (FlightMode s1 \<noteq> FlightMode_CalibrateCompass \<and> FlightMode s2 \<noteq> FlightMode_CalibrateCompass
        \<and> \<not> led_override i1 s1 \<and> \<not> led_override i2 s2
        \<and> \<not> led_test i1 s1 \<and> \<not> led_test i2 s2
        \<and> led_tuple K (main_flight_mode (main_intake i1 s1))
            = led_tuple K (main_flight_mode (main_intake i2 s2)) \<longrightarrow>
        LEDValue (main_tick K i1 s1) = LEDValue (main_tick K i2 s2))"
proof -
  have eq: "LEDModeColor (main_tick K i1 s1) = LEDModeColor (main_tick K i2 s2)"
    if h: "FlightMode s1 \<noteq> FlightMode_CalibrateCompass" "FlightMode s2 \<noteq> FlightMode_CalibrateCompass"
        "\<not> led_override i1 s1" "\<not> led_override i2 s2"
        "led_tuple K (main_flight_mode (main_intake i1 s1))
            = led_tuple K (main_flight_mode (main_intake i2 s2))"
  proof -
    from h(1,3) main_tick_LEDModeColor [of s1 K i1]
    have a: "LEDModeColor (main_tick K i1 s1) =
        (case led_tuple K (main_flight_mode (main_intake i1 s1)) of
                (fm, en, hold, lb, cnt) \<Rightarrow> FlightLEDColor K fm en hold lb cnt)"
      by (auto simp add: led_override_def)
    from h(2,4) main_tick_LEDModeColor [of s2 K i2]
    have b: "LEDModeColor (main_tick K i2 s2) =
        (case led_tuple K (main_flight_mode (main_intake i2 s2)) of
                (fm, en, hold, lb, cnt) \<Rightarrow> FlightLEDColor K fm en hold lb cnt)"
      by (auto simp add: led_override_def)
    show ?thesis by (simp only: a b h(5))
  qed
  show ?thesis
  proof (intro conjI impI)
    show "LEDModeColor (UpdateFlightLEDColor K s) =
       FlightLEDColor K (FlightMode s) (FlightEnabled s) (IsHolding s) (LowBatt K s) (counter s)"
      by (rule UpdateFlightLEDColor_color)
    show "LEDValue (main_led K i s) = LEDModeColor (main_led K i s)"
      by (simp add: main_led_def Let_def All_LED_def)
  next
    assume "FlightMode s \<noteq> FlightMode_CalibrateCompass"
    then show "LEDModeColor (main_tick K i s) =
            (if UseBattMon (Prefs s) \<noteq> 0 \<and> BatteryMonitorDelay s > 0 then LED_Blue K
             else if FlightEnabled s = 0 \<and> arm_gesture (in_Radio i) then LED_Yellow K AND LED_Half K
             else if FlightEnabled s = 0 \<and> compass_gesture (in_Radio i)
               then (LED_Blue K OR LED_Red K) AND LED_Half K
             else if FlightEnabled s \<noteq> 0 \<and> disarm_gesture (in_Radio i) then LED_Yellow K AND LED_Half K
             else (case led_tuple K (main_flight_mode (main_intake i s)) of
                     (fm, en, hold, lb, cnt) \<Rightarrow> FlightLEDColor K fm en hold lb cnt))"
      by (rule main_tick_LEDModeColor)
  next
    assume "FlightMode s1 \<noteq> FlightMode_CalibrateCompass \<and> FlightMode s2 \<noteq> FlightMode_CalibrateCompass
          \<and> \<not> led_override i1 s1 \<and> \<not> led_override i2 s2
          \<and> led_tuple K (main_flight_mode (main_intake i1 s1))
              = led_tuple K (main_flight_mode (main_intake i2 s2))"
    then show "LEDModeColor (main_tick K i1 s1) = LEDModeColor (main_tick K i2 s2)"
      using eq by blast
  next
    assume "\<not> led_test i s"
    then show "LEDValue (main_tick K i s) = LEDModeColor (main_tick K i s)"
      by (rule main_tick_LEDValue)
  next
    assume h: "FlightMode s1 \<noteq> FlightMode_CalibrateCompass \<and> FlightMode s2 \<noteq> FlightMode_CalibrateCompass
          \<and> \<not> led_override i1 s1 \<and> \<not> led_override i2 s2
          \<and> \<not> led_test i1 s1 \<and> \<not> led_test i2 s2
          \<and> led_tuple K (main_flight_mode (main_intake i1 s1))
              = led_tuple K (main_flight_mode (main_intake i2 s2))"
    then have "LEDModeColor (main_tick K i1 s1) = LEDModeColor (main_tick K i2 s2)"
      using eq by blast
    moreover from h have "LEDValue (main_tick K i1 s1) = LEDModeColor (main_tick K i1 s1)"
      "LEDValue (main_tick K i2 s2) = LEDModeColor (main_tick K i2 s2)"
      by (simp_all add: main_tick_LEDValue)
    ultimately show "LEDValue (main_tick K i1 s1) = LEDValue (main_tick K i2 s2)"
      by simp
  qed
qed

lemma sample_tuple:
  "led_tuple sample_consts (main_flight_mode (main_intake (sample_in\<lparr>in_Radio := r\<rparr>) (sample_state\<lparr>DesiredAltitude := d\<rparr>)))
     = (if Gear r > 512 then FlightMode_Assisted
        else if Gear r < -512 then FlightMode_Manual else FlightMode_Automatic, 0, 0, 0, 0)"
  by (simp add: led_tuple_def main_flight_mode_def NewFlightMode_def main_intake_Radio Let_def
      LowBatt_def sample_state_def sample_prefs_def)

lemma sample_color: "FlightLEDColor sample_consts FlightMode_Assisted 0 0 0 0 = 0xFF00FF"
  by (simp add: FlightLEDColor_def LEDColorTable_def sample_consts_def)

text \<open>
  Claim C9 as stated fails: from the same state, with the same five values, centred
  sticks leave the mode colour on the LEDs and the arming gesture leaves half yellow.
  The LED test is a second case: in the motor test display, with the same five values
  and centred sticks, the byte 0x0D on USB leaves the last colour of the test on the
  LEDs.
\<close>

theorem led_color_counterexample:
  "led_tuple sample_consts (main_flight_mode (main_intake sample_in sample_state))
     = led_tuple sample_consts
         (main_flight_mode (main_intake (sample_in\<lparr>in_Radio := arm_radio\<rparr>) sample_state))
   \<and> LEDModeColor (main_tick sample_consts sample_in sample_state) = 0xFF00FF
   \<and> LEDModeColor (main_tick sample_consts (sample_in\<lparr>in_Radio := arm_radio\<rparr>) sample_state) = 0x7F7F00
   \<and> LEDModeColor (main_tick sample_consts sample_in sample_state)
       \<noteq> LEDModeColor (main_tick sample_consts (sample_in\<lparr>in_Radio := arm_radio\<rparr>) sample_state)
   \<and> LEDValue (main_tick sample_consts sample_in sample_state) = 0xFF00FF
   \<and> LEDValue (main_tick sample_consts (sample_in\<lparr>in_Radio := arm_radio\<rparr>) sample_state) = 0x7F7F00
   \<and> led_tuple sample_consts (main_flight_mode (main_intake sample_in sample_state))
     = led_tuple sample_consts
         (main_flight_mode (main_intake (sample_in\<lparr>in_S4_Check0 := 0x0D\<rparr>) (sample_state\<lparr>Mode := 3\<rparr>)))
   \<and> LEDValue (main_tick sample_consts (sample_in\<lparr>in_S4_Check0 := 0x0D\<rparr>) (sample_state\<lparr>Mode := 3\<rparr>))
       = 0xFF0000"
proof -
  have c: "FlightMode sample_state \<noteq> FlightMode_CalibrateCompass" by (simp add: sample_state_def)
  have s: "sample_state = sample_state\<lparr>DesiredAltitude := 0\<rparr>"
    "sample_in = sample_in\<lparr>in_Radio := sample_radio\<rparr>"
    by (simp_all add: sample_state_def sample_in_def)
  have t1: "led_tuple sample_consts (main_flight_mode (main_intake sample_in sample_state))
      = (FlightMode_Assisted, 0, 0, 0, 0)"
    by (subst s(1), subst s(2)) (simp add: sample_tuple sample_radio_def)
  have t2: "led_tuple sample_consts
         (main_flight_mode (main_intake (sample_in\<lparr>in_Radio := arm_radio\<rparr>) sample_state))
      = (FlightMode_Assisted, 0, 0, 0, 0)"
    by (subst s(1)) (simp add: sample_tuple sample_radio_def arm_radio_def)
  have t3: "led_tuple sample_consts
         (main_flight_mode (main_intake (sample_in\<lparr>in_S4_Check0 := 0x0D\<rparr>) (sample_state\<lparr>Mode := 3\<rparr>)))
      = (FlightMode_Assisted, 0, 0, 0, 0)"
    by (simp add: led_tuple_def main_flight_mode_def NewFlightMode_def main_intake_Radio Let_def
        LowBatt_def sample_state_def sample_prefs_def sample_in_def sample_radio_def)
  have p: "UseBattMon (Prefs sample_state) = 0" "FlightEnabled sample_state = 0"
    by (simp_all add: sample_state_def sample_prefs_def)
  have g: "\<not> arm_gesture (in_Radio sample_in)" "\<not> compass_gesture (in_Radio sample_in)"
    "arm_gesture (in_Radio (sample_in\<lparr>in_Radio := arm_radio\<rparr>))"
    by (simp_all add: arm_gesture_def compass_gesture_def sample_in_def sample_radio_def arm_radio_def)
  have a: "LEDModeColor (main_tick sample_consts sample_in sample_state) = 0xFF00FF"
    by (simp add: main_tick_LEDModeColor [OF c] p g t1 sample_color)
  have b: "LEDModeColor (main_tick sample_consts (sample_in\<lparr>in_Radio := arm_radio\<rparr>) sample_state) = 0x7F7F00"
    using g(3) by (simp add: main_tick_LEDModeColor [OF c] p sample_consts_def)
  have n: "\<not> led_test sample_in sample_state"
    "\<not> led_test (sample_in\<lparr>in_Radio := arm_radio\<rparr>) sample_state"
    by (simp_all add: led_test_def sample_in_def sample_state_def)
  have va: "LEDValue (main_tick sample_consts sample_in sample_state) = 0xFF00FF"
    by (simp only: main_tick_LEDValue [OF n(1)] a)
  have vb: "LEDValue (main_tick sample_consts (sample_in\<lparr>in_Radio := arm_radio\<rparr>) sample_state) = 0x7F7F00"
    by (simp only: main_tick_LEDValue [OF n(2)] b)
  have vc: "LEDValue (main_tick sample_consts (sample_in\<lparr>in_S4_Check0 := 0x0D\<rparr>) (sample_state\<lparr>Mode := 3\<rparr>))
       = 0xFF0000"
    by (rule main_tick_LED_test) (simp_all add: sample_in_def sample_consts_def sample_state_def)
  from t1 t2 t3 a b va vb vc show ?thesis by simp
qed

text \<open>
  Two passes with different throttle and altitude target, no override, no LED test and
  equal five values.
\<close>

theorem led_color_function_witness:
  "FlightMode sample_state \<noteq> FlightMode_CalibrateCompass
   \<and> FlightMode (sample_state\<lparr>DesiredAltitude := 5\<rparr>) \<noteq> FlightMode_CalibrateCompass
   \<and> \<not> led_override sample_in sample_state
   \<and> \<not> led_override (sample_in\<lparr>in_Radio := sample_radio\<lparr>Thro := 300\<rparr>\<rparr>) (sample_state\<lparr>DesiredAltitude := 5\<rparr>)
   \<and> \<not> led_test sample_in sample_state
   \<and> \<not> led_test (sample_in\<lparr>in_Radio := sample_radio\<lparr>Thro := 300\<rparr>\<rparr>) (sample_state\<lparr>DesiredAltitude := 5\<rparr>)
   \<and> led_tuple sample_consts (main_flight_mode (main_intake sample_in sample_state))
       = led_tuple sample_consts (main_flight_mode
           (main_intake (sample_in\<lparr>in_Radio := sample_radio\<lparr>Thro := 300\<rparr>\<rparr>) (sample_state\<lparr>DesiredAltitude := 5\<rparr>)))
   \<and> LEDModeColor (main_tick sample_consts sample_in sample_state)
       = LEDModeColor (main_tick sample_consts (sample_in\<lparr>in_Radio := sample_radio\<lparr>Thro := 300\<rparr>\<rparr>)
           (sample_state\<lparr>DesiredAltitude := 5\<rparr>))
   \<and> LEDValue (main_tick sample_consts sample_in sample_state)
       = LEDModeColor (main_tick sample_consts sample_in sample_state)
   \<and> LEDValue (main_tick sample_consts sample_in sample_state)
       = LEDValue (main_tick sample_consts (sample_in\<lparr>in_Radio := sample_radio\<lparr>Thro := 300\<rparr>\<rparr>)
           (sample_state\<lparr>DesiredAltitude := 5\<rparr>))"
proof -
  let ?i2 = "sample_in\<lparr>in_Radio := sample_radio\<lparr>Thro := 300\<rparr>\<rparr>"
  let ?s2 = "sample_state\<lparr>DesiredAltitude := 5\<rparr>"
  have c: "FlightMode sample_state \<noteq> FlightMode_CalibrateCompass"
    "FlightMode ?s2 \<noteq> FlightMode_CalibrateCompass"
    by (simp_all add: sample_state_def)
  have o: "\<not> led_override sample_in sample_state" "\<not> led_override ?i2 ?s2"
    by (simp_all add: led_override_def arm_gesture_def compass_gesture_def disarm_gesture_def
        sample_in_def sample_state_def sample_prefs_def sample_radio_def)
  have n: "\<not> led_test sample_in sample_state" "\<not> led_test ?i2 ?s2"
    by (simp_all add: led_test_def sample_in_def sample_state_def)
  have s: "sample_state = sample_state\<lparr>DesiredAltitude := 0\<rparr>"
    "sample_in = sample_in\<lparr>in_Radio := sample_radio\<rparr>"
    by (simp_all add: sample_state_def sample_in_def)
  have t1: "led_tuple sample_consts (main_flight_mode (main_intake sample_in sample_state))
      = (FlightMode_Assisted, 0, 0, 0, 0)"
    by (subst s(1), subst s(2)) (simp add: sample_tuple sample_radio_def)
  have t2: "led_tuple sample_consts (main_flight_mode (main_intake ?i2 ?s2))
      = (FlightMode_Assisted, 0, 0, 0, 0)"
    by (simp add: sample_tuple sample_radio_def)
  have e: "led_tuple sample_consts (main_flight_mode (main_intake sample_in sample_state))
       = led_tuple sample_consts (main_flight_mode (main_intake ?i2 ?s2))"
    by (simp only: t1 t2)
  note r = led_color_function [of sample_consts sample_state sample_in sample_state ?s2 sample_in ?i2]
  from r c o e
  have x: "LEDModeColor (main_tick sample_consts sample_in sample_state)
       = LEDModeColor (main_tick sample_consts ?i2 ?s2)"
    by blast
  from r n(1)
  have y: "LEDValue (main_tick sample_consts sample_in sample_state)
       = LEDModeColor (main_tick sample_consts sample_in sample_state)"
    by blast
  from r c o n e
  have z: "LEDValue (main_tick sample_consts sample_in sample_state)
       = LEDValue (main_tick sample_consts ?i2 ?s2)"
    by blast
  from c o n e x y z show ?thesis by blast
qed

end
